theory Spec2Isabelle
  imports Main "HOL-Library.Word"
begin

unbundle bit_operations_syntax

section \<open>Enumerations and their requirement tables (SPIRVEnums.h)\<close>

text \<open>
  Every SPIR-V enumeration is generated from an X-macro list \<open>DEF_<Enum>(N, X)\<close> whose
  lines are \<open>X(N, Var, Val, Caps, Exts, MinVer, MaxVer)\<close>. \<open>DEF_ENUM\<close> turns the list
  into \<open>enum class <Enum> : uint32_t { Var = Val, ... }\<close>, so an enumerator is its
  numeric value; the values stay far below \<open>2^32\<close> and no arithmetic is done on
  them, so they are natural numbers here. Versions are \<open>uint32_t\<close> words in the
  format \<open>0|Major|Minor|Rev\<close>, \<open>0\<close> meaning unspecified.
\<close>

type_synonym Capability = nat

text \<open>
  Modelled from the spec: \<open>SPIRVExtensions.h\<close>, which declares
  \<open>Extension::Extension\<close>, is not part of the sources at hand. The enumerators below
  are the extension names that \<open>SPIRVEnums.h\<close> and \<open>SPIRVSubtarget.cpp\<close> mention.
\<close>

datatype Extension =
    SPV_KHR_shader_ballot
  | SPV_KHR_shader_draw_parameters
  | SPV_KHR_subgroup_vote
  | SPV_KHR_16bit_storeage
  | SPV_KHR_device_group
  | SPV_KHR_multiview
  | SPV_KHR_variable_pointers
  | SPV_KHR_shader_atomic_counter_ops
  | SPV_KHR_post_depth_coverage
  | SPV_KHR_8bit_storage
  | SPV_KHR_float_controls
  | SPV_KHR_no_integer_wrap_decoration
  | SPV_AMD_shader_trinary_minmax

text \<open>One line \<open>X(N, Var, Val, Caps, Exts, MinVer, MaxVer)\<close> of a table, without \<open>Var\<close>.\<close>

datatype EnumEntry =
  Entry (Val: nat) (Caps: "Capability list") (Exts: "Extension list")
        (MinVer: "32 word") (MaxVer: "32 word")

text \<open>
  The enumerators of \<open>enum class Capability : uint32_t\<close>, generated by
  \<open>DEF_ENUM\<close> from \<open>DEF_Capability\<close> (\<open>MAKE_ENUM\<close>: \<open>Var = Val\<close>).
\<close>

abbreviation (input) Capability_Matrix :: Capability where "Capability_Matrix \<equiv> 0"
abbreviation (input) Capability_Shader :: Capability where "Capability_Shader \<equiv> 1"
abbreviation (input) Capability_Geometry :: Capability where "Capability_Geometry \<equiv> 2"
abbreviation (input) Capability_Tessellation :: Capability where "Capability_Tessellation \<equiv> 3"
abbreviation (input) Capability_Addresses :: Capability where "Capability_Addresses \<equiv> 4"
abbreviation (input) Capability_Linkage :: Capability where "Capability_Linkage \<equiv> 5"
abbreviation (input) Capability_Kernel :: Capability where "Capability_Kernel \<equiv> 6"
abbreviation (input) Capability_Vector16 :: Capability where "Capability_Vector16 \<equiv> 7"
abbreviation (input) Capability_Float16Buffer :: Capability where "Capability_Float16Buffer \<equiv> 8"
abbreviation (input) Capability_Float16 :: Capability where "Capability_Float16 \<equiv> 9"
abbreviation (input) Capability_Float64 :: Capability where "Capability_Float64 \<equiv> 10"
abbreviation (input) Capability_Int64 :: Capability where "Capability_Int64 \<equiv> 11"
abbreviation (input) Capability_Int64Atomics :: Capability where "Capability_Int64Atomics \<equiv> 12"
abbreviation (input) Capability_ImageBasic :: Capability where "Capability_ImageBasic \<equiv> 13"
abbreviation (input) Capability_ImageReadWrite :: Capability where "Capability_ImageReadWrite \<equiv> 14"
abbreviation (input) Capability_ImageMipmap :: Capability where "Capability_ImageMipmap \<equiv> 15"
abbreviation (input) Capability_Pipes :: Capability where "Capability_Pipes \<equiv> 17"
abbreviation (input) Capability_Groups :: Capability where "Capability_Groups \<equiv> 18"
abbreviation (input) Capability_DeviceEnqueue :: Capability where "Capability_DeviceEnqueue \<equiv> 19"
abbreviation (input) Capability_LiteralSampler :: Capability where "Capability_LiteralSampler \<equiv> 20"
abbreviation (input) Capability_AtomicStorage :: Capability where "Capability_AtomicStorage \<equiv> 21"
abbreviation (input) Capability_Int16 :: Capability where "Capability_Int16 \<equiv> 22"
abbreviation (input) Capability_TessellationPointSize :: Capability where "Capability_TessellationPointSize \<equiv> 23"
abbreviation (input) Capability_GeometryPointSize :: Capability where "Capability_GeometryPointSize \<equiv> 24"
abbreviation (input) Capability_ImageGatherExtended :: Capability where "Capability_ImageGatherExtended \<equiv> 25"
abbreviation (input) Capability_StorageImageMultisample :: Capability where "Capability_StorageImageMultisample \<equiv> 27"
abbreviation (input) Capability_UniformBufferArrayDynamicIndexing :: Capability where "Capability_UniformBufferArrayDynamicIndexing \<equiv> 28"
abbreviation (input) Capability_SampledImageArrayDymnamicIndexing :: Capability where "Capability_SampledImageArrayDymnamicIndexing \<equiv> 29"
abbreviation (input) Capability_ClipDistance :: Capability where "Capability_ClipDistance \<equiv> 32"
abbreviation (input) Capability_CullDistance :: Capability where "Capability_CullDistance \<equiv> 33"
abbreviation (input) Capability_ImageCubeArray :: Capability where "Capability_ImageCubeArray \<equiv> 34"
abbreviation (input) Capability_SampleRateShading :: Capability where "Capability_SampleRateShading \<equiv> 35"
abbreviation (input) Capability_ImageRect :: Capability where "Capability_ImageRect \<equiv> 36"
abbreviation (input) Capability_SampledRect :: Capability where "Capability_SampledRect \<equiv> 37"
abbreviation (input) Capability_GenericPointer :: Capability where "Capability_GenericPointer \<equiv> 38"
abbreviation (input) Capability_Int8 :: Capability where "Capability_Int8 \<equiv> 39"
abbreviation (input) Capability_InputAttachment :: Capability where "Capability_InputAttachment \<equiv> 40"
abbreviation (input) Capability_SparseResidency :: Capability where "Capability_SparseResidency \<equiv> 41"
abbreviation (input) Capability_MinLod :: Capability where "Capability_MinLod \<equiv> 42"
abbreviation (input) Capability_Sampled1D :: Capability where "Capability_Sampled1D \<equiv> 43"
abbreviation (input) Capability_Image1D :: Capability where "Capability_Image1D \<equiv> 44"
abbreviation (input) Capability_SampledCubeArray :: Capability where "Capability_SampledCubeArray \<equiv> 45"
abbreviation (input) Capability_SampledBuffer :: Capability where "Capability_SampledBuffer \<equiv> 46"
abbreviation (input) Capability_ImageBuffer :: Capability where "Capability_ImageBuffer \<equiv> 47"
abbreviation (input) Capability_ImageMSArray :: Capability where "Capability_ImageMSArray \<equiv> 48"
abbreviation (input) Capability_StorageImageExtendedFormats :: Capability where "Capability_StorageImageExtendedFormats \<equiv> 49"
abbreviation (input) Capability_ImageQuery :: Capability where "Capability_ImageQuery \<equiv> 50"
abbreviation (input) Capability_DerivativeControl :: Capability where "Capability_DerivativeControl \<equiv> 51"
abbreviation (input) Capability_InterpolationFunction :: Capability where "Capability_InterpolationFunction \<equiv> 52"
abbreviation (input) Capability_TransformFeedback :: Capability where "Capability_TransformFeedback \<equiv> 53"
abbreviation (input) Capability_GeometryStreams :: Capability where "Capability_GeometryStreams \<equiv> 54"
abbreviation (input) Capability_StorageImageReadWithoutFormat :: Capability where "Capability_StorageImageReadWithoutFormat \<equiv> 55"
abbreviation (input) Capability_StorageImageWriteWithoutFormat :: Capability where "Capability_StorageImageWriteWithoutFormat \<equiv> 56"
abbreviation (input) Capability_MultiViewport :: Capability where "Capability_MultiViewport \<equiv> 57"
abbreviation (input) Capability_SubgroupDispatch :: Capability where "Capability_SubgroupDispatch \<equiv> 58"
abbreviation (input) Capability_NamedBarrier :: Capability where "Capability_NamedBarrier \<equiv> 59"
abbreviation (input) Capability_PipeStorage :: Capability where "Capability_PipeStorage \<equiv> 60"
abbreviation (input) Capability_GroupNonUniform :: Capability where "Capability_GroupNonUniform \<equiv> 61"
abbreviation (input) Capability_GroupNonUniformVote :: Capability where "Capability_GroupNonUniformVote \<equiv> 62"
abbreviation (input) Capability_GroupNonUniformArithmetic :: Capability where "Capability_GroupNonUniformArithmetic \<equiv> 63"
abbreviation (input) Capability_GroupNonUniformBallot :: Capability where "Capability_GroupNonUniformBallot \<equiv> 64"
abbreviation (input) Capability_GroupNonUniformShuffle :: Capability where "Capability_GroupNonUniformShuffle \<equiv> 65"
abbreviation (input) Capability_GroupNonUniformShuffleRelative :: Capability where "Capability_GroupNonUniformShuffleRelative \<equiv> 66"
abbreviation (input) Capability_GroupNonUniformClustered :: Capability where "Capability_GroupNonUniformClustered \<equiv> 67"
abbreviation (input) Capability_GroupNonUniformQuad :: Capability where "Capability_GroupNonUniformQuad \<equiv> 68"
abbreviation (input) Capability_SubgroupBallotKHR :: Capability where "Capability_SubgroupBallotKHR \<equiv> 4423"
abbreviation (input) Capability_DrawParameters :: Capability where "Capability_DrawParameters \<equiv> 4427"
abbreviation (input) Capability_SubgroupVoteKHR :: Capability where "Capability_SubgroupVoteKHR \<equiv> 4431"
abbreviation (input) Capability_StorageBuffer16BitAccess :: Capability where "Capability_StorageBuffer16BitAccess \<equiv> 4433"
abbreviation (input) Capability_StorageUniform16 :: Capability where "Capability_StorageUniform16 \<equiv> 4434"
abbreviation (input) Capability_StoragePushConstant16 :: Capability where "Capability_StoragePushConstant16 \<equiv> 4435"
abbreviation (input) Capability_StorageInputOutput16 :: Capability where "Capability_StorageInputOutput16 \<equiv> 4436"
abbreviation (input) Capability_DeviceGroup :: Capability where "Capability_DeviceGroup \<equiv> 4437"
abbreviation (input) Capability_MultiView :: Capability where "Capability_MultiView \<equiv> 4439"
abbreviation (input) Capability_VariablePointersStorageBuffer :: Capability where "Capability_VariablePointersStorageBuffer \<equiv> 4441"
abbreviation (input) Capability_VariablePointers :: Capability where "Capability_VariablePointers \<equiv> 4442"
abbreviation (input) Capability_AtomicStorageOps :: Capability where "Capability_AtomicStorageOps \<equiv> 4445"
abbreviation (input) Capability_SampleMaskPostDepthCoverage :: Capability where "Capability_SampleMaskPostDepthCoverage \<equiv> 4447"
abbreviation (input) Capability_StorageBuffer8BitAccess :: Capability where "Capability_StorageBuffer8BitAccess \<equiv> 4448"
abbreviation (input) Capability_UniformAndStorageBuffer8BitAccess :: Capability where "Capability_UniformAndStorageBuffer8BitAccess \<equiv> 4449"
abbreviation (input) Capability_StoragePushConstant8 :: Capability where "Capability_StoragePushConstant8 \<equiv> 4450"
abbreviation (input) Capability_DenormPreserve :: Capability where "Capability_DenormPreserve \<equiv> 4464"
abbreviation (input) Capability_DenormFlushToZero :: Capability where "Capability_DenormFlushToZero \<equiv> 4465"
abbreviation (input) Capability_SignedZeroInfNanPreserve :: Capability where "Capability_SignedZeroInfNanPreserve \<equiv> 4466"
abbreviation (input) Capability_RoundingModeRTE :: Capability where "Capability_RoundingModeRTE \<equiv> 4467"
abbreviation (input) Capability_RoundingModeRTZ :: Capability where "Capability_RoundingModeRTZ \<equiv> 4468"
abbreviation (input) Capability_Float16ImageAMD :: Capability where "Capability_Float16ImageAMD \<equiv> 5008"
abbreviation (input) Capability_ImageGatherBiasLodAMD :: Capability where "Capability_ImageGatherBiasLodAMD \<equiv> 5009"
abbreviation (input) Capability_FragmentMaskAMD :: Capability where "Capability_FragmentMaskAMD \<equiv> 5010"
abbreviation (input) Capability_StencilExportEXT :: Capability where "Capability_StencilExportEXT \<equiv> 5013"
abbreviation (input) Capability_ImageReadWriteLodAMD :: Capability where "Capability_ImageReadWriteLodAMD \<equiv> 5015"
abbreviation (input) Capability_SampleMaskOverrideCoverageNV :: Capability where "Capability_SampleMaskOverrideCoverageNV \<equiv> 5249"
abbreviation (input) Capability_GeometryShaderPassthroughNV :: Capability where "Capability_GeometryShaderPassthroughNV \<equiv> 5251"
abbreviation (input) Capability_ShaderViewportIndexLayerEXT :: Capability where "Capability_ShaderViewportIndexLayerEXT \<equiv> 5254"
abbreviation (input) Capability_ShaderViewportMaskNV :: Capability where "Capability_ShaderViewportMaskNV \<equiv> 5255"
abbreviation (input) Capability_ShaderStereoViewNV :: Capability where "Capability_ShaderStereoViewNV \<equiv> 5259"
abbreviation (input) Capability_PerViewAttributesNV :: Capability where "Capability_PerViewAttributesNV \<equiv> 5260"
abbreviation (input) Capability_FragmentFullyCoveredEXT :: Capability where "Capability_FragmentFullyCoveredEXT \<equiv> 5265"
abbreviation (input) Capability_MeshShadingNV :: Capability where "Capability_MeshShadingNV \<equiv> 5266"
abbreviation (input) Capability_ShaderNonUniformEXT :: Capability where "Capability_ShaderNonUniformEXT \<equiv> 5301"
abbreviation (input) Capability_RuntimeDescriptorArrayEXT :: Capability where "Capability_RuntimeDescriptorArrayEXT \<equiv> 5302"
abbreviation (input) Capability_InputAttachmentArrayDynamicIndexingEXT :: Capability where "Capability_InputAttachmentArrayDynamicIndexingEXT \<equiv> 5303"
abbreviation (input) Capability_UniformTexelBufferArrayDynamicIndexingEXT :: Capability where "Capability_UniformTexelBufferArrayDynamicIndexingEXT \<equiv> 5304"
abbreviation (input) Capability_StorageTexelBufferArrayDynamicIndexingEXT :: Capability where "Capability_StorageTexelBufferArrayDynamicIndexingEXT \<equiv> 5305"
abbreviation (input) Capability_UniformBufferArrayNonUniformIndexingEXT :: Capability where "Capability_UniformBufferArrayNonUniformIndexingEXT \<equiv> 5306"
abbreviation (input) Capability_SampledImageArrayNonUniformIndexingEXT :: Capability where "Capability_SampledImageArrayNonUniformIndexingEXT \<equiv> 5307"
abbreviation (input) Capability_StorageBufferArrayNonUniformIndexingEXT :: Capability where "Capability_StorageBufferArrayNonUniformIndexingEXT \<equiv> 5308"
abbreviation (input) Capability_StorageImageArrayNonUniformIndexingEXT :: Capability where "Capability_StorageImageArrayNonUniformIndexingEXT \<equiv> 5309"
abbreviation (input) Capability_InputAttachmentArrayNonUniformIndexingEXT :: Capability where "Capability_InputAttachmentArrayNonUniformIndexingEXT \<equiv> 5310"
abbreviation (input) Capability_UniformTexelBufferArrayNonUniformIndexingEXT :: Capability where "Capability_UniformTexelBufferArrayNonUniformIndexingEXT \<equiv> 5311"
abbreviation (input) Capability_StorageTexelBufferArrayNonUniformIndexingEXT :: Capability where "Capability_StorageTexelBufferArrayNonUniformIndexingEXT \<equiv> 5312"
abbreviation (input) Capability_RayTracingNV :: Capability where "Capability_RayTracingNV \<equiv> 5340"
abbreviation (input) Capability_SubgroupShuffleINTEL :: Capability where "Capability_SubgroupShuffleINTEL \<equiv> 5568"
abbreviation (input) Capability_SubgroupBufferBlockIOINTEL :: Capability where "Capability_SubgroupBufferBlockIOINTEL \<equiv> 5569"
abbreviation (input) Capability_SubgroupImageBlockIOINTEL :: Capability where "Capability_SubgroupImageBlockIOINTEL \<equiv> 5570"
abbreviation (input) Capability_SubgroupImageMediaBlockIOINTEL :: Capability where "Capability_SubgroupImageMediaBlockIOINTEL \<equiv> 5579"
abbreviation (input) Capability_SubgroupAvcMotionEstimationINTEL :: Capability where "Capability_SubgroupAvcMotionEstimationINTEL \<equiv> 5696"
abbreviation (input) Capability_SubgroupAvcMotionEstimationIntraINTEL :: Capability where "Capability_SubgroupAvcMotionEstimationIntraINTEL \<equiv> 5697"
abbreviation (input) Capability_SubgroupAvcMotionEstimationChromaINTEL :: Capability where "Capability_SubgroupAvcMotionEstimationChromaINTEL \<equiv> 5698"
abbreviation (input) Capability_GroupNonUniformPartitionedNV :: Capability where "Capability_GroupNonUniformPartitionedNV \<equiv> 5297"
abbreviation (input) Capability_VulkanMemoryModelKHR :: Capability where "Capability_VulkanMemoryModelKHR \<equiv> 5345"
abbreviation (input) Capability_VulkanMemoryModelDeviceScopeKHR :: Capability where "Capability_VulkanMemoryModelDeviceScopeKHR \<equiv> 5346"
abbreviation (input) Capability_ImageFootprintNV :: Capability where "Capability_ImageFootprintNV \<equiv> 5282"
abbreviation (input) Capability_FragmentBarycentricNV :: Capability where "Capability_FragmentBarycentricNV \<equiv> 5284"
abbreviation (input) Capability_ComputeDerivativeGroupQuadsNV :: Capability where "Capability_ComputeDerivativeGroupQuadsNV \<equiv> 5288"
abbreviation (input) Capability_ComputeDerivativeGroupLinearNV :: Capability where "Capability_ComputeDerivativeGroupLinearNV \<equiv> 5350"
abbreviation (input) Capability_FragmentDensityEXT :: Capability where "Capability_FragmentDensityEXT \<equiv> 5291"
abbreviation (input) Capability_PhysicalStorageBufferAddresses :: Capability where "Capability_PhysicalStorageBufferAddresses \<equiv> 5347"
abbreviation (input) Capability_CooperativeMatrixNV :: Capability where "Capability_CooperativeMatrixNV \<equiv> 5357"

definition DEF_Capability :: "EnumEntry list" where
  "DEF_Capability = [
     Entry Capability_Matrix [] [] 0 0,
     Entry Capability_Shader [Capability_Matrix] [] 0 0,
     Entry Capability_Geometry [Capability_Shader] [] 0 0,
     Entry Capability_Tessellation [Capability_Shader] [] 0 0,
     Entry Capability_Addresses [] [] 0 0,
     Entry Capability_Linkage [] [] 0 0,
     Entry Capability_Kernel [] [] 0 0,
     Entry Capability_Vector16 [Capability_Kernel] [] 0 0,
     Entry Capability_Float16Buffer [Capability_Kernel] [] 0 0,
     Entry Capability_Float16 [] [] 0 0,
     Entry Capability_Float64 [] [] 0 0,
     Entry Capability_Int64 [] [] 0 0,
     Entry Capability_Int64Atomics [Capability_Int64] [] 0 0,
     Entry Capability_ImageBasic [Capability_Kernel] [] 0 0,
     Entry Capability_ImageReadWrite [Capability_ImageBasic] [] 0 0,
     Entry Capability_ImageMipmap [Capability_ImageBasic] [] 0 0,
     Entry Capability_Pipes [Capability_Kernel] [] 0 0,
     Entry Capability_Groups [] [] 0 0,
     Entry Capability_DeviceEnqueue [] [] 0 0,
     Entry Capability_LiteralSampler [Capability_Kernel] [] 0 0,
     Entry Capability_AtomicStorage [Capability_Shader] [] 0 0,
     Entry Capability_Int16 [] [] 0 0,
     Entry Capability_TessellationPointSize [Capability_Tessellation] [] 0 0,
     Entry Capability_GeometryPointSize [Capability_Geometry] [] 0 0,
     Entry Capability_ImageGatherExtended [Capability_Shader] [] 0 0,
     Entry Capability_StorageImageMultisample [Capability_Shader] [] 0 0,
     Entry Capability_UniformBufferArrayDynamicIndexing [Capability_Shader] [] 0 0,
     Entry Capability_SampledImageArrayDymnamicIndexing [Capability_Shader] [] 0 0,
     Entry Capability_ClipDistance [Capability_Shader] [] 0 0,
     Entry Capability_CullDistance [Capability_Shader] [] 0 0,
     Entry Capability_ImageCubeArray [Capability_SampledCubeArray] [] 0 0,
     Entry Capability_SampleRateShading [Capability_Shader] [] 0 0,
     Entry Capability_ImageRect [Capability_SampledRect] [] 0 0,
     Entry Capability_SampledRect [Capability_Shader] [] 0 0,
     Entry Capability_GenericPointer [Capability_Addresses] [] 0 0,
     Entry Capability_Int8 [] [] 0 0,
     Entry Capability_InputAttachment [Capability_Shader] [] 0 0,
     Entry Capability_SparseResidency [Capability_Shader] [] 0 0,
     Entry Capability_MinLod [Capability_Shader] [] 0 0,
     Entry Capability_Sampled1D [] [] 0 0,
     Entry Capability_Image1D [Capability_Sampled1D] [] 0 0,
     Entry Capability_SampledCubeArray [Capability_Shader] [] 0 0,
     Entry Capability_SampledBuffer [] [] 0 0,
     Entry Capability_ImageBuffer [Capability_SampledBuffer] [] 0 0,
     Entry Capability_ImageMSArray [Capability_Shader] [] 0 0,
     Entry Capability_StorageImageExtendedFormats [Capability_Shader] [] 0 0,
     Entry Capability_ImageQuery [Capability_Shader] [] 0 0,
     Entry Capability_DerivativeControl [Capability_Shader] [] 0 0,
     Entry Capability_InterpolationFunction [Capability_Shader] [] 0 0,
     Entry Capability_TransformFeedback [Capability_Shader] [] 0 0,
     Entry Capability_GeometryStreams [Capability_Geometry] [] 0 0,
     Entry Capability_StorageImageReadWithoutFormat [Capability_Shader] [] 0 0,
     Entry Capability_StorageImageWriteWithoutFormat [Capability_Shader] [] 0 0,
     Entry Capability_MultiViewport [Capability_Geometry] [] 0 0,
     Entry Capability_SubgroupDispatch [Capability_DeviceEnqueue] [] 0x10100 0,
     Entry Capability_NamedBarrier [Capability_Kernel] [] 0x10100 0,
     Entry Capability_PipeStorage [Capability_Pipes] [] 0x10100 0,
     Entry Capability_GroupNonUniform [] [] 0x10300 0,
     Entry Capability_GroupNonUniformVote [Capability_GroupNonUniform] [] 0x10300 0,
     Entry Capability_GroupNonUniformArithmetic [Capability_GroupNonUniform] [] 0x10300 0,
     Entry Capability_GroupNonUniformBallot [Capability_GroupNonUniform] [] 0x10300 0,
     Entry Capability_GroupNonUniformShuffle [Capability_GroupNonUniform] [] 0x10300 0,
     Entry Capability_GroupNonUniformShuffleRelative [Capability_GroupNonUniform] [] 0x10300 0,
     Entry Capability_GroupNonUniformClustered [Capability_GroupNonUniform] [] 0x10300 0,
     Entry Capability_GroupNonUniformQuad [Capability_GroupNonUniform] [] 0x10300 0,
     Entry Capability_SubgroupBallotKHR [] [SPV_KHR_shader_ballot] 0 0,
     Entry Capability_DrawParameters [Capability_Shader] [SPV_KHR_shader_draw_parameters] 0x10300 0,
     Entry Capability_SubgroupVoteKHR [] [SPV_KHR_subgroup_vote] 0 0,
     Entry Capability_StorageBuffer16BitAccess [] [SPV_KHR_16bit_storeage] 0x10300 0,
     Entry Capability_StorageUniform16 [Capability_StorageBuffer16BitAccess] [SPV_KHR_16bit_storeage] 0x10300 0,
     Entry Capability_StoragePushConstant16 [] [SPV_KHR_16bit_storeage] 0x10300 0,
     Entry Capability_StorageInputOutput16 [] [SPV_KHR_16bit_storeage] 0x10300 0,
     Entry Capability_DeviceGroup [] [SPV_KHR_device_group] 0x10300 0,
     Entry Capability_MultiView [Capability_Shader] [SPV_KHR_multiview] 0x10300 0,
     Entry Capability_VariablePointersStorageBuffer [Capability_Shader] [SPV_KHR_variable_pointers] 0x10300 0,
     Entry Capability_VariablePointers [Capability_VariablePointersStorageBuffer] [SPV_KHR_variable_pointers] 0x10300 0,
     Entry Capability_AtomicStorageOps [] [SPV_KHR_shader_atomic_counter_ops] 0 0,
     Entry Capability_SampleMaskPostDepthCoverage [] [SPV_KHR_post_depth_coverage] 0 0,
     Entry Capability_StorageBuffer8BitAccess [] [SPV_KHR_8bit_storage] 0 0,
     Entry Capability_UniformAndStorageBuffer8BitAccess [Capability_StorageBuffer8BitAccess] [SPV_KHR_8bit_storage] 0 0,
     Entry Capability_StoragePushConstant8 [] [SPV_KHR_8bit_storage] 0 0,
     Entry Capability_DenormPreserve [] [SPV_KHR_float_controls] 0x10400 0,
     Entry Capability_DenormFlushToZero [] [SPV_KHR_float_controls] 0x10400 0,
     Entry Capability_SignedZeroInfNanPreserve [] [SPV_KHR_float_controls] 0x10400 0,
     Entry Capability_RoundingModeRTE [] [SPV_KHR_float_controls] 0x10400 0,
     Entry Capability_RoundingModeRTZ [] [SPV_KHR_float_controls] 0x10400 0,
     Entry Capability_Float16ImageAMD [Capability_Shader] [] 0 0,
     Entry Capability_ImageGatherBiasLodAMD [Capability_Shader] [] 0 0,
     Entry Capability_FragmentMaskAMD [Capability_Shader] [] 0 0,
     Entry Capability_StencilExportEXT [Capability_Shader] [] 0 0,
     Entry Capability_ImageReadWriteLodAMD [Capability_Shader] [] 0 0,
     Entry Capability_SampleMaskOverrideCoverageNV [Capability_SampleRateShading] [] 0 0,
     Entry Capability_GeometryShaderPassthroughNV [Capability_Geometry] [] 0 0,
     Entry Capability_ShaderViewportIndexLayerEXT [Capability_MultiViewport] [] 0 0,
     Entry Capability_ShaderViewportMaskNV [Capability_ShaderViewportIndexLayerEXT] [] 0 0,
     Entry Capability_ShaderStereoViewNV [Capability_ShaderViewportMaskNV] [] 0 0,
     Entry Capability_PerViewAttributesNV [Capability_MultiView] [] 0 0,
     Entry Capability_FragmentFullyCoveredEXT [Capability_Shader] [] 0 0,
     Entry Capability_MeshShadingNV [Capability_Shader] [] 0 0,
     Entry Capability_ShaderNonUniformEXT [Capability_Shader] [] 0 0,
     Entry Capability_RuntimeDescriptorArrayEXT [Capability_Shader] [] 0 0,
     Entry Capability_InputAttachmentArrayDynamicIndexingEXT [Capability_InputAttachment] [] 0 0,
     Entry Capability_UniformTexelBufferArrayDynamicIndexingEXT [Capability_SampledBuffer] [] 0 0,
     Entry Capability_StorageTexelBufferArrayDynamicIndexingEXT [Capability_ImageBuffer] [] 0 0,
     Entry Capability_UniformBufferArrayNonUniformIndexingEXT [Capability_ShaderNonUniformEXT] [] 0 0,
     Entry Capability_SampledImageArrayNonUniformIndexingEXT [Capability_ShaderNonUniformEXT] [] 0 0,
     Entry Capability_StorageBufferArrayNonUniformIndexingEXT [Capability_ShaderNonUniformEXT] [] 0 0,
     Entry Capability_StorageImageArrayNonUniformIndexingEXT [Capability_ShaderNonUniformEXT] [] 0 0,
     Entry Capability_InputAttachmentArrayNonUniformIndexingEXT [Capability_InputAttachment, Capability_ShaderNonUniformEXT] [] 0 0,
     Entry Capability_UniformTexelBufferArrayNonUniformIndexingEXT [Capability_SampledBuffer, Capability_ShaderNonUniformEXT] [] 0 0,
     Entry Capability_StorageTexelBufferArrayNonUniformIndexingEXT [Capability_ImageBuffer, Capability_ShaderNonUniformEXT] [] 0 0,
     Entry Capability_RayTracingNV [Capability_Shader] [] 0 0,
     Entry Capability_SubgroupShuffleINTEL [] [] 0 0,
     Entry Capability_SubgroupBufferBlockIOINTEL [] [] 0 0,
     Entry Capability_SubgroupImageBlockIOINTEL [] [] 0 0,
     Entry Capability_SubgroupImageMediaBlockIOINTEL [] [] 0 0,
     Entry Capability_SubgroupAvcMotionEstimationINTEL [] [] 0 0,
     Entry Capability_SubgroupAvcMotionEstimationIntraINTEL [] [] 0 0,
     Entry Capability_SubgroupAvcMotionEstimationChromaINTEL [] [] 0 0,
     Entry Capability_GroupNonUniformPartitionedNV [] [] 0 0,
     Entry Capability_VulkanMemoryModelKHR [] [] 0 0,
     Entry Capability_VulkanMemoryModelDeviceScopeKHR [] [] 0 0,
     Entry Capability_ImageFootprintNV [] [] 0 0,
     Entry Capability_FragmentBarycentricNV [] [] 0 0,
     Entry Capability_ComputeDerivativeGroupQuadsNV [] [] 0 0,
     Entry Capability_ComputeDerivativeGroupLinearNV [] [] 0 0,
     Entry Capability_FragmentDensityEXT [Capability_Shader] [] 0 0,
     Entry Capability_PhysicalStorageBufferAddresses [Capability_Shader] [] 0 0,
     Entry Capability_CooperativeMatrixNV [Capability_Shader] [] 0 0]"

definition DEF_AddressingModel :: "EnumEntry list" where
  "DEF_AddressingModel = [
     Entry 0 [] [] 0 0 \<comment> \<open>Logical\<close>,
     Entry 1 [Capability_Addresses] [] 0 0 \<comment> \<open>Physical32\<close>,
     Entry 2 [Capability_Addresses] [] 0 0 \<comment> \<open>Physical64\<close>,
     Entry 5348 [Capability_PhysicalStorageBufferAddresses] [] 0 0 \<comment> \<open>PhysicalStorageBuffer64\<close>]"

definition DEF_MemoryModel :: "EnumEntry list" where
  "DEF_MemoryModel = [
     Entry 0 [Capability_Shader] [] 0 0 \<comment> \<open>Simple\<close>,
     Entry 1 [Capability_Shader] [] 0 0 \<comment> \<open>GLSL450\<close>,
     Entry 2 [Capability_Kernel] [] 0 0 \<comment> \<open>OpenCL\<close>,
     Entry 3 [Capability_VulkanMemoryModelKHR] [] 0 0 \<comment> \<open>VulkanKHR\<close>]"

definition DEF_ExecutionModel :: "EnumEntry list" where
  "DEF_ExecutionModel = [
     Entry 0 [Capability_Shader] [] 0 0 \<comment> \<open>Vertex\<close>,
     Entry 1 [Capability_Tessellation] [] 0 0 \<comment> \<open>TessellationControl\<close>,
     Entry 2 [Capability_Tessellation] [] 0 0 \<comment> \<open>TessellationEvaluation\<close>,
     Entry 3 [Capability_Geometry] [] 0 0 \<comment> \<open>Geometry\<close>,
     Entry 4 [Capability_Shader] [] 0 0 \<comment> \<open>Fragment\<close>,
     Entry 5 [Capability_Shader] [] 0 0 \<comment> \<open>GLCompute\<close>,
     Entry 6 [Capability_Kernel] [] 0 0 \<comment> \<open>Kernel\<close>,
     Entry 5267 [Capability_MeshShadingNV] [] 0 0 \<comment> \<open>TaskNV\<close>,
     Entry 5268 [Capability_MeshShadingNV] [] 0 0 \<comment> \<open>MeshNV\<close>,
     Entry 5313 [Capability_RayTracingNV] [] 0 0 \<comment> \<open>RayGenerationNV\<close>,
     Entry 5314 [Capability_RayTracingNV] [] 0 0 \<comment> \<open>IntersectionNV\<close>,
     Entry 5315 [Capability_RayTracingNV] [] 0 0 \<comment> \<open>AnyHitNV\<close>,
     Entry 5316 [Capability_RayTracingNV] [] 0 0 \<comment> \<open>ClosestHitNV\<close>,
     Entry 5317 [Capability_RayTracingNV] [] 0 0 \<comment> \<open>MissNV\<close>,
     Entry 5318 [Capability_RayTracingNV] [] 0 0 \<comment> \<open>CallableNV\<close>]"

definition DEF_ExecutionMode :: "EnumEntry list" where
  "DEF_ExecutionMode = [
     Entry 0 [Capability_Geometry] [] 0 0 \<comment> \<open>Invocations\<close>,
     Entry 1 [Capability_Tessellation] [] 0 0 \<comment> \<open>SpacingEqual\<close>,
     Entry 2 [Capability_Tessellation] [] 0 0 \<comment> \<open>SpacingFractionalEven\<close>,
     Entry 3 [Capability_Tessellation] [] 0 0 \<comment> \<open>SpacingFractionalOdd\<close>,
     Entry 4 [Capability_Tessellation] [] 0 0 \<comment> \<open>VertexOrderCw\<close>,
     Entry 5 [Capability_Tessellation] [] 0 0 \<comment> \<open>VertexOrderCcw\<close>,
     Entry 6 [Capability_Shader] [] 0 0 \<comment> \<open>PixelCenterInteger\<close>,
     Entry 7 [Capability_Shader] [] 0 0 \<comment> \<open>OriginUpperLeft\<close>,
     Entry 8 [Capability_Shader] [] 0 0 \<comment> \<open>OriginLowerLeft\<close>,
     Entry 9 [Capability_Shader] [] 0 0 \<comment> \<open>EarlyFragmentTests\<close>,
     Entry 10 [Capability_Tessellation] [] 0 0 \<comment> \<open>PointMode\<close>,
     Entry 11 [Capability_TransformFeedback] [] 0 0 \<comment> \<open>Xfb\<close>,
     Entry 12 [Capability_Shader] [] 0 0 \<comment> \<open>DepthReplacing\<close>,
     Entry 14 [Capability_Shader] [] 0 0 \<comment> \<open>DepthGreater\<close>,
     Entry 15 [Capability_Shader] [] 0 0 \<comment> \<open>DepthLess\<close>,
     Entry 16 [Capability_Shader] [] 0 0 \<comment> \<open>DepthUnchanged\<close>,
     Entry 17 [] [] 0 0 \<comment> \<open>LocalSize\<close>,
     Entry 18 [Capability_Kernel] [] 0 0 \<comment> \<open>LocalSizeHint\<close>,
     Entry 19 [Capability_Geometry] [] 0 0 \<comment> \<open>InputPoints\<close>,
     Entry 20 [Capability_Geometry] [] 0 0 \<comment> \<open>InputLines\<close>,
     Entry 21 [Capability_Geometry] [] 0 0 \<comment> \<open>InputLinesAdjacency\<close>,
     Entry 22 [Capability_Geometry, Capability_Tessellation] [] 0 0 \<comment> \<open>Triangles\<close>,
     Entry 23 [Capability_Geometry] [] 0 0 \<comment> \<open>InputTrianglesAdjacency\<close>,
     Entry 24 [Capability_Tessellation] [] 0 0 \<comment> \<open>Quads\<close>,
     Entry 25 [Capability_Tessellation] [] 0 0 \<comment> \<open>Isolines\<close>,
     Entry 26 [Capability_Geometry, Capability_Tessellation, Capability_MeshShadingNV] [] 0 0 \<comment> \<open>OutputVertices\<close>,
     Entry 27 [Capability_Geometry, Capability_MeshShadingNV] [] 0 0 \<comment> \<open>OutputPoints\<close>,
     Entry 28 [Capability_Geometry] [] 0 0 \<comment> \<open>OutputLineStrip\<close>,
     Entry 29 [Capability_Geometry] [] 0 0 \<comment> \<open>OutputTriangleStrip\<close>,
     Entry 30 [Capability_Kernel] [] 0 0 \<comment> \<open>VecTypeHint\<close>,
     Entry 31 [Capability_Kernel] [] 0 0 \<comment> \<open>ContractionOff\<close>,
     Entry 33 [Capability_Kernel] [] 0 0 \<comment> \<open>Initializer\<close>,
     Entry 34 [Capability_Kernel] [] 0 0 \<comment> \<open>Finalizer\<close>,
     Entry 35 [Capability_SubgroupDispatch] [] 0 0 \<comment> \<open>SubgroupSize\<close>,
     Entry 36 [Capability_SubgroupDispatch] [] 0 0 \<comment> \<open>SubgroupsPerWorkgroup\<close>,
     Entry 37 [Capability_SubgroupDispatch] [] 0 0 \<comment> \<open>SubgroupsPerWorkgroupId\<close>,
     Entry 38 [] [] 0 0 \<comment> \<open>LocalSizeId\<close>,
     Entry 39 [Capability_Kernel] [] 0 0 \<comment> \<open>LocalSizeHintId\<close>,
     Entry 4446 [Capability_SampleMaskPostDepthCoverage] [] 0 0 \<comment> \<open>PostDepthCoverage\<close>,
     Entry 4459 [Capability_DenormPreserve] [] 0 0 \<comment> \<open>DenormPreserve\<close>,
     Entry 4460 [Capability_DenormFlushToZero] [] 0 0 \<comment> \<open>DenormFlushToZero\<close>,
     Entry 4461 [Capability_SignedZeroInfNanPreserve] [] 0 0 \<comment> \<open>SignedZeroInfNanPreserve\<close>,
     Entry 4462 [Capability_RoundingModeRTE] [] 0 0 \<comment> \<open>RoundingModeRTE\<close>,
     Entry 4463 [Capability_RoundingModeRTZ] [] 0 0 \<comment> \<open>RoundingModeRTZ\<close>,
     Entry 5027 [Capability_StencilExportEXT] [] 0 0 \<comment> \<open>StencilRefReplacingEXT\<close>,
     Entry 5269 [Capability_MeshShadingNV] [] 0 0 \<comment> \<open>OutputLinesNV\<close>,
     Entry 5289 [Capability_ComputeDerivativeGroupQuadsNV] [] 0 0 \<comment> \<open>DerivativeGroupQuadsNV\<close>,
     Entry 5290 [Capability_ComputeDerivativeGroupLinearNV] [] 0 0 \<comment> \<open>DerivativeGroupLinearNV\<close>,
     Entry 5298 [Capability_MeshShadingNV] [] 0 0 \<comment> \<open>OutputTrianglesNV\<close>]"

definition DEF_StorageClass :: "EnumEntry list" where
  "DEF_StorageClass = [
     Entry 0 [] [] 0 0 \<comment> \<open>UniformConstant\<close>,
     Entry 1 [] [] 0 0 \<comment> \<open>Input\<close>,
     Entry 2 [Capability_Shader] [] 0 0 \<comment> \<open>Uniform\<close>,
     Entry 3 [Capability_Shader] [] 0 0 \<comment> \<open>Output\<close>,
     Entry 4 [] [] 0 0 \<comment> \<open>Workgroup\<close>,
     Entry 5 [] [] 0 0 \<comment> \<open>CrossWorkgroup\<close>,
     Entry 6 [Capability_Shader] [] 0 0 \<comment> \<open>Private\<close>,
     Entry 7 [] [] 0 0 \<comment> \<open>Function\<close>,
     Entry 8 [Capability_GenericPointer] [] 0 0 \<comment> \<open>Generic\<close>,
     Entry 9 [Capability_Shader] [] 0 0 \<comment> \<open>PushConstant\<close>,
     Entry 10 [Capability_AtomicStorage] [] 0 0 \<comment> \<open>AtomicCounter\<close>,
     Entry 11 [] [] 0 0 \<comment> \<open>Image\<close>,
     Entry 12 [Capability_Shader] [] 0 0 \<comment> \<open>StorageBuffer\<close>,
     Entry 5328 [Capability_RayTracingNV] [] 0 0 \<comment> \<open>CallableDataNV\<close>,
     Entry 5329 [Capability_RayTracingNV] [] 0 0 \<comment> \<open>IncomingCallableDataNV\<close>,
     Entry 5338 [Capability_RayTracingNV] [] 0 0 \<comment> \<open>RayPayloadNV\<close>,
     Entry 5339 [Capability_RayTracingNV] [] 0 0 \<comment> \<open>HitAttributeNV\<close>,
     Entry 5342 [Capability_RayTracingNV] [] 0 0 \<comment> \<open>IncomingRayPayloadNV\<close>,
     Entry 5343 [Capability_RayTracingNV] [] 0 0 \<comment> \<open>ShaderRecordBufferNV\<close>,
     Entry 5349 [Capability_PhysicalStorageBufferAddresses] [] 0 0 \<comment> \<open>PhysicalStorageBuffer\<close>]"

definition DEF_Decoration :: "EnumEntry list" where
  "DEF_Decoration = [
     Entry 0 [Capability_Shader] [] 0 0 \<comment> \<open>RelaxedPrecision\<close>,
     Entry 1 [Capability_Shader, Capability_Kernel] [] 0 0 \<comment> \<open>SpecId\<close>,
     Entry 2 [Capability_Shader] [] 0 0 \<comment> \<open>Block\<close>,
     Entry 3 [Capability_Shader] [] 0 0 \<comment> \<open>BufferBlock\<close>,
     Entry 4 [Capability_Matrix] [] 0 0 \<comment> \<open>RowMajor\<close>,
     Entry 5 [Capability_Matrix] [] 0 0 \<comment> \<open>ColMajor\<close>,
     Entry 6 [Capability_Shader] [] 0 0 \<comment> \<open>ArrayStride\<close>,
     Entry 7 [Capability_Matrix] [] 0 0 \<comment> \<open>MatrixStride\<close>,
     Entry 8 [Capability_Shader] [] 0 0 \<comment> \<open>GLSLShared\<close>,
     Entry 9 [Capability_Shader] [] 0 0 \<comment> \<open>GLSLPacked\<close>,
     Entry 10 [Capability_Kernel] [] 0 0 \<comment> \<open>CPacked\<close>,
     Entry 11 [] [] 0 0 \<comment> \<open>BuiltIn\<close>,
     Entry 13 [Capability_Shader] [] 0 0 \<comment> \<open>NoPerspective\<close>,
     Entry 14 [Capability_Shader] [] 0 0 \<comment> \<open>Flat\<close>,
     Entry 15 [Capability_Tessellation] [] 0 0 \<comment> \<open>Patch\<close>,
     Entry 16 [Capability_Shader] [] 0 0 \<comment> \<open>Centroid\<close>,
     Entry 17 [Capability_SampleRateShading] [] 0 0 \<comment> \<open>Sample\<close>,
     Entry 18 [Capability_Shader] [] 0 0 \<comment> \<open>Invariant\<close>,
     Entry 19 [] [] 0 0 \<comment> \<open>Restrict\<close>,
     Entry 20 [] [] 0 0 \<comment> \<open>Aliased\<close>,
     Entry 21 [] [] 0 0 \<comment> \<open>Volatile\<close>,
     Entry 22 [Capability_Kernel] [] 0 0 \<comment> \<open>Constant\<close>,
     Entry 23 [] [] 0 0 \<comment> \<open>Coherent\<close>,
     Entry 24 [] [] 0 0 \<comment> \<open>NonWritable\<close>,
     Entry 25 [] [] 0 0 \<comment> \<open>NonReadable\<close>,
     Entry 26 [Capability_Shader] [] 0 0 \<comment> \<open>Uniform\<close>,
     Entry 27 [Capability_Shader] [] 0 0 \<comment> \<open>UniformId\<close>,
     Entry 28 [Capability_Kernel] [] 0 0 \<comment> \<open>SaturatedConversion\<close>,
     Entry 29 [Capability_GeometryStreams] [] 0 0 \<comment> \<open>Stream\<close>,
     Entry 30 [Capability_Shader] [] 0 0 \<comment> \<open>Location\<close>,
     Entry 31 [Capability_Shader] [] 0 0 \<comment> \<open>Component\<close>,
     Entry 32 [Capability_Shader] [] 0 0 \<comment> \<open>Index\<close>,
     Entry 33 [Capability_Shader] [] 0 0 \<comment> \<open>Binding\<close>,
     Entry 34 [Capability_Shader] [] 0 0 \<comment> \<open>DescriptorSet\<close>,
     Entry 35 [Capability_Shader] [] 0 0 \<comment> \<open>Offset\<close>,
     Entry 36 [Capability_TransformFeedback] [] 0 0 \<comment> \<open>XfbBuffer\<close>,
     Entry 37 [Capability_TransformFeedback] [] 0 0 \<comment> \<open>XfbStride\<close>,
     Entry 38 [Capability_Kernel] [] 0 0 \<comment> \<open>FuncParamAttr\<close>,
     Entry 39 [] [] 0 0 \<comment> \<open>FPRoundingMode\<close>,
     Entry 40 [Capability_Kernel] [] 0 0 \<comment> \<open>FPFastMathMode\<close>,
     Entry 41 [Capability_Linkage] [] 0 0 \<comment> \<open>LinkageAttributes\<close>,
     Entry 42 [Capability_Shader] [] 0 0 \<comment> \<open>NoContraction\<close>,
     Entry 43 [Capability_InputAttachment] [] 0 0 \<comment> \<open>InputAttachmentIndex\<close>,
     Entry 44 [Capability_Kernel] [] 0 0 \<comment> \<open>Alignment\<close>,
     Entry 45 [Capability_Addresses] [] 0 0 \<comment> \<open>MaxByteOffset\<close>,
     Entry 46 [Capability_Kernel] [] 0 0 \<comment> \<open>AlignmentId\<close>,
     Entry 47 [Capability_Addresses] [] 0 0 \<comment> \<open>MaxByteOffsetId\<close>,
     Entry 4469 [] [SPV_KHR_no_integer_wrap_decoration] 0x10400 0 \<comment> \<open>NoSignedWrap\<close>,
     Entry 4470 [] [SPV_KHR_no_integer_wrap_decoration] 0x10400 0 \<comment> \<open>NoUnsignedWrap\<close>,
     Entry 4999 [] [] 0 0 \<comment> \<open>ExplicitInterpAMD\<close>,
     Entry 5248 [Capability_SampleMaskOverrideCoverageNV] [] 0 0 \<comment> \<open>OverrideCoverageNV\<close>,
     Entry 5250 [Capability_GeometryShaderPassthroughNV] [] 0 0 \<comment> \<open>PassthroughNV\<close>,
     Entry 5252 [Capability_ShaderViewportMaskNV] [] 0 0 \<comment> \<open>ViewportRelativeNV\<close>,
     Entry 5256 [Capability_ShaderStereoViewNV] [] 0 0 \<comment> \<open>SecondaryViewportRelativeNV\<close>,
     Entry 5271 [Capability_MeshShadingNV] [] 0 0 \<comment> \<open>PerPrimitiveNV\<close>,
     Entry 5272 [Capability_MeshShadingNV] [] 0 0 \<comment> \<open>PerViewNV\<close>,
     Entry 5273 [Capability_FragmentBarycentricNV] [] 0 0 \<comment> \<open>PerVertexNV\<close>,
     Entry 5300 [Capability_ShaderNonUniformEXT] [] 0 0 \<comment> \<open>NonUniformEXT\<close>,
     Entry 5634 [] [] 0 0 \<comment> \<open>CountBuffer\<close>,
     Entry 5635 [] [] 0 0 \<comment> \<open>UserSemantic\<close>,
     Entry 5355 [Capability_PhysicalStorageBufferAddresses] [] 0 0 \<comment> \<open>RestrictPointer\<close>,
     Entry 5356 [Capability_PhysicalStorageBufferAddresses] [] 0 0 \<comment> \<open>AliasedPointer\<close>]"

definition DEF_BuiltIn :: "EnumEntry list" where
  "DEF_BuiltIn = [
     Entry 0 [Capability_Shader] [] 0 0 \<comment> \<open>Position\<close>,
     Entry 1 [Capability_Shader] [] 0 0 \<comment> \<open>PointSize\<close>,
     Entry 3 [Capability_ClipDistance] [] 0 0 \<comment> \<open>ClipDistance\<close>,
     Entry 4 [Capability_CullDistance] [] 0 0 \<comment> \<open>CullDistance\<close>,
     Entry 5 [Capability_Shader] [] 0 0 \<comment> \<open>VertexId\<close>,
     Entry 6 [Capability_Shader] [] 0 0 \<comment> \<open>InstanceId\<close>,
     Entry 7 [Capability_Geometry, Capability_Tessellation, Capability_RayTracingNV] [] 0 0 \<comment> \<open>PrimitiveId\<close>,
     Entry 8 [Capability_Geometry, Capability_Tessellation] [] 0 0 \<comment> \<open>InvocationId\<close>,
     Entry 9 [Capability_Geometry] [] 0 0 \<comment> \<open>Layer\<close>,
     Entry 10 [Capability_MultiViewport] [] 0 0 \<comment> \<open>ViewportIndex\<close>,
     Entry 11 [Capability_Tessellation] [] 0 0 \<comment> \<open>TessLevelOuter\<close>,
     Entry 12 [Capability_Tessellation] [] 0 0 \<comment> \<open>TessLevelInner\<close>,
     Entry 13 [Capability_Tessellation] [] 0 0 \<comment> \<open>TessCoord\<close>,
     Entry 14 [Capability_Tessellation] [] 0 0 \<comment> \<open>PatchVertices\<close>,
     Entry 15 [Capability_Shader] [] 0 0 \<comment> \<open>FragCoord\<close>,
     Entry 16 [Capability_Shader] [] 0 0 \<comment> \<open>PointCoord\<close>,
     Entry 17 [Capability_Shader] [] 0 0 \<comment> \<open>FrontFacing\<close>,
     Entry 18 [Capability_SampleRateShading] [] 0 0 \<comment> \<open>SampleId\<close>,
     Entry 19 [Capability_SampleRateShading] [] 0 0 \<comment> \<open>SamplePosition\<close>,
     Entry 20 [Capability_Shader] [] 0 0 \<comment> \<open>SampleMask\<close>,
     Entry 22 [Capability_Shader] [] 0 0 \<comment> \<open>FragDepth\<close>,
     Entry 23 [Capability_Shader] [] 0 0 \<comment> \<open>HelperInvocation\<close>,
     Entry 24 [] [] 0 0 \<comment> \<open>NumWorkGroups\<close>,
     Entry 25 [] [] 0 0 \<comment> \<open>WorkgroupSize\<close>,
     Entry 26 [] [] 0 0 \<comment> \<open>WorkgroupId\<close>,
     Entry 27 [] [] 0 0 \<comment> \<open>LocalInvocationId\<close>,
     Entry 28 [] [] 0 0 \<comment> \<open>GlobalInvocationId\<close>,
     Entry 29 [] [] 0 0 \<comment> \<open>LocalInvocationIndex\<close>,
     Entry 30 [Capability_Kernel] [] 0 0 \<comment> \<open>WorkDim\<close>,
     Entry 31 [Capability_Kernel] [] 0 0 \<comment> \<open>GlobalSize\<close>,
     Entry 32 [Capability_Kernel] [] 0 0 \<comment> \<open>EnqueuedWorkgroupSize\<close>,
     Entry 33 [Capability_Kernel] [] 0 0 \<comment> \<open>GlobalOffset\<close>,
     Entry 34 [Capability_Kernel] [] 0 0 \<comment> \<open>GlobalLinearId\<close>,
     Entry 36 [Capability_Kernel, Capability_GroupNonUniform, Capability_SubgroupBallotKHR] [] 0 0 \<comment> \<open>SubgroupSize\<close>,
     Entry 37 [Capability_Kernel] [] 0 0 \<comment> \<open>SubgroupMaxSize\<close>,
     Entry 38 [Capability_Kernel, Capability_GroupNonUniform] [] 0 0 \<comment> \<open>NumSubgroups\<close>,
     Entry 39 [Capability_Kernel] [] 0 0 \<comment> \<open>NumEnqueuedSubgroups\<close>,
     Entry 40 [Capability_Kernel, Capability_GroupNonUniform] [] 0 0 \<comment> \<open>SubgroupId\<close>,
     Entry 41 [Capability_Kernel, Capability_GroupNonUniform, Capability_SubgroupBallotKHR] [] 0 0 \<comment> \<open>SubgroupLocalInvocationId\<close>,
     Entry 42 [Capability_Shader] [] 0 0 \<comment> \<open>VertexIndex\<close>,
     Entry 43 [Capability_Shader] [] 0 0 \<comment> \<open>InstanceIndex\<close>,
     Entry 4416 [Capability_SubgroupBallotKHR, Capability_GroupNonUniformBallot] [] 0 0 \<comment> \<open>SubgroupEqMask\<close>,
     Entry 4417 [Capability_SubgroupBallotKHR, Capability_GroupNonUniformBallot] [] 0 0 \<comment> \<open>SubgroupGeMask\<close>,
     Entry 4418 [Capability_SubgroupBallotKHR, Capability_GroupNonUniformBallot] [] 0 0 \<comment> \<open>SubgroupGtMask\<close>,
     Entry 4419 [Capability_SubgroupBallotKHR, Capability_GroupNonUniformBallot] [] 0 0 \<comment> \<open>SubgroupLeMask\<close>,
     Entry 4420 [Capability_SubgroupBallotKHR, Capability_GroupNonUniformBallot] [] 0 0 \<comment> \<open>SubgroupLtMask\<close>,
     Entry 4424 [Capability_DrawParameters] [] 0 0 \<comment> \<open>BaseVertex\<close>,
     Entry 4425 [Capability_DrawParameters] [] 0 0 \<comment> \<open>BaseInstance\<close>,
     Entry 4426 [Capability_DrawParameters, Capability_MeshShadingNV] [] 0 0 \<comment> \<open>DrawIndex\<close>,
     Entry 4438 [Capability_DeviceGroup] [] 0 0 \<comment> \<open>DeviceIndex\<close>,
     Entry 4440 [Capability_MultiView] [] 0 0 \<comment> \<open>ViewIndex\<close>,
     Entry 4492 [] [] 0 0 \<comment> \<open>BaryCoordNoPerspAMD\<close>,
     Entry 4493 [] [] 0 0 \<comment> \<open>BaryCoordNoPerspCentroidAMD\<close>,
     Entry 4494 [] [] 0 0 \<comment> \<open>BaryCoordNoPerspSampleAMD\<close>,
     Entry 4495 [] [] 0 0 \<comment> \<open>BaryCoordSmoothAMD\<close>,
     Entry 4496 [] [] 0 0 \<comment> \<open>BaryCoordSmoothCentroid\<close>,
     Entry 4497 [] [] 0 0 \<comment> \<open>BaryCoordSmoothSample\<close>,
     Entry 4498 [] [] 0 0 \<comment> \<open>BaryCoordPullModel\<close>,
     Entry 5014 [Capability_StencilExportEXT] [] 0 0 \<comment> \<open>FragStencilRefEXT\<close>,
     Entry 5253 [Capability_ShaderViewportMaskNV, Capability_MeshShadingNV] [] 0 0 \<comment> \<open>ViewportMaskNV\<close>,
     Entry 5257 [Capability_ShaderStereoViewNV] [] 0 0 \<comment> \<open>SecondaryPositionNV\<close>,
     Entry 5258 [Capability_ShaderStereoViewNV] [] 0 0 \<comment> \<open>SecondaryViewportMaskNV\<close>,
     Entry 5261 [Capability_PerViewAttributesNV, Capability_MeshShadingNV] [] 0 0 \<comment> \<open>PositionPerViewNV\<close>,
     Entry 5262 [Capability_PerViewAttributesNV, Capability_MeshShadingNV] [] 0 0 \<comment> \<open>ViewportMaskPerViewNV\<close>,
     Entry 5264 [Capability_FragmentFullyCoveredEXT] [] 0 0 \<comment> \<open>FullyCoveredEXT\<close>,
     Entry 5274 [Capability_MeshShadingNV] [] 0 0 \<comment> \<open>TaskCountNV\<close>,
     Entry 5275 [Capability_MeshShadingNV] [] 0 0 \<comment> \<open>PrimitiveCountNV\<close>,
     Entry 5276 [Capability_MeshShadingNV] [] 0 0 \<comment> \<open>PrimitiveIndicesNV\<close>,
     Entry 5277 [Capability_MeshShadingNV] [] 0 0 \<comment> \<open>ClipDistancePerViewNV\<close>,
     Entry 5278 [Capability_MeshShadingNV] [] 0 0 \<comment> \<open>CullDistancePerViewNV\<close>,
     Entry 5279 [Capability_MeshShadingNV] [] 0 0 \<comment> \<open>LayerPerViewNV\<close>,
     Entry 5280 [Capability_MeshShadingNV] [] 0 0 \<comment> \<open>MeshViewCountNV\<close>,
     Entry 5281 [Capability_MeshShadingNV] [] 0 0 \<comment> \<open>MeshViewIndices\<close>,
     Entry 5286 [Capability_FragmentBarycentricNV] [] 0 0 \<comment> \<open>BaryCoordNV\<close>,
     Entry 5287 [Capability_FragmentBarycentricNV] [] 0 0 \<comment> \<open>BaryCoordNoPerspNV\<close>,
     Entry 5292 [Capability_FragmentDensityEXT] [] 0 0 \<comment> \<open>FragSizeEXT\<close>,
     Entry 5293 [Capability_FragmentDensityEXT] [] 0 0 \<comment> \<open>FragInvocationCountEXT\<close>,
     Entry 5319 [Capability_RayTracingNV] [] 0 0 \<comment> \<open>LaunchIdNV\<close>,
     Entry 5320 [Capability_RayTracingNV] [] 0 0 \<comment> \<open>LaunchSizeNV\<close>,
     Entry 5321 [Capability_RayTracingNV] [] 0 0 \<comment> \<open>WorldRayOriginNV\<close>,
     Entry 5322 [Capability_RayTracingNV] [] 0 0 \<comment> \<open>WorldRayDirectionNV\<close>,
     Entry 5323 [Capability_RayTracingNV] [] 0 0 \<comment> \<open>ObjectRayOriginNV\<close>,
     Entry 5324 [Capability_RayTracingNV] [] 0 0 \<comment> \<open>ObjectRayDirectionNV\<close>,
     Entry 5325 [Capability_RayTracingNV] [] 0 0 \<comment> \<open>RayTminNV\<close>,
     Entry 5326 [Capability_RayTracingNV] [] 0 0 \<comment> \<open>RayTmaxNV\<close>,
     Entry 5327 [Capability_RayTracingNV] [] 0 0 \<comment> \<open>InstanceCustomIndexNV\<close>,
     Entry 5330 [Capability_RayTracingNV] [] 0 0 \<comment> \<open>ObjectToWorldNV\<close>,
     Entry 5331 [Capability_RayTracingNV] [] 0 0 \<comment> \<open>WorldToObjectNV\<close>,
     Entry 5332 [Capability_RayTracingNV] [] 0 0 \<comment> \<open>HitTNV\<close>,
     Entry 5333 [Capability_RayTracingNV] [] 0 0 \<comment> \<open>HitKindNV\<close>,
     Entry 5351 [Capability_RayTracingNV] [] 0 0 \<comment> \<open>IncomingRayFlagsNV\<close>]"

definition DEF_ImageFormat :: "EnumEntry list" where
  "DEF_ImageFormat = [
     Entry 0 [] [] 0 0 \<comment> \<open>Unknown\<close>,
     Entry 1 [Capability_Shader] [] 0 0 \<comment> \<open>Rgba32f\<close>,
     Entry 2 [Capability_Shader] [] 0 0 \<comment> \<open>Rgba16f\<close>,
     Entry 3 [Capability_Shader] [] 0 0 \<comment> \<open>R32f\<close>,
     Entry 4 [Capability_Shader] [] 0 0 \<comment> \<open>Rgba8\<close>,
     Entry 5 [Capability_Shader] [] 0 0 \<comment> \<open>Rgba8Snorm\<close>,
     Entry 6 [Capability_StorageImageExtendedFormats] [] 0 0 \<comment> \<open>Rg32f\<close>,
     Entry 7 [Capability_StorageImageExtendedFormats] [] 0 0 \<comment> \<open>Rg16f\<close>,
     Entry 8 [Capability_StorageImageExtendedFormats] [] 0 0 \<comment> \<open>R11fG11fB10f\<close>,
     Entry 9 [Capability_StorageImageExtendedFormats] [] 0 0 \<comment> \<open>R16f\<close>,
     Entry 10 [Capability_StorageImageExtendedFormats] [] 0 0 \<comment> \<open>Rgba16\<close>,
     Entry 11 [Capability_StorageImageExtendedFormats] [] 0 0 \<comment> \<open>Rgb10A2\<close>,
     Entry 12 [Capability_StorageImageExtendedFormats] [] 0 0 \<comment> \<open>Rg16\<close>,
     Entry 13 [Capability_StorageImageExtendedFormats] [] 0 0 \<comment> \<open>Rg8\<close>,
     Entry 14 [Capability_StorageImageExtendedFormats] [] 0 0 \<comment> \<open>R16\<close>,
     Entry 15 [Capability_StorageImageExtendedFormats] [] 0 0 \<comment> \<open>R8\<close>,
     Entry 16 [Capability_StorageImageExtendedFormats] [] 0 0 \<comment> \<open>Rgba16Snorm\<close>,
     Entry 17 [Capability_StorageImageExtendedFormats] [] 0 0 \<comment> \<open>Rg16Snorm\<close>,
     Entry 18 [Capability_StorageImageExtendedFormats] [] 0 0 \<comment> \<open>Rg8Snorm\<close>,
     Entry 19 [Capability_StorageImageExtendedFormats] [] 0 0 \<comment> \<open>R16Snorm\<close>,
     Entry 20 [Capability_StorageImageExtendedFormats] [] 0 0 \<comment> \<open>R8Snorm\<close>,
     Entry 21 [Capability_Shader] [] 0 0 \<comment> \<open>Rgba32i\<close>,
     Entry 22 [Capability_Shader] [] 0 0 \<comment> \<open>Rgba16i\<close>,
     Entry 23 [Capability_Shader] [] 0 0 \<comment> \<open>Rgba8i\<close>,
     Entry 24 [Capability_Shader] [] 0 0 \<comment> \<open>R32i\<close>,
     Entry 25 [Capability_StorageImageExtendedFormats] [] 0 0 \<comment> \<open>Rg32i\<close>,
     Entry 26 [Capability_StorageImageExtendedFormats] [] 0 0 \<comment> \<open>Rg16i\<close>,
     Entry 27 [Capability_StorageImageExtendedFormats] [] 0 0 \<comment> \<open>Rg8i\<close>,
     Entry 28 [Capability_StorageImageExtendedFormats] [] 0 0 \<comment> \<open>R16i\<close>,
     Entry 29 [Capability_StorageImageExtendedFormats] [] 0 0 \<comment> \<open>R8i\<close>,
     Entry 30 [Capability_Shader] [] 0 0 \<comment> \<open>Rgba32ui\<close>,
     Entry 31 [Capability_Shader] [] 0 0 \<comment> \<open>Rgba16ui\<close>,
     Entry 32 [Capability_Shader] [] 0 0 \<comment> \<open>Rgba8ui\<close>,
     Entry 33 [Capability_Shader] [] 0 0 \<comment> \<open>R32ui\<close>,
     Entry 34 [Capability_StorageImageExtendedFormats] [] 0 0 \<comment> \<open>Rgb10a2ui\<close>,
     Entry 35 [Capability_StorageImageExtendedFormats] [] 0 0 \<comment> \<open>Rg32ui\<close>,
     Entry 36 [Capability_StorageImageExtendedFormats] [] 0 0 \<comment> \<open>Rg16ui\<close>,
     Entry 37 [Capability_StorageImageExtendedFormats] [] 0 0 \<comment> \<open>Rg8ui\<close>,
     Entry 38 [Capability_StorageImageExtendedFormats] [] 0 0 \<comment> \<open>R16ui\<close>,
     Entry 39 [Capability_StorageImageExtendedFormats] [] 0 0 \<comment> \<open>R8ui\<close>]"

text \<open>
  For a capability, \<open>Caps\<close> lists the capabilities it depends on: the direct
  prerequisites of \<open>c\<close> are the \<open>Caps\<close> of the first line whose value is
  \<open>c\<close>, and \<open>prerequisite\<close> is the dependency relation they span.
\<close>

definition prerequisites :: "Capability \<Rightarrow> Capability list" where
  "prerequisites c =
     (case find (\<lambda>e. c = Val e) DEF_Capability of None \<Rightarrow> [] | Some e \<Rightarrow> Caps e)"

definition prerequisite :: "(Capability \<times> Capability) set" where
  "prerequisite = {(c, d). d \<in> set (prerequisites c)}"

definition capabilityValues :: "Capability set" where
  "capabilityValues = Val ` set DEF_Capability"

section \<open>The target environment profile (SPIRVSubtarget.cpp)\<close>

text \<open>Format version numbers as 32-bit integers \<open>|0|Maj|Min|Rev|\<close>.\<close>

definition v :: "8 word \<Rightarrow> 8 word \<Rightarrow> 8 word \<Rightarrow> 32 word" where
  "v Major Minor Rev = (push_bit 16 (ucast Major) OR push_bit 8 (ucast Minor)) OR ucast Rev"

text \<open>Compare version numbers, but allow 0 to mean unspecified.\<close>

definition isAtLeastVer :: "32 word \<Rightarrow> 32 word \<Rightarrow> bool" where
  "isAtLeastVer target verToCompareTo \<longleftrightarrow> target = 0 \<or> target \<ge> verToCompareTo"

text \<open>
  Modelled from the spec: \<open>llvm::Triple\<close> is outside the sources at hand. The
  subtarget reads the architecture and three environment queries from it, so a triple
  is the record of their answers (the spec's environment kind).
\<close>

datatype ArchType = spirv32 | spirv64 | spirvlogical | UnknownArch

record Triple =
  getArch :: ArchType
  isSPIRVLogical :: bool
  isVulkanEnvironment :: bool
  isOpenCLEnvironment :: bool

text \<open>
  Modelled from the spec: the header that declares \<open>ExtInstSet\<close> is outside the
  sources at hand; these are the extended instruction sets that
  \<open>initAvailableExtInstSets\<close> names.
\<close>

datatype ExtInstSet = OpenCL_std | GLSL_std_450 | ExtInstSet_SPV_AMD_shader_trinary_minmax

text \<open>
  The fields of \<open>SPIRVSubtarget\<close> that the file reads and writes. The class has one
  \<open>bool Has<Var>\<close> per line of \<open>DEF_Capability\<close>; they are the function
  \<open>Has\<close>. \<open>availableCaps\<close> is a set container (\<open>insert(..).second\<close>,
  \<open>erase\<close>, \<open>empty\<close>).
\<close>

record SPIRVSubtarget =
  pointerSize :: nat
  usesLogicalAddressing :: bool
  usesVulkanEnv :: bool
  usesOpenCLEnv :: bool
  targetSPIRVVersion :: "32 word"
  targetOpenCLVersion :: "32 word"
  targetVulkanVersion :: "32 word"
  openCLFullProfile :: bool
  openCLImageSupport :: bool
  Has :: "Capability \<Rightarrow> bool"
  availableCaps :: "Capability set"
  availableExtensions :: "Extension set"
  availableExtInstSets :: "ExtInstSet set"

definition computePointerSize :: "Triple \<Rightarrow> nat" where
  "computePointerSize TT =
     (if getArch TT = spirv32 then 32 else if getArch TT = spirv64 then 64 else 8)"

definition computeTargetSPIRVVersion :: "Triple \<Rightarrow> 32 word" where
  "computeTargetSPIRVVersion TT = v 1 4 0"

definition computeTargetOpenCLVersion :: "Triple \<Rightarrow> 32 word" where
  "computeTargetOpenCLVersion TT = (if isVulkanEnvironment TT then 0 else v 2 2 0)"

definition computeTargetVulkanVersion :: "Triple \<Rightarrow> 32 word" where
  "computeTargetVulkanVersion TT = (if isVulkanEnvironment TT then v 1 1 0 else 0)"

definition computeOpenCLImageSupport :: "Triple \<Rightarrow> bool" where
  "computeOpenCLImageSupport TT = True"

definition computeOpenCLFullProfile :: "Triple \<Rightarrow> bool" where
  "computeOpenCLFullProfile TT = True"

definition canUseCapability :: "SPIRVSubtarget \<Rightarrow> Capability \<Rightarrow> bool" where
  "canUseCapability ST c \<longleftrightarrow> c \<in> availableCaps ST"

definition canUseExtension :: "SPIRVSubtarget \<Rightarrow> Extension \<Rightarrow> bool" where
  "canUseExtension ST e \<longleftrightarrow> e \<in> availableExtensions ST"

definition canUseExtInstSet :: "SPIRVSubtarget \<Rightarrow> ExtInstSet \<Rightarrow> bool" where
  "canUseExtInstSet ST e \<longleftrightarrow> e \<in> availableExtInstSets ST"

definition isLogicalAddressing :: "SPIRVSubtarget \<Rightarrow> bool" where
  "isLogicalAddressing ST = usesLogicalAddressing ST"

definition isKernel :: "SPIRVSubtarget \<Rightarrow> bool" where
  "isKernel ST \<longleftrightarrow> usesOpenCLEnv ST \<or> \<not> usesLogicalAddressing ST"

definition isShader :: "SPIRVSubtarget \<Rightarrow> bool" where
  "isShader ST \<longleftrightarrow> usesVulkanEnv ST \<or> usesLogicalAddressing ST"

definition canDirectlyComparePointers :: "SPIRVSubtarget \<Rightarrow> bool" where
  "canDirectlyComparePointers ST = isAtLeastVer (targetSPIRVVersion ST) (v 1 4 0)"

subsection \<open>The closure: \<open>enableFeatureCapability\<close>\<close>

text \<open>
  \<open>MAKE_CAP_FEATURE_CASE\<close> expands, for every line of \<open>DEF_Capability\<close> in turn, to
  \<open>if (Cap == Enum::Var) { if (!HasVar) { HasVar = true;
  if (availableCaps.insert(Enum::Var).second) enableFeatureCapabilities(Caps); } return; }\<close>.
  The first line whose value is \<open>Cap\<close> decides; a value that no line has falls
  through every test and nothing happens.
\<close>

function enableFeatureCapability :: "Capability \<Rightarrow> SPIRVSubtarget \<Rightarrow> SPIRVSubtarget"
  and enableFeatureCapabilities :: "Capability list \<Rightarrow> SPIRVSubtarget \<Rightarrow> SPIRVSubtarget"
where
  "enableFeatureCapability Cap ST =
     (case find (\<lambda>e. Cap = Val e) DEF_Capability of
        None \<Rightarrow> ST
      | Some e \<Rightarrow>
          if \<not> Has ST Cap then
            if Cap \<notin> availableCaps ST then
              enableFeatureCapabilities (Caps e)
                (ST\<lparr>Has := (Has ST)(Cap := True),
                    availableCaps := insert Cap (availableCaps ST)\<rparr>)
            else ST\<lparr>Has := (Has ST)(Cap := True)\<rparr>
          else ST)"
| "enableFeatureCapabilities [] ST = ST"
| "enableFeatureCapabilities (Cap # Rest) ST =
     enableFeatureCapabilities Rest (enableFeatureCapability Cap ST)"
  by pat_completeness auto


lemma enable_dom_Has:
  "enableFeatureCapability_enableFeatureCapabilities_dom (Inl (Cap, ST)) \<Longrightarrow>
     Has ST c \<longrightarrow> Has (enableFeatureCapability Cap ST) c"
  "enableFeatureCapability_enableFeatureCapabilities_dom (Inr (Cs, ST)) \<Longrightarrow>
     Has ST c \<longrightarrow> Has (enableFeatureCapabilities Cs ST) c"
proof (induct rule: enableFeatureCapability_enableFeatureCapabilities.pinduct)
  case (1 Cap ST)
  then show ?case
    by (auto simp: enableFeatureCapability.psimps split: option.splits)
next
  case (2 ST)
  then show ?case by (simp add: enableFeatureCapabilities.psimps)
next
  case (3 Cap Rest ST)
  then show ?case by (simp add: enableFeatureCapabilities.psimps)
qed

definition unflagged :: "SPIRVSubtarget \<Rightarrow> nat" where
  "unflagged ST = card {c \<in> Val ` set DEF_Capability. \<not> Has ST c}"

lemma unflagged_mono:
  "(\<And>c. Has ST c \<Longrightarrow> Has ST' c) \<Longrightarrow> unflagged ST' \<le> unflagged ST"
  unfolding unflagged_def by (rule card_mono) auto

lemma unflagged_less:
  assumes "find (\<lambda>e. Cap = Val e) DEF_Capability = Some e" "\<not> Has ST Cap"
  shows "unflagged (ST\<lparr>Has := (Has ST)(Cap := True), availableCaps := A\<rparr>) < unflagged ST"
proof -
  from assms(1) have "Cap \<in> Val ` set DEF_Capability"
    by (auto simp: find_Some_iff)
  with assms(2) show ?thesis
    unfolding unflagged_def
    by (intro psubset_card_mono) auto
qed

termination enableFeatureCapability
proof (relation "inv_image (less_than <*lex*> less_than)
    (\<lambda>x. case x of Inl (Cap, ST) \<Rightarrow> (unflagged ST, 0)
                 | Inr (Cs, ST) \<Rightarrow> (unflagged ST, Suc (length Cs)))", goal_cases)
  case 1
  show ?case by (intro wf_inv_image wf_lex_prod wf_less_than)
next
  case (2 Cap ST e)
  then show ?case by (simp add: unflagged_less)
next
  case (3 Cap Rest ST)
  then show ?case by simp
next
  case (4 Cap Rest ST)
  then have "unflagged (enableFeatureCapability Cap ST) \<le> unflagged ST"
    by (intro unflagged_mono) (simp add: enable_dom_Has)
  then show ?case by auto
qed

declare enableFeatureCapability.simps [simp del]



subsection \<open>Building the profile\<close>

text \<open>
  \<open>MAKE_CAP_FEATURE_CASE\<close> of \<open>updateCapabilitiesFromFeatures\<close>, for one line of
  \<open>DEF_Capability\<close>.
\<close>

definition updateCapabilityFromFeature :: "EnumEntry \<Rightarrow> SPIRVSubtarget \<Rightarrow> SPIRVSubtarget" where
  "updateCapabilityFromFeature e ST =
     (if Has ST (Val e) then
        if Val e \<notin> availableCaps ST then
          enableFeatureCapabilities (Caps e)
            (ST\<lparr>availableCaps := insert (Val e) (availableCaps ST)\<rparr>)
        else ST
      else if availableCaps ST \<noteq> {} then
        ST\<lparr>availableCaps := availableCaps ST - {Val e}\<rparr>
      else ST)"

text \<open>The expansion is one such statement per line, in the order of the table.\<close>

definition updateCapabilitiesFromFeatures :: "SPIRVSubtarget \<Rightarrow> SPIRVSubtarget" where
  "updateCapabilitiesFromFeatures ST = fold updateCapabilityFromFeature DEF_Capability ST"

text \<open>The chained assignment \<open>HasA = HasB = ... = true\<close>.\<close>

definition setHas :: "Capability list \<Rightarrow> SPIRVSubtarget \<Rightarrow> SPIRVSubtarget" where
  "setHas cs ST = ST\<lparr>Has := (\<lambda>c. if c \<in> set cs then True else Has ST c)\<rparr>"

definition initAvailableExtensions :: "Triple \<Rightarrow> SPIRVSubtarget \<Rightarrow> SPIRVSubtarget" where
  "initAvailableExtensions TT ST =
     (if isVulkanEnvironment TT then ST\<lparr>availableExtensions := {}\<rparr>
      else ST\<lparr>availableExtensions := {SPV_KHR_no_integer_wrap_decoration}\<rparr>)"

definition initAvailableExtInstSets :: "Triple \<Rightarrow> SPIRVSubtarget \<Rightarrow> SPIRVSubtarget" where
  "initAvailableExtInstSets TT ST =
     (let ST1 = (if usesVulkanEnv ST
                 then ST\<lparr>availableExtInstSets := insert GLSL_std_450 (availableExtInstSets ST)\<rparr>
                 else ST\<lparr>availableExtInstSets := insert OpenCL_std (availableExtInstSets ST)\<rparr>)
      in if canUseExtension ST1 SPV_AMD_shader_trinary_minmax
         then ST1\<lparr>availableExtInstSets :=
                    insert ExtInstSet_SPV_AMD_shader_trinary_minmax (availableExtInstSets ST1)\<rparr>
         else ST1)"

definition initAvailableCapabilities :: "Triple \<Rightarrow> SPIRVSubtarget \<Rightarrow> SPIRVSubtarget" where
  "initAvailableCapabilities TT ST =
     (if isVulkanEnvironment TT then
        setHas [Capability_Matrix, Capability_Shader, Capability_InputAttachment,
                Capability_Sampled1D, Capability_Image1D, Capability_SampledBuffer,
                Capability_ImageBuffer, Capability_ImageQuery, Capability_DerivativeControl] ST
      else
        let ST1 = setHas [Capability_Addresses, Capability_Float16Buffer, Capability_Int16,
                          Capability_Int8, Capability_Kernel, Capability_Linkage,
                          Capability_Vector16] ST;
            ST2 = (if openCLFullProfile ST1 then setHas [Capability_Int64] ST1 else ST1);
            ST3 = (if openCLImageSupport ST2 then
                     let ST2a = setHas [Capability_ImageBasic, Capability_LiteralSampler,
                                        Capability_Image1D, Capability_SampledBuffer,
                                        Capability_ImageBuffer] ST2
                     in if isAtLeastVer (targetOpenCLVersion ST2a) (v 2 0 0)
                        then setHas [Capability_ImageReadWrite] ST2a else ST2a
                   else ST2);
            ST4 = (if isAtLeastVer (targetSPIRVVersion ST3) (v 1 1 0) \<and>
                      isAtLeastVer (targetOpenCLVersion ST3) (v 2 2 0)
                   then setHas [Capability_PipeStorage] ST3 else ST3)
        in setHas [Capability_Float16, Capability_Float64] ST4)"

text \<open>
  \<open>initSubtargetDependencies\<close> clears every \<open>Has<Var>\<close> and then calls the generated
  \<open>ParseSubtargetFeatures(CPU, FS)\<close>, which is outside the sources at hand: the
  capabilities whose flag the feature string switches on are the parameter
  \<open>Features\<close>.
\<close>

definition initSubtargetDependencies :: "Capability list \<Rightarrow> Capability \<Rightarrow> bool" where
  "initSubtargetDependencies Features = (\<lambda>c. if c \<in> set Features then True else False)"

text \<open>
  The constructor: the member initialisers, then \<open>initAvailableExtensions\<close>,
  \<open>initAvailableExtInstSets\<close>, \<open>initAvailableCapabilities\<close> and
  \<open>updateCapabilitiesFromFeatures\<close>, in this order. The containers start empty.
\<close>

definition newSPIRVSubtarget :: "Triple \<Rightarrow> Capability list \<Rightarrow> SPIRVSubtarget" where
  "newSPIRVSubtarget TT Features =
     updateCapabilitiesFromFeatures
       (initAvailableCapabilities TT
         (initAvailableExtInstSets TT
           (initAvailableExtensions TT
             \<lparr>pointerSize = computePointerSize TT,
              usesLogicalAddressing = isSPIRVLogical TT,
              usesVulkanEnv = isVulkanEnvironment TT,
              usesOpenCLEnv = isOpenCLEnvironment TT,
              targetSPIRVVersion = computeTargetSPIRVVersion TT,
              targetOpenCLVersion = computeTargetOpenCLVersion TT,
              targetVulkanVersion = computeTargetVulkanVersion TT,
              openCLFullProfile = computeOpenCLFullProfile TT,
              openCLImageSupport = computeOpenCLImageSupport TT,
              Has = initSubtargetDependencies Features,
              availableCaps = {},
              availableExtensions = {},
              availableExtInstSets = {}\<rparr>)))"


section \<open>The requirement accumulator\<close>

text \<open>
  Modelled from the spec: \<open>SPIRVCapabilityUtils.h\<close>, which declares
  \<open>SPIRVRequirementHandler\<close>, is not part of the sources at hand. The spec's
  Requirement Accumulator is an insertion-ordered set of enabled capabilities and an
  insertion-ordered set of required extensions, read at the end of the scan by
  \<open>getMinimalCapabilities\<close> and \<open>getExtensions\<close>.
\<close>

record SPIRVRequirementHandler =
  enabledCaps :: "Capability list"
  extensions :: "Extension list"

text \<open>
  Modelled from the spec: \<open>getMinimalCapabilities()\<close> and \<open>getExtensions()\<close> are
  read-only, insertion-ordered snapshots of the two sets (section 4.2).
\<close>

definition getMinimalCapabilities :: "SPIRVRequirementHandler \<Rightarrow> Capability list" where
  "getMinimalCapabilities reqs = enabledCaps reqs"

definition getExtensions :: "SPIRVRequirementHandler \<Rightarrow> Extension list" where
  "getExtensions reqs = extensions reqs"

text \<open>
  Modelled from the spec: the Closure Algorithm \<open>enableCapability(c, enabledSet, graph)\<close>
  of section 4.1: if \<open>c\<close> is already a member of \<open>enabledSet\<close>, no-op; otherwise
  insert \<open>c\<close>, then recursively enable each direct prerequisite of \<open>c\<close>. The
  graph is the Capability Dependency Graph, \<open>prerequisites\<close>.
\<close>

function enableCapability :: "Capability \<Rightarrow> Capability list \<Rightarrow> Capability list"
  and enableCapabilities :: "Capability list \<Rightarrow> Capability list \<Rightarrow> Capability list"
where
  "enableCapability c enabledSet =
     (if c \<in> set enabledSet then enabledSet
      else enableCapabilities (prerequisites c) (enabledSet @ [c]))"
| "enableCapabilities [] enabledSet = enabledSet"
| "enableCapabilities (c # cs) enabledSet =
     enableCapabilities cs (enableCapability c enabledSet)"
  by pat_completeness auto

lemma enableCapability_dom_subset:
  "enableCapability_enableCapabilities_dom (Inl (c, S)) \<Longrightarrow> x \<in> set S \<longrightarrow> x \<in> set (enableCapability c S)"
  "enableCapability_enableCapabilities_dom (Inr (cs, S)) \<Longrightarrow> x \<in> set S \<longrightarrow> x \<in> set (enableCapabilities cs S)"
proof (induct rule: enableCapability_enableCapabilities.pinduct)
  case (1 c enabledSet)
  then show ?case by (simp add: enableCapability.psimps)
next
  case (2 enabledSet)
  then show ?case by (simp add: enableCapabilities.psimps)
next
  case (3 c cs enabledSet)
  then show ?case by (simp add: enableCapabilities.psimps)
qed

definition notEnabled :: "Capability list \<Rightarrow> nat" where
  "notEnabled S = card (Val ` set DEF_Capability - set S)"

lemma notEnabled_mono: "set S \<subseteq> set S' \<Longrightarrow> notEnabled S' \<le> notEnabled S"
  unfolding notEnabled_def by (rule card_mono) auto

lemma prerequisites_outside: "c \<notin> Val ` set DEF_Capability \<Longrightarrow> prerequisites c = []"
  by (auto simp: prerequisites_def find_Some_iff split: option.splits)

lemma notEnabled_less:
  "c \<in> Val ` set DEF_Capability \<Longrightarrow> c \<notin> set S \<Longrightarrow> notEnabled (S @ [c]) < notEnabled S"
  unfolding notEnabled_def by (intro psubset_card_mono) auto

termination enableCapability
proof (relation "inv_image (less_than <*lex*> less_than)
    (\<lambda>x. case x of Inl (c, S) \<Rightarrow> (notEnabled S, 1)
                 | Inr (cs, S) \<Rightarrow> (notEnabled S, 2 * length cs))", goal_cases)
  case 1
  show ?case by (intro wf_inv_image wf_lex_prod wf_less_than)
next
  case (2 c enabledSet)
  show ?case
  proof (cases "c \<in> Val ` set DEF_Capability")
    case True
    with 2 show ?thesis by (simp add: notEnabled_less)
  next
    case False
    then have "prerequisites c = []" by (rule prerequisites_outside)
    moreover have "notEnabled (enabledSet @ [c]) \<le> notEnabled enabledSet"
      by (rule notEnabled_mono) auto
    ultimately show ?thesis by auto
  qed
next
  case (3 c cs enabledSet)
  then show ?case by simp
next
  case (4 c cs enabledSet)
  then have "notEnabled (enableCapability c enabledSet) \<le> notEnabled enabledSet"
    by (intro notEnabled_mono) (auto simp: enableCapability_dom_subset)
  then show ?case by auto
qed

declare enableCapability.simps [simp del]


text \<open>
  Modelled from the spec: the error kinds of section 7 that a scan can meet
  (\<open>UnmetCapabilityRequirement\<close>, \<open>UnmetExtensionRequirement\<close>,
  \<open>MalformedInstruction\<close>). \<open>WrongOperandAccessor\<close> and \<open>UndefinedRegister\<close>
  are added for the assertion of \<open>MachineOperand::getImm\<close>/\<open>getReg\<close> on an
  operand of the other kind and for the null result of \<open>getVRegDef\<close>.
\<close>

datatype error =
    UnmetCapabilityRequirement
  | UnmetExtensionRequirement
  | MalformedInstruction
  | WrongOperandAccessor
  | UndefinedRegister

text \<open>
  Resolution of a function is all-or-nothing: an error aborts it. A failed step is the
  error together with the accumulator as it stands at the abort. \<open>andThen\<close> runs
  the next statement on the accumulator of a successful step; \<open>orFault\<close> continues
  with the value of an operand read, or aborts with its error.
\<close>

type_synonym result = "(error \<times> SPIRVRequirementHandler) + SPIRVRequirementHandler"

definition andThen :: "result \<Rightarrow> (SPIRVRequirementHandler \<Rightarrow> result) \<Rightarrow> result" where
  "andThen r k = (case r of Inl f \<Rightarrow> Inl f | Inr reqs \<Rightarrow> k reqs)"

definition orFault :: "error + 'a \<Rightarrow> SPIRVRequirementHandler \<Rightarrow> ('a \<Rightarrow> result) \<Rightarrow> result" where
  "orFault x reqs k = (case x of Inl e \<Rightarrow> Inl (e, reqs) | Inr a \<Rightarrow> k a)"

text \<open>
  Modelled from the spec: \<open>addCapability(c)\<close> is shorthand for \<open>enableCapability\<close>
  against the Accumulator's set (section 4.2).
\<close>

definition addCapability :: "Capability \<Rightarrow> SPIRVRequirementHandler \<Rightarrow> SPIRVRequirementHandler" where
  "addCapability c reqs = reqs\<lparr>enabledCaps := enableCapability c (enabledCaps reqs)\<rparr>"

text \<open>
  Modelled from the spec: \<open>SPIRVEnumRequirements.h\<close> is not part of the sources at
  hand. A requirement spec (section 3) is one or more alternative capability sets, a
  set of required extensions and a version window \<open>[minVersion, maxVersion]\<close> with
  \<open>0\<close> for unbounded.
\<close>

record SPIRVRequirements =
  alternativeSets :: "Capability list list"
  requiredExtensions :: "Extension list"
  minVersion :: "32 word"
  maxVersion :: "32 word"

text \<open>
  Modelled from the spec: the target version falls inside the window when neither
  bound excludes it, a bound of \<open>0\<close> excluding nothing.
\<close>

definition inVersionWindow :: "32 word \<Rightarrow> 32 word \<Rightarrow> 32 word \<Rightarrow> bool" where
  "inVersionWindow target minVer maxVer \<longleftrightarrow>
     (minVer = 0 \<or> minVer \<le> target) \<and> (maxVer = 0 \<or> target \<le> maxVer)"

text \<open>
  Modelled from the spec: insertion into an insertion-ordered set; an element that is
  present stays where it is.
\<close>

definition insertOrdered :: "'a \<Rightarrow> 'a list \<Rightarrow> 'a list" where
  "insertOrdered x xs = (if x \<in> set xs then xs else xs @ [x])"

text \<open>
  Modelled from the spec: \<open>addRequirements(alternativeSets, extensions, minVersion,
  maxVersion)\<close> of section 4.2. First the capabilities: if any alternative set is a
  subset of the enabled set, nothing is to do; else the alternatives are scanned in
  declared order, the first whose every member is in the Profile's available set is
  enabled by the closure, and if none qualifies the step fails with an
  unmet-capability error.
\<close>

definition addRequiredCapabilities ::
  "SPIRVSubtarget \<Rightarrow> Capability list list \<Rightarrow> SPIRVRequirementHandler \<Rightarrow> result" where
  "addRequiredCapabilities ST alts reqs =
     (if \<exists>alt \<in> set alts. set alt \<subseteq> set (enabledCaps reqs) then Inr reqs
      else case find (\<lambda>alt. \<forall>c \<in> set alt. canUseCapability ST c) alts of
             None \<Rightarrow> Inl (UnmetCapabilityRequirement, reqs)
           | Some alt \<Rightarrow>
               Inr (reqs\<lparr>enabledCaps := enableCapabilities alt (enabledCaps reqs)\<rparr>))"

text \<open>
  Modelled from the spec: the second half of \<open>addRequirements\<close> (section 4.2), for a
  target version outside the window: each extension is added if available, else the
  step fails with an unmet-extension error.
\<close>

fun addRequiredExtensions ::
  "SPIRVSubtarget \<Rightarrow> Extension list \<Rightarrow> SPIRVRequirementHandler \<Rightarrow> result" where
  "addRequiredExtensions ST [] reqs = Inr reqs"
| "addRequiredExtensions ST (e # es) reqs =
     (if canUseExtension ST e
      then addRequiredExtensions ST es (reqs\<lparr>extensions := insertOrdered e (extensions reqs)\<rparr>)
      else Inl (UnmetExtensionRequirement, reqs))"

text \<open>
  Modelled from the spec: \<open>addRequirements\<close> is the capability half and then,
  independently, the extension half if the target version falls outside
  \<open>[minVersion, maxVersion]\<close>. The handler is created without a profile, so the
  profile that the spec's operation consults is passed with the call; the target
  version is the SPIR-V version of the profile.
\<close>

definition addRequirements ::
  "SPIRVSubtarget \<Rightarrow> SPIRVRequirements \<Rightarrow> SPIRVRequirementHandler \<Rightarrow> result" where
  "addRequirements ST req reqs =
     andThen (addRequiredCapabilities ST (alternativeSets req) reqs) (\<lambda>reqs1.
       if inVersionWindow (targetSPIRVVersion ST) (minVersion req) (maxVersion req)
       then Inr reqs1
       else addRequiredExtensions ST (requiredExtensions req) reqs1)"

text \<open>
  Modelled from the spec: a requirement spec has one or more alternative capability
  sets. Outside \<open>DEF_Capability\<close> the capabilities of \<open>Caps\<close> are alternatives, any
  one of which suffices; an empty \<open>Caps\<close> is the one alternative that asks for
  nothing.
\<close>

definition alternatives :: "Capability list \<Rightarrow> Capability list list" where
  "alternatives caps = (if caps = [] then [[]] else map (\<lambda>c. [c]) caps)"

text \<open>
  Modelled from the spec: the Enum Metadata Table maps an enumerator to its
  requirement spec, read off its line \<open>X(N, Var, Val, Caps, Exts, MinVer, MaxVer)\<close>.
  A value that no line has requires nothing.
\<close>

definition getEnumRequirements :: "EnumEntry list \<Rightarrow> 32 word \<Rightarrow> SPIRVRequirements" where
  "getEnumRequirements table i =
     (case find (\<lambda>e. unat i = Val e) table of
        None \<Rightarrow> \<lparr>alternativeSets = [[]], requiredExtensions = [],
                  minVersion = 0, maxVersion = 0\<rparr>
      | Some e \<Rightarrow> \<lparr>alternativeSets = alternatives (Caps e), requiredExtensions = Exts e,
                    minVersion = MinVer e, maxVersion = MaxVer e\<rparr>)"

text \<open>
  Modelled from the spec: the lookups of \<open>SPIRVEnumRequirements.h\<close> that the mapper
  calls, one per enumeration. Each takes the enumerator as \<open>uint32_t\<close> and the
  subtarget; the table lookup does not need the latter.
\<close>

definition getAddressingModelRequirements :: "32 word \<Rightarrow> SPIRVSubtarget \<Rightarrow> SPIRVRequirements" where
  "getAddressingModelRequirements i ST = getEnumRequirements DEF_AddressingModel i"

definition getMemoryModelRequirements :: "32 word \<Rightarrow> SPIRVSubtarget \<Rightarrow> SPIRVRequirements" where
  "getMemoryModelRequirements i ST = getEnumRequirements DEF_MemoryModel i"

definition getExecutionModelRequirements :: "32 word \<Rightarrow> SPIRVSubtarget \<Rightarrow> SPIRVRequirements" where
  "getExecutionModelRequirements i ST = getEnumRequirements DEF_ExecutionModel i"

definition getExecutionModeRequirements :: "32 word \<Rightarrow> SPIRVSubtarget \<Rightarrow> SPIRVRequirements" where
  "getExecutionModeRequirements i ST = getEnumRequirements DEF_ExecutionMode i"

definition getStorageClassRequirements :: "32 word \<Rightarrow> SPIRVSubtarget \<Rightarrow> SPIRVRequirements" where
  "getStorageClassRequirements i ST = getEnumRequirements DEF_StorageClass i"

definition getDecorationRequirements :: "32 word \<Rightarrow> SPIRVSubtarget \<Rightarrow> SPIRVRequirements" where
  "getDecorationRequirements i ST = getEnumRequirements DEF_Decoration i"

definition getBuiltInRequirements :: "32 word \<Rightarrow> SPIRVSubtarget \<Rightarrow> SPIRVRequirements" where
  "getBuiltInRequirements i ST = getEnumRequirements DEF_BuiltIn i"

definition getImageFormatRequirements :: "32 word \<Rightarrow> SPIRVSubtarget \<Rightarrow> SPIRVRequirements" where
  "getImageFormatRequirements i ST = getEnumRequirements DEF_ImageFormat i"

text \<open>
  Modelled from the spec: \<open>reqs.addRequirements(Capability::X)\<close> passes a bare
  capability where a requirement is expected: the requirement whose only alternative
  is \<open>{X}\<close>, without extensions or version bounds.
\<close>

definition capabilityRequirement :: "Capability \<Rightarrow> SPIRVRequirements" where
  "capabilityRequirement c =
     \<lparr>alternativeSets = [[c]], requiredExtensions = [], minVersion = 0, maxVersion = 0\<rparr>"


section \<open>The instruction requirement mapper (SPIRVAddRequirementsPass.cpp)\<close>

text \<open>
  Modelled from the spec: \<open>llvm::MachineInstr\<close>, its operands and the register
  information are outside the sources at hand. An instruction is an opcode plus an
  ordered operand list of immediates and references to other instructions' results
  (section 3). The opcodes are those that \<open>addInstrRequirements\<close> and the driver
  name; every other opcode is \<open>OtherOpcode\<close> with its number, and takes the
  \<open>default\<close> branch.
\<close>

datatype Opcode =
    OpMemoryModel | OpEntryPoint | OpExecutionMode | OpExecutionModeId
  | OpTypeMatrix | OpTypeInt | OpTypeFloat | OpTypeVector | OpTypePointer
  | OpTypeRuntimeArray | OpTypeOpaque | OpTypeEvent | OpTypePipe | OpTypeReserveId
  | OpTypeDeviceEvent | OpTypeQueue
  | OpDecorate | OpDecorateId | OpDecorateString | OpMemberDecorate | OpMemberDecorateString
  | OpInBoundsPtrAccessChain | OpConstantSampler | OpTypeImage | OpTypeSampler
  | OpTypeForwardPointer
  | OpSelect | OpPhi | OpFunctionCall | OpPtrAccessChain | OpLoad | OpConstantNull
  | OpCapability | OpExtension
  | OtherOpcode nat

text \<open>
  Modelled from the spec: an operand is an immediate (\<open>getImm\<close> returns
  \<open>int64_t\<close>) or a virtual register, the reference to another instruction's result.
\<close>

datatype MachineOperand = Imm "64 word" | Reg nat

record MachineInstr =
  getOpcode :: Opcode
  operands :: "MachineOperand list"

text \<open>
  Modelled from the spec: the value/type definition registry (section 6),
  \<open>MI.getMF()->getRegInfo()\<close>, whose \<open>getVRegDef\<close> maps a virtual register to the
  instruction that defines it, or to null.
\<close>

type_synonym MachineRegisterInfo = "nat \<Rightarrow> MachineInstr option"

definition getNumOperands :: "MachineInstr \<Rightarrow> nat" where
  "getNumOperands MI = length (operands MI)"

text \<open>\<open>getOperand(i)\<close> asserts \<open>i < getNumOperands()\<close>.\<close>

definition getOperand :: "MachineInstr \<Rightarrow> nat \<Rightarrow> error + MachineOperand" where
  "getOperand MI i =
     (if i < getNumOperands MI then Inr (operands MI ! i) else Inl MalformedInstruction)"

fun getImm :: "MachineOperand \<Rightarrow> error + 64 word" where
  "getImm (Imm val) = Inr val"
| "getImm (Reg r) = Inl WrongOperandAccessor"

fun getReg :: "MachineOperand \<Rightarrow> error + nat" where
  "getReg (Reg r) = Inr r"
| "getReg (Imm val) = Inl WrongOperandAccessor"

text \<open>\<open>MI.getOperand(i).getImm()\<close> and \<open>MI.getOperand(i).getReg()\<close>.\<close>

definition getOperandImm :: "MachineInstr \<Rightarrow> nat \<Rightarrow> error + 64 word" where
  "getOperandImm MI i = (case getOperand MI i of Inl e \<Rightarrow> Inl e | Inr MO \<Rightarrow> getImm MO)"

definition getOperandReg :: "MachineInstr \<Rightarrow> nat \<Rightarrow> error + nat" where
  "getOperandReg MI i = (case getOperand MI i of Inl e \<Rightarrow> Inl e | Inr MO \<Rightarrow> getReg MO)"

text \<open>The enumerators that the mapper names.\<close>

abbreviation (input) Decoration_BuiltIn :: "64 word" where "Decoration_BuiltIn \<equiv> 11"
abbreviation (input) Dim_DIM_1D :: "32 word" where "Dim_DIM_1D \<equiv> 0"
abbreviation (input) Dim_DIM_2D :: "32 word" where "Dim_DIM_2D \<equiv> 1"
abbreviation (input) Dim_DIM_3D :: "32 word" where "Dim_DIM_3D \<equiv> 2"
abbreviation (input) Dim_DIM_Cube :: "32 word" where "Dim_DIM_Cube \<equiv> 3"
abbreviation (input) Dim_DIM_Rect :: "32 word" where "Dim_DIM_Rect \<equiv> 4"
abbreviation (input) Dim_DIM_Buffer :: "32 word" where "Dim_DIM_Buffer \<equiv> 5"
abbreviation (input) Dim_DIM_SubpassData :: "32 word" where "Dim_DIM_SubpassData \<equiv> 6"
abbreviation (input) AccessQualifier_ReadWrite :: "64 word" where "AccessQualifier_ReadWrite \<equiv> 2"

text \<open>
  Add VariablePointers to the requirements if this instruction defines a pointer
  (Logical only).
\<close>

definition addVariablePtrInstrReqs ::
  "MachineRegisterInfo \<Rightarrow> MachineInstr \<Rightarrow> SPIRVRequirementHandler \<Rightarrow> SPIRVSubtarget \<Rightarrow> result" where
  "addVariablePtrInstrReqs MRI MI reqs ST =
     (if isLogicalAddressing ST then
        orFault (getOperandReg MI 1) reqs (\<lambda>type.
          case MRI type of
            None \<Rightarrow> Inl (UndefinedRegister, reqs)
          | Some def \<Rightarrow>
              if getOpcode def = OpTypePointer
              then Inr (addCapability Capability_VariablePointers reqs)
              else Inr reqs)
      else Inr reqs)"

text \<open>
  Add the required capabilities from a decoration instruction (including BuiltIns).
  \<open>decOp\<close> is the \<open>int64_t\<close> immediate; it is narrowed to \<open>uint32_t\<close> for the
  table and compared as it is with \<open>Decoration::BuiltIn\<close>.
\<close>

definition addOpDecorateReqs ::
  "MachineInstr \<Rightarrow> nat \<Rightarrow> SPIRVRequirementHandler \<Rightarrow> SPIRVSubtarget \<Rightarrow> result" where
  "addOpDecorateReqs MI decIndex reqs ST =
     orFault (getOperandImm MI decIndex) reqs (\<lambda>decOp.
       andThen (addRequirements ST (getDecorationRequirements (ucast decOp) ST) reqs) (\<lambda>reqs1.
         if decOp = Decoration_BuiltIn then
           orFault (getOperandImm MI (decIndex + 1)) reqs1 (\<lambda>builtInOp.
             addRequirements ST (getBuiltInRequirements (ucast builtInOp) ST) reqs1)
         else Inr reqs1))"

text \<open>The \<open>switch (dim)\<close> of \<open>addOpTypeImageReqs\<close>.\<close>

definition addDimReqs ::
  "32 word \<Rightarrow> bool \<Rightarrow> bool \<Rightarrow> bool \<Rightarrow> SPIRVRequirementHandler \<Rightarrow> SPIRVSubtarget \<Rightarrow> result" where
  "addDimReqs dim isArrayed isMultisampled noSampler reqs ST =
     (if dim = Dim_DIM_1D then
        addRequirements ST (capabilityRequirement
          (if noSampler then Capability_Image1D else Capability_Sampled1D)) reqs
      else if dim = Dim_DIM_2D then
        if isMultisampled \<and> noSampler
        then addRequirements ST (capabilityRequirement Capability_ImageMSArray) reqs
        else Inr reqs
      else if dim = Dim_DIM_3D then Inr reqs
      else if dim = Dim_DIM_Cube then
        andThen (addRequirements ST (capabilityRequirement Capability_Shader) reqs) (\<lambda>reqs1.
          if isArrayed then
            addRequirements ST (capabilityRequirement
              (if noSampler then Capability_ImageCubeArray else Capability_SampledCubeArray)) reqs1
          else Inr reqs1)
      else if dim = Dim_DIM_Rect then
        addRequirements ST (capabilityRequirement
          (if noSampler then Capability_ImageRect else Capability_SampledRect)) reqs
      else if dim = Dim_DIM_Buffer then
        addRequirements ST (capabilityRequirement
          (if noSampler then Capability_ImageBuffer else Capability_SampledBuffer)) reqs
      else if dim = Dim_DIM_SubpassData then
        addRequirements ST (capabilityRequirement Capability_InputAttachment) reqs
      else Inr reqs)"

text \<open>
  Add requirements for image handling. The operand indices are those of the
  \<open>OpTypeImage\<close> layout; the \<open>assert\<close> on the operand count comes first.
\<close>

definition addOpTypeImageReqs ::
  "MachineInstr \<Rightarrow> SPIRVRequirementHandler \<Rightarrow> SPIRVSubtarget \<Rightarrow> result" where
  "addOpTypeImageReqs MI reqs ST =
     (if \<not> getNumOperands MI \<ge> 8 then Inl (MalformedInstruction, reqs)
      else
        orFault (getOperandImm MI 7) reqs (\<lambda>imgFormatOp.
        andThen (addRequirements ST (getImageFormatRequirements (ucast imgFormatOp) ST) reqs) (\<lambda>reqs1.
        orFault (getOperandImm MI 4) reqs1 (\<lambda>arrayedOp.
        orFault (getOperandImm MI 5) reqs1 (\<lambda>multisampledOp.
        orFault (getOperandImm MI 6) reqs1 (\<lambda>sampledOp.
        orFault (getOperandImm MI 2) reqs1 (\<lambda>dimOp.
        andThen (addDimReqs (ucast dimOp) (arrayedOp = 1) (multisampledOp = 1) (sampledOp = 2)
                   reqs1 ST) (\<lambda>reqs2.
          if isKernel ST then
            if getNumOperands MI > 8 then
              orFault (getOperandImm MI 8) reqs2 (\<lambda>accessOp.
                if accessOp = AccessQualifier_ReadWrite
                then addRequirements ST (capabilityRequirement Capability_ImageReadWrite) reqs2
                else addRequirements ST (capabilityRequirement Capability_ImageBasic) reqs2)
            else addRequirements ST (capabilityRequirement Capability_ImageBasic) reqs2
          else Inr reqs2))))))))"

text \<open>
  Add all the requirements needed for the given instruction. \<open>unsigned bitWidth\<close>
  and \<open>unsigned numComponents\<close> narrow the immediate to 32 bits.
\<close>

definition addInstrRequirements ::
  "MachineRegisterInfo \<Rightarrow> MachineInstr \<Rightarrow> SPIRVRequirementHandler \<Rightarrow> SPIRVSubtarget \<Rightarrow> result" where
  "addInstrRequirements MRI MI reqs ST =
     (case getOpcode MI of
        OpMemoryModel \<Rightarrow>
          orFault (getOperandImm MI 0) reqs (\<lambda>addr.
          andThen (addRequirements ST (getAddressingModelRequirements (ucast addr) ST) reqs) (\<lambda>reqs1.
          orFault (getOperandImm MI 1) reqs1 (\<lambda>mem.
            addRequirements ST (getMemoryModelRequirements (ucast mem) ST) reqs1)))
      | OpEntryPoint \<Rightarrow>
          orFault (getOperandImm MI 0) reqs (\<lambda>exe.
            addRequirements ST (getExecutionModelRequirements (ucast exe) ST) reqs)
      | OpExecutionMode \<Rightarrow>
          orFault (getOperandImm MI 1) reqs (\<lambda>exe.
            addRequirements ST (getExecutionModeRequirements (ucast exe) ST) reqs)
      | OpExecutionModeId \<Rightarrow>
          orFault (getOperandImm MI 1) reqs (\<lambda>exe.
            addRequirements ST (getExecutionModeRequirements (ucast exe) ST) reqs)
      | OpTypeMatrix \<Rightarrow> Inr (addCapability Capability_Matrix reqs)
      | OpTypeInt \<Rightarrow>
          orFault (getOperandImm MI 1) reqs (\<lambda>imm.
            let bitWidth = (ucast imm :: 32 word) in
            if bitWidth = 64 then Inr (addCapability Capability_Int64 reqs)
            else if bitWidth = 16 then Inr (addCapability Capability_Int16 reqs)
            else if bitWidth = 8 then Inr (addCapability Capability_Int8 reqs)
            else Inr reqs)
      | OpTypeFloat \<Rightarrow>
          orFault (getOperandImm MI 1) reqs (\<lambda>imm.
            let bitWidth = (ucast imm :: 32 word) in
            if bitWidth = 64 then Inr (addCapability Capability_Float64 reqs)
            else if bitWidth = 16 then Inr (addCapability Capability_Float16 reqs)
            else Inr reqs)
      | OpTypeVector \<Rightarrow>
          orFault (getOperandImm MI 2) reqs (\<lambda>imm.
            let numComponents = (ucast imm :: 32 word) in
            if numComponents = 8 \<or> numComponents = 16
            then Inr (addCapability Capability_Vector16 reqs)
            else Inr reqs)
      | OpTypePointer \<Rightarrow>
          orFault (getOperandImm MI 1) reqs (\<lambda>sc.
            addRequirements ST (getStorageClassRequirements (ucast sc) ST) reqs)
      | OpTypeRuntimeArray \<Rightarrow> Inr (addCapability Capability_Shader reqs)
      | OpTypeOpaque \<Rightarrow> Inr (addCapability Capability_Kernel reqs)
      | OpTypeEvent \<Rightarrow> Inr (addCapability Capability_Kernel reqs)
      | OpTypePipe \<Rightarrow> Inr (addCapability Capability_Pipes reqs)
      | OpTypeReserveId \<Rightarrow> Inr (addCapability Capability_Pipes reqs)
      | OpTypeDeviceEvent \<Rightarrow> Inr (addCapability Capability_DeviceEnqueue reqs)
      | OpTypeQueue \<Rightarrow> Inr (addCapability Capability_DeviceEnqueue reqs)
      | OpDecorate \<Rightarrow> addOpDecorateReqs MI 1 reqs ST
      | OpDecorateId \<Rightarrow> addOpDecorateReqs MI 1 reqs ST
      | OpDecorateString \<Rightarrow> addOpDecorateReqs MI 1 reqs ST
      | OpMemberDecorate \<Rightarrow> addOpDecorateReqs MI 2 reqs ST
      | OpMemberDecorateString \<Rightarrow> addOpDecorateReqs MI 2 reqs ST
      | OpInBoundsPtrAccessChain \<Rightarrow> Inr (addCapability Capability_Addresses reqs)
      | OpConstantSampler \<Rightarrow> Inr (addCapability Capability_LiteralSampler reqs)
      | OpTypeImage \<Rightarrow> addOpTypeImageReqs MI reqs ST
      | OpTypeSampler \<Rightarrow> Inr (addCapability Capability_ImageBasic reqs)
      | OpTypeForwardPointer \<Rightarrow>
          if isKernel ST then Inr (addCapability Capability_Addresses reqs)
          else Inr (addCapability Capability_PhysicalStorageBufferAddresses reqs)
      | OpSelect \<Rightarrow> addVariablePtrInstrReqs MRI MI reqs ST
      | OpPhi \<Rightarrow> addVariablePtrInstrReqs MRI MI reqs ST
      | OpFunctionCall \<Rightarrow> addVariablePtrInstrReqs MRI MI reqs ST
      | OpPtrAccessChain \<Rightarrow> addVariablePtrInstrReqs MRI MI reqs ST
      | OpLoad \<Rightarrow> addVariablePtrInstrReqs MRI MI reqs ST
      | OpConstantNull \<Rightarrow> addVariablePtrInstrReqs MRI MI reqs ST
      | _ \<Rightarrow> Inr reqs)"

section \<open>The resolution driver\<close>

text \<open>
  Modelled from the spec: \<open>llvm::MachineFunction\<close> is outside the sources at hand;
  the pass reads its blocks, each an ordered instruction list, and its register
  information.
\<close>

record MachineFunction =
  blocks :: "MachineInstr list list"
  getRegInfo :: MachineRegisterInfo

text \<open>
  The scan of \<open>runOnMachineFunction\<close>: every instruction of every block, in order.
\<close>

fun addBlockRequirements ::
  "MachineRegisterInfo \<Rightarrow> MachineInstr list \<Rightarrow> SPIRVRequirementHandler \<Rightarrow> SPIRVSubtarget \<Rightarrow> result" where
  "addBlockRequirements MRI [] reqs ST = Inr reqs"
| "addBlockRequirements MRI (MI # MIs) reqs ST =
     andThen (addInstrRequirements MRI MI reqs ST) (\<lambda>reqs1.
       addBlockRequirements MRI MIs reqs1 ST)"

fun addFunctionRequirements ::
  "MachineRegisterInfo \<Rightarrow> MachineInstr list list \<Rightarrow> SPIRVRequirementHandler \<Rightarrow> SPIRVSubtarget \<Rightarrow> result" where
  "addFunctionRequirements MRI [] reqs ST = Inr reqs"
| "addFunctionRequirements MRI (MBB # MBBs) reqs ST =
     andThen (addBlockRequirements MRI MBB reqs ST) (\<lambda>reqs1.
       addFunctionRequirements MRI MBBs reqs1 ST)"

text \<open>
  Modelled from the spec: the two ordered record kinds \<open>DeclareCapability(id)\<close> and
  \<open>DeclareExtension(name)\<close> of section 6 stand for the instructions built at the
  start of the function: one \<open>OpCapability\<close> per capability, then one
  \<open>OpExtension\<close> per extension, each with its one immediate.
\<close>

datatype Declaration = DeclareCapability Capability | DeclareExtension Extension

text \<open>
  Modelled from the spec: the Accumulator is created fresh per function, with both
  sets empty (\<open>SPIRVRequirementHandler reqHandler;\<close>).
\<close>

definition newSPIRVRequirementHandler :: SPIRVRequirementHandler where
  "newSPIRVRequirementHandler = \<lparr>enabledCaps = [], extensions = []\<rparr>"

definition runOnMachineFunction ::
  "MachineFunction \<Rightarrow> SPIRVSubtarget \<Rightarrow> (error \<times> SPIRVRequirementHandler) + Declaration list" where
  "runOnMachineFunction MF ST =
     (case addFunctionRequirements (getRegInfo MF) (blocks MF) newSPIRVRequirementHandler ST of
        Inl f \<Rightarrow> Inl f
      | Inr reqHandler \<Rightarrow>
          Inr (map DeclareCapability (getMinimalCapabilities reqHandler) @
               map DeclareExtension (getExtensions reqHandler)))"


section \<open>Example inputs\<close>

text \<open>
  Concrete profiles and a concrete triple on which the properties below are evaluated:
  a profile with every flag cleared and nothing available, a kernel-flavoured and a
  logically addressed one with a few available capabilities, and the Vulkan triple.
\<close>

definition exampleProfile :: SPIRVSubtarget where
  "exampleProfile =
     \<lparr>pointerSize = 64, usesLogicalAddressing = False, usesVulkanEnv = False,
      usesOpenCLEnv = True, targetSPIRVVersion = 0x10400, targetOpenCLVersion = 0x20200,
      targetVulkanVersion = 0, openCLFullProfile = True, openCLImageSupport = True,
      Has = (\<lambda>c. False), availableCaps = {}, availableExtensions = {},
      availableExtInstSets = {}\<rparr>"

definition kernelProfile :: SPIRVSubtarget where
  "kernelProfile =
     exampleProfile\<lparr>availableCaps := {Capability_Kernel, Capability_Addresses, Capability_Int64,
                                     Capability_ImageBasic},
                    availableExtensions := {SPV_KHR_no_integer_wrap_decoration}\<rparr>"

definition logicalProfile :: SPIRVSubtarget where
  "logicalProfile =
     exampleProfile\<lparr>usesLogicalAddressing := True, usesVulkanEnv := True,
                    usesOpenCLEnv := False,
                    availableCaps := {Capability_Matrix, Capability_Shader}\<rparr>"

definition vulkanTriple :: Triple where
  "vulkanTriple =
     \<lparr>getArch = spirvlogical, isSPIRVLogical = True, isVulkanEnvironment = True,
      isOpenCLEnvironment = False\<rparr>"


section \<open>Properties of the target environment profile\<close>

subsection \<open>The closure leaves the environment alone\<close>

definition sameEnvironment :: "SPIRVSubtarget \<Rightarrow> SPIRVSubtarget \<Rightarrow> bool" where
  "sameEnvironment ST ST' \<longleftrightarrow>
     ST' = ST\<lparr>Has := Has ST', availableCaps := availableCaps ST'\<rparr>"

lemma sameEnvironment_refl: "sameEnvironment ST ST"
  by (simp add: sameEnvironment_def)

lemma sameEnvironment_trans:
  "sameEnvironment A B \<Longrightarrow> sameEnvironment B C \<Longrightarrow> sameEnvironment A C"
  unfolding sameEnvironment_def
  by (cases A; cases B; cases C) simp

lemma sameEnvironment_update:
  "sameEnvironment ST (ST\<lparr>Has := H, availableCaps := A\<rparr>)"
  "sameEnvironment ST (ST\<lparr>Has := H\<rparr>)"
  "sameEnvironment ST (ST\<lparr>availableCaps := A\<rparr>)"
  by (simp_all add: sameEnvironment_def)

lemma enableFeatureCapability_sameEnvironment:
  "sameEnvironment ST (enableFeatureCapability Cap ST)"
  "sameEnvironment ST (enableFeatureCapabilities Cs ST)"
proof (induct Cap ST and Cs ST rule: enableFeatureCapability_enableFeatureCapabilities.induct)
  case (1 Cap ST)
  show ?case
  proof (cases "find (\<lambda>e. Cap = Val e) DEF_Capability")
    case None
    then show ?thesis by (simp add: enableFeatureCapability.simps sameEnvironment_refl)
  next
    case (Some e)
    show ?thesis
    proof (cases "\<not> Has ST Cap \<and> Cap \<notin> availableCaps ST")
      case True
      with Some 1 have "sameEnvironment
          (ST\<lparr>Has := (Has ST)(Cap := True), availableCaps := insert Cap (availableCaps ST)\<rparr>)
          (enableFeatureCapability Cap ST)"
        by (simp add: enableFeatureCapability.simps)
      then show ?thesis
        by (rule sameEnvironment_trans[OF sameEnvironment_update(1)])
    next
      case False
      with Some show ?thesis
        by (auto simp: enableFeatureCapability.simps sameEnvironment_def)
    qed
  qed
next
  case (2 ST)
  show ?case by (simp add: sameEnvironment_refl)
next
  case (3 Cap Rest ST)
  then show ?case by (auto intro: sameEnvironment_trans)
qed

lemma updateCapabilityFromFeature_sameEnvironment:
  "sameEnvironment ST (updateCapabilityFromFeature e ST)"
  unfolding updateCapabilityFromFeature_def
  by (auto intro: sameEnvironment_refl sameEnvironment_update
      sameEnvironment_trans[OF sameEnvironment_update(3) enableFeatureCapability_sameEnvironment(2)])

lemma fold_updateCapabilityFromFeature_sameEnvironment:
  "sameEnvironment ST (fold updateCapabilityFromFeature es ST)"
proof (induction es arbitrary: ST)
  case Nil
  show ?case by (simp add: sameEnvironment_refl)
next
  case (Cons e es)
  show ?case
    using sameEnvironment_trans[OF updateCapabilityFromFeature_sameEnvironment Cons.IH]
    by simp
qed

lemma updateCapabilitiesFromFeatures_sameEnvironment:
  "sameEnvironment ST (updateCapabilitiesFromFeatures ST)"
  unfolding updateCapabilitiesFromFeatures_def
  by (rule fold_updateCapabilityFromFeature_sameEnvironment)

lemma sameEnvironment_fields:
  assumes "sameEnvironment ST ST'"
  shows "usesLogicalAddressing ST' = usesLogicalAddressing ST"
    and "usesVulkanEnv ST' = usesVulkanEnv ST"
    and "usesOpenCLEnv ST' = usesOpenCLEnv ST"
    and "targetSPIRVVersion ST' = targetSPIRVVersion ST"
    and "availableExtensions ST' = availableExtensions ST"
  using assms unfolding sameEnvironment_def
  by (cases ST; cases ST'; simp)+

lemma newSPIRVSubtarget_environment:
  "usesLogicalAddressing (newSPIRVSubtarget TT Features) = isSPIRVLogical TT"
  "usesVulkanEnv (newSPIRVSubtarget TT Features) = isVulkanEnvironment TT"
  "usesOpenCLEnv (newSPIRVSubtarget TT Features) = isOpenCLEnvironment TT"
  unfolding newSPIRVSubtarget_def
  by (simp_all add: sameEnvironment_fields[OF updateCapabilitiesFromFeatures_sameEnvironment]
      initAvailableCapabilities_def initAvailableExtInstSets_def initAvailableExtensions_def
      setHas_def Let_def)

text \<open>
  C10. The flavour predicates are derived from the environment fields: \<open>isKernel\<close>
  holds exactly when the target uses the OpenCL environment or does not use logical
  addressing, \<open>isShader\<close> exactly when it uses the Vulkan environment or logical
  addressing. So at least one of them holds of every target, and both hold of a
  logically addressed OpenCL target. The constructed subtarget takes the three fields
  from the triple, and building the capability sets does not change them.
\<close>

theorem target_flavour_derived:
  "(isKernel ST \<longleftrightarrow> usesOpenCLEnv ST \<or> \<not> usesLogicalAddressing ST) \<and>
   (isShader ST \<longleftrightarrow> usesVulkanEnv ST \<or> usesLogicalAddressing ST) \<and>
   (isKernel ST \<or> isShader ST) \<and>
   (usesOpenCLEnv ST \<and> usesLogicalAddressing ST \<longrightarrow> isKernel ST \<and> isShader ST) \<and>
   (isKernel (newSPIRVSubtarget TT Features) \<longleftrightarrow>
      isOpenCLEnvironment TT \<or> \<not> isSPIRVLogical TT) \<and>
   (isShader (newSPIRVSubtarget TT Features) \<longleftrightarrow>
      isVulkanEnvironment TT \<or> isSPIRVLogical TT)"
proof -
  have kernel: "isKernel S \<longleftrightarrow> usesOpenCLEnv S \<or> \<not> usesLogicalAddressing S" for S
    by (simp add: isKernel_def)
  have shader: "isShader S \<longleftrightarrow> usesVulkanEnv S \<or> usesLogicalAddressing S" for S
    by (simp add: isShader_def)
  have one: "isKernel ST \<or> isShader ST"
    unfolding kernel shader by blast
  have both: "usesOpenCLEnv ST \<and> usesLogicalAddressing ST \<longrightarrow> isKernel ST \<and> isShader ST"
    unfolding kernel shader by blast
  have built:
    "isKernel (newSPIRVSubtarget TT Features) \<longleftrightarrow>
       isOpenCLEnvironment TT \<or> \<not> isSPIRVLogical TT"
    "isShader (newSPIRVSubtarget TT Features) \<longleftrightarrow>
       isVulkanEnvironment TT \<or> isSPIRVLogical TT"
    unfolding kernel shader by (simp_all add: newSPIRVSubtarget_environment)
  from kernel[of ST] shader[of ST] one both built show ?thesis by blast
qed

theorem target_flavour_derived_witness:
  "usesOpenCLEnv (newSPIRVSubtarget
      \<lparr>getArch = spirvlogical, isSPIRVLogical = True, isVulkanEnvironment = False,
       isOpenCLEnvironment = True\<rparr> []) \<and>
   usesLogicalAddressing (newSPIRVSubtarget
      \<lparr>getArch = spirvlogical, isSPIRVLogical = True, isVulkanEnvironment = False,
       isOpenCLEnvironment = True\<rparr> []) \<and>
   isKernel (newSPIRVSubtarget
      \<lparr>getArch = spirvlogical, isSPIRVLogical = True, isVulkanEnvironment = False,
       isOpenCLEnvironment = True\<rparr> []) \<and>
   isShader (newSPIRVSubtarget
      \<lparr>getArch = spirvlogical, isSPIRVLogical = True, isVulkanEnvironment = False,
       isOpenCLEnvironment = True\<rparr> [])"
proof -
  let ?TT = "\<lparr>getArch = spirvlogical, isSPIRVLogical = True, isVulkanEnvironment = False,
              isOpenCLEnvironment = True\<rparr>"
  have env: "usesOpenCLEnv (newSPIRVSubtarget ?TT []) \<and>
             usesLogicalAddressing (newSPIRVSubtarget ?TT [])"
    by (simp add: newSPIRVSubtarget_environment)
  with target_flavour_derived [of "newSPIRVSubtarget ?TT []" ?TT "[]"]
  show ?thesis by blast
qed



subsection \<open>What the closure adds\<close>

definition flagged :: "SPIRVSubtarget \<Rightarrow> Capability set" where
  "flagged ST = {c. Has ST c}"

text \<open>
  \<open>enables roots ST ST'\<close> relates the state before a run of the closure on \<open>roots\<close> to
  the state after it: flags and available capabilities only grow, every capability
  flagged by the run is new in \<open>availableCaps\<close>, has a line in the table and is
  reachable from a root, every
  capability new in \<open>availableCaps\<close> was not flagged before and has its prerequisites
  flagged, and the roots are flagged.
\<close>

definition enables :: "Capability set \<Rightarrow> SPIRVSubtarget \<Rightarrow> SPIRVSubtarget \<Rightarrow> bool" where
  "enables roots ST ST' \<longleftrightarrow>
     availableCaps ST' \<subseteq> flagged ST' \<and>
     flagged ST \<subseteq> flagged ST' \<and>
     availableCaps ST \<subseteq> availableCaps ST' \<and>
     (\<forall>c \<in> flagged ST' - flagged ST.
        c \<in> availableCaps ST' \<and> c \<notin> availableCaps ST \<and> c \<in> capabilityValues \<and>
        c \<in> prerequisite\<^sup>* `` roots) \<and>
     (\<forall>c \<in> availableCaps ST' - availableCaps ST.
        c \<notin> flagged ST \<and>
        (\<forall>d \<in> set (prerequisites c). d \<in> capabilityValues \<longrightarrow> d \<in> flagged ST')) \<and>
     (\<forall>c \<in> roots. c \<in> capabilityValues \<longrightarrow> c \<in> flagged ST')"

lemma enablesD:
  assumes "enables roots ST ST'"
  shows "availableCaps ST' \<subseteq> flagged ST'"
    and "flagged ST \<subseteq> flagged ST'"
    and "availableCaps ST \<subseteq> availableCaps ST'"
    and "\<And>c. c \<in> flagged ST' \<Longrightarrow> c \<notin> flagged ST \<Longrightarrow>
           c \<in> availableCaps ST' \<and> c \<notin> availableCaps ST \<and> c \<in> capabilityValues \<and>
           c \<in> prerequisite\<^sup>* `` roots"
    and "\<And>c. c \<in> availableCaps ST' \<Longrightarrow> c \<notin> availableCaps ST \<Longrightarrow> c \<notin> flagged ST"
    and "\<And>c d. c \<in> availableCaps ST' \<Longrightarrow> c \<notin> availableCaps ST \<Longrightarrow>
           d \<in> set (prerequisites c) \<Longrightarrow> d \<in> capabilityValues \<Longrightarrow> d \<in> flagged ST'"
    and "\<And>c. c \<in> roots \<Longrightarrow> c \<in> capabilityValues \<Longrightarrow> c \<in> flagged ST'"
  using assms unfolding enables_def by blast+

lemma enablesI:
  assumes "availableCaps ST' \<subseteq> flagged ST'"
    and "flagged ST \<subseteq> flagged ST'"
    and "availableCaps ST \<subseteq> availableCaps ST'"
    and "\<And>c. c \<in> flagged ST' \<Longrightarrow> c \<notin> flagged ST \<Longrightarrow>
           c \<in> availableCaps ST' \<and> c \<notin> availableCaps ST \<and> c \<in> capabilityValues \<and>
           c \<in> prerequisite\<^sup>* `` roots"
    and "\<And>c. c \<in> availableCaps ST' \<Longrightarrow> c \<notin> availableCaps ST \<Longrightarrow> c \<notin> flagged ST"
    and "\<And>c d. c \<in> availableCaps ST' \<Longrightarrow> c \<notin> availableCaps ST \<Longrightarrow>
           d \<in> set (prerequisites c) \<Longrightarrow> d \<in> capabilityValues \<Longrightarrow> d \<in> flagged ST'"
    and "\<And>c. c \<in> roots \<Longrightarrow> c \<in> capabilityValues \<Longrightarrow> c \<in> flagged ST'"
  shows "enables roots ST ST'"
  unfolding enables_def using assms by blast

lemma enables_refl:
  "availableCaps ST \<subseteq> flagged ST \<Longrightarrow> \<forall>c \<in> roots. c \<in> capabilityValues \<longrightarrow> c \<in> flagged ST \<Longrightarrow>
   enables roots ST ST"
  by (simp add: enables_def)

lemma enables_trans:
  assumes AB: "enables r1 A B" and BC: "enables r2 B C"
  shows "enables (r1 \<union> r2) A C"
proof (rule enablesI)
  note ab = enablesD[OF AB] and bc = enablesD[OF BC]
  show "availableCaps C \<subseteq> flagged C" by (rule bc(1))
  show "flagged A \<subseteq> flagged C" using ab(2) bc(2) by blast
  show "availableCaps A \<subseteq> availableCaps C" using ab(3) bc(3) by blast
  show "c \<in> availableCaps C \<and> c \<notin> availableCaps A \<and> c \<in> capabilityValues \<and>
        c \<in> prerequisite\<^sup>* `` (r1 \<union> r2)"
    if c: "c \<in> flagged C" "c \<notin> flagged A" for c
  proof (cases "c \<in> flagged B")
    case True
    from ab(4)[OF True c(2)] bc(3) show ?thesis by blast
  next
    case False
    from bc(4)[OF c(1) False] ab(3) show ?thesis by blast
  qed
  show "c \<notin> flagged A" if c: "c \<in> availableCaps C" "c \<notin> availableCaps A" for c
  proof (cases "c \<in> availableCaps B")
    case True
    from ab(5)[OF True c(2)] show ?thesis .
  next
    case False
    from bc(5)[OF c(1) False] ab(2) show ?thesis by blast
  qed
  show "d \<in> flagged C"
    if c: "c \<in> availableCaps C" "c \<notin> availableCaps A"
      and d: "d \<in> set (prerequisites c)" "d \<in> capabilityValues" for c d
  proof (cases "c \<in> availableCaps B")
    case True
    from ab(6)[OF True c(2) d] bc(2) show ?thesis by blast
  next
    case False
    from bc(6)[OF c(1) False d] show ?thesis .
  qed
  show "c \<in> flagged C" if c: "c \<in> r1 \<union> r2" "c \<in> capabilityValues" for c
    using c ab(7)[of c] bc(7)[of c] bc(2) by blast
qed

lemma find_capability_Some:
  assumes "find (\<lambda>e. Cap = Val e) DEF_Capability = Some e"
  shows "Cap \<in> capabilityValues" and "prerequisites Cap = Caps e"
proof -
  from assms show "Cap \<in> capabilityValues"
    by (auto simp: capabilityValues_def find_Some_iff)
  from assms show "prerequisites Cap = Caps e"
    by (simp add: prerequisites_def)
qed

lemma find_capability_None:
  assumes "find (\<lambda>e. Cap = Val e) DEF_Capability = None"
  shows "Cap \<notin> capabilityValues"
  using assms by (auto simp: capabilityValues_def find_None_iff)

lemma enables_expand:
  assumes pre: "prerequisites Cap = Cs" "Cap \<in> capabilityValues"
    and new: "Cap \<notin> flagged ST" "Cap \<notin> availableCaps ST"
    and run: "enables (set Cs)
                (ST\<lparr>Has := (Has ST)(Cap := True),
                    availableCaps := insert Cap (availableCaps ST)\<rparr>) R"
  shows "enables {Cap} ST R"
proof -
  let ?ST1 = "ST\<lparr>Has := (Has ST)(Cap := True), availableCaps := insert Cap (availableCaps ST)\<rparr>"
  have f1: "flagged ?ST1 = insert Cap (flagged ST)"
    and a1: "availableCaps ?ST1 = insert Cap (availableCaps ST)"
    by (auto simp: flagged_def)
  have reach: "prerequisite\<^sup>* `` set Cs \<subseteq> prerequisite\<^sup>* `` {Cap}"
  proof
    fix x assume "x \<in> prerequisite\<^sup>* `` set Cs"
    then obtain d where d: "d \<in> set Cs" "(d, x) \<in> prerequisite\<^sup>*" by auto
    from d(1) pre(1) have "(Cap, d) \<in> prerequisite" by (simp add: prerequisite_def)
    with d(2) show "x \<in> prerequisite\<^sup>* `` {Cap}"
      by (auto intro: converse_rtrancl_into_rtrancl)
  qed
  note r = enablesD[OF run, unfolded f1 a1]
  show ?thesis
  proof (rule enablesI)
    show "availableCaps R \<subseteq> flagged R" by (rule r(1))
    show "flagged ST \<subseteq> flagged R" using r(2) by blast
    show "availableCaps ST \<subseteq> availableCaps R" using r(3) by blast
    show "c \<in> availableCaps R \<and> c \<notin> availableCaps ST \<and> c \<in> capabilityValues \<and>
          c \<in> prerequisite\<^sup>* `` {Cap}"
      if c: "c \<in> flagged R" "c \<notin> flagged ST" for c
    proof (cases "c = Cap")
      case True
      with r(3) new(2) pre(2) show ?thesis by auto
    next
      case False
      with c have "c \<notin> insert Cap (flagged ST)" by simp
      from r(4)[OF c(1) this] reach show ?thesis by blast
    qed
    show "c \<notin> flagged ST" if c: "c \<in> availableCaps R" "c \<notin> availableCaps ST" for c
    proof (cases "c = Cap")
      case True
      with new(1) show ?thesis by simp
    next
      case False
      with c have "c \<notin> insert Cap (availableCaps ST)" by simp
      from r(5)[OF c(1) this] show ?thesis by simp
    qed
    show "d \<in> flagged R"
      if c: "c \<in> availableCaps R" "c \<notin> availableCaps ST"
        and d: "d \<in> set (prerequisites c)" "d \<in> capabilityValues" for c d
    proof (cases "c = Cap")
      case True
      with d pre(1) r(7) show ?thesis by simp
    next
      case False
      with c have "c \<notin> insert Cap (availableCaps ST)" by simp
      from r(6)[OF c(1) this d] show ?thesis .
    qed
    show "c \<in> flagged R" if "c \<in> {Cap}" "c \<in> capabilityValues" for c
      using that r(2) by blast
  qed
qed

lemma enableFeatureCapability_enables:
  "availableCaps ST \<subseteq> flagged ST \<Longrightarrow> enables {Cap} ST (enableFeatureCapability Cap ST)"
  "availableCaps ST \<subseteq> flagged ST \<Longrightarrow> enables (set Cs) ST (enableFeatureCapabilities Cs ST)"
proof (induct Cap ST and Cs ST rule: enableFeatureCapability_enableFeatureCapabilities.induct)
  case (1 Cap ST)
  show ?case
  proof (cases "find (\<lambda>e. Cap = Val e) DEF_Capability")
    case None
    then have "enableFeatureCapability Cap ST = ST"
      by (simp add: enableFeatureCapability.simps)
    with find_capability_None[OF None] "1.prems" show ?thesis
      by (simp add: enables_refl)
  next
    case (Some e)
    show ?thesis
    proof (cases "Has ST Cap")
      case True
      with Some have "enableFeatureCapability Cap ST = ST"
        by (simp add: enableFeatureCapability.simps)
      with True "1.prems" show ?thesis
        by (simp add: enables_refl flagged_def)
    next
      case False
      with "1.prems" have notin: "Cap \<notin> availableCaps ST"
        by (auto simp: flagged_def)
      let ?ST1 = "ST\<lparr>Has := (Has ST)(Cap := True),
                      availableCaps := insert Cap (availableCaps ST)\<rparr>"
      have eq: "enableFeatureCapability Cap ST = enableFeatureCapabilities (Caps e) ?ST1"
        using Some False notin by (simp add: enableFeatureCapability.simps)
      have "availableCaps ?ST1 \<subseteq> flagged ?ST1"
        using "1.prems" by (auto simp: flagged_def)
      then have "enables (set (Caps e)) ?ST1 (enableFeatureCapabilities (Caps e) ?ST1)"
        using "1.hyps"[OF Some _ notin] False by simp
      then show ?thesis
        unfolding eq using False notin find_capability_Some[OF Some]
        by (intro enables_expand[where Cs = "Caps e"]) (simp_all add: flagged_def)
    qed
  qed
next
  case (2 ST)
  then show ?case by (simp add: enables_refl)
next
  case (3 Cap Rest ST)
  from "3.hyps"(1)[OF "3.prems"]
  have one: "enables {Cap} ST (enableFeatureCapability Cap ST)" .
  then have "availableCaps (enableFeatureCapability Cap ST) \<subseteq> flagged (enableFeatureCapability Cap ST)"
    by (rule enablesD(1))
  from "3.hyps"(2)[OF this]
  have "enables (set Rest) (enableFeatureCapability Cap ST)
          (enableFeatureCapabilities (Cap # Rest) ST)"
    by simp
  from enables_trans[OF one this] show ?case by simp
qed


lemma prerequisites_in_table: "\<forall>e \<in> set DEF_Capability. set (Caps e) \<subseteq> Val ` set DEF_Capability"
  by (simp add: DEF_Capability_def)

lemma prerequisite_capabilityValues:
  assumes "(c, d) \<in> prerequisite"
  shows "c \<in> capabilityValues" and "d \<in> capabilityValues"
proof -
  from assms have d: "d \<in> set (prerequisites c)" by (simp add: prerequisite_def)
  then obtain e where e: "find (\<lambda>e. c = Val e) DEF_Capability = Some e" "d \<in> set (Caps e)"
    by (cases "find (\<lambda>e. c = Val e) DEF_Capability") (auto simp: prerequisites_def)
  from e(1) show "c \<in> capabilityValues" by (rule find_capability_Some)
  from e(1) have "e \<in> set DEF_Capability" by (auto simp: find_Some_iff)
  with e(2) prerequisites_in_table show "d \<in> capabilityValues"
    unfolding capabilityValues_def by blast
qed

text \<open>
  A set of available capabilities is closed when it holds the direct prerequisites of
  each of its members, and then all the transitive ones.
\<close>

definition closedCaps :: "Capability set \<Rightarrow> bool" where
  "closedCaps A \<longleftrightarrow> (\<forall>c \<in> A. set (prerequisites c) \<subseteq> A)"

lemma closedCaps_rtrancl:
  assumes "closedCaps A" and "(c, d) \<in> prerequisite\<^sup>*" and "c \<in> A"
  shows "d \<in> A"
  using assms(2,3)
proof (induction rule: rtrancl_induct)
  case base
  then show ?case .
next
  case (step y z)
  then have "y \<in> A" by simp
  with assms(1) step(2) show ?case
    by (auto simp: closedCaps_def prerequisite_def)
qed

text \<open>From a state without flags and without available capabilities.\<close>

lemma enables_from_empty:
  assumes empty: "flagged ST = {}" "availableCaps ST = {}"
    and run: "enables roots ST R"
  shows "availableCaps R = prerequisite\<^sup>* `` (roots \<inter> capabilityValues)"
proof -
  note e = enablesD[OF run, unfolded empty]
  have r1: "availableCaps R \<subseteq> flagged R" by (rule e(1))
  have r2: "c \<in> availableCaps R \<and> c \<in> capabilityValues \<and> c \<in> prerequisite\<^sup>* `` roots"
    if "c \<in> flagged R" for c
    using e(4)[OF that] by simp
  have r3: "d \<in> flagged R"
    if "c \<in> availableCaps R" "d \<in> set (prerequisites c)" "d \<in> capabilityValues" for c d
    using e(6)[OF that(1) _ that(2,3)] by simp
  have r4: "c \<in> flagged R" if "c \<in> roots" "c \<in> capabilityValues" for c
    using e(7)[OF that] .
  have closed: "closedCaps (availableCaps R)"
    unfolding closedCaps_def
  proof (intro ballI subsetI)
    fix c d assume "c \<in> availableCaps R" "d \<in> set (prerequisites c)"
    moreover from this have "d \<in> capabilityValues"
      using prerequisite_capabilityValues(2)[of c d] by (simp add: prerequisite_def)
    ultimately show "d \<in> availableCaps R" using r2 r3 by blast
  qed
  show ?thesis
  proof (intro equalityI subsetI)
    fix x assume "x \<in> availableCaps R"
    with r1 have "x \<in> flagged R" by blast
    from r2[OF this] obtain c where c: "c \<in> roots" "(c, x) \<in> prerequisite\<^sup>*"
      and x: "x \<in> capabilityValues" by blast
    from c(2) have "c \<in> capabilityValues"
    proof (cases rule: converse_rtranclE)
      case base
      with x show ?thesis by simp
    next
      case (step y)
      then show ?thesis by (auto dest: prerequisite_capabilityValues(1))
    qed
    with c show "x \<in> prerequisite\<^sup>* `` (roots \<inter> capabilityValues)" by blast
  next
    fix x assume "x \<in> prerequisite\<^sup>* `` (roots \<inter> capabilityValues)"
    then obtain c where c: "c \<in> roots" "c \<in> capabilityValues" "(c, x) \<in> prerequisite\<^sup>*"
      by blast
    from r2[OF r4[OF c(1,2)]] have "c \<in> availableCaps R" by blast
    with closed c(3) show "x \<in> availableCaps R" by (rule closedCaps_rtrancl)
  qed
qed


lemma enableFeatureCapability_mono:
  "flagged ST \<subseteq> flagged (enableFeatureCapability Cap ST) \<and>
   availableCaps ST \<subseteq> availableCaps (enableFeatureCapability Cap ST)"
  "flagged ST \<subseteq> flagged (enableFeatureCapabilities Cs ST) \<and>
   availableCaps ST \<subseteq> availableCaps (enableFeatureCapabilities Cs ST)"
proof (induct Cap ST and Cs ST rule: enableFeatureCapability_enableFeatureCapabilities.induct)
  case (1 Cap ST)
  show ?case
  proof (cases "find (\<lambda>e. Cap = Val e) DEF_Capability")
    case None
    then show ?thesis by (simp add: enableFeatureCapability.simps)
  next
    case (Some e)
    show ?thesis
    proof (cases "\<not> Has ST Cap \<and> Cap \<notin> availableCaps ST")
      case True
      with Some "1.hyps"[OF Some] show ?thesis
        by (auto simp: enableFeatureCapability.simps flagged_def)
    next
      case False
      with Some show ?thesis
        by (auto simp: enableFeatureCapability.simps flagged_def)
    qed
  qed
next
  case (2 ST)
  show ?case by simp
next
  case (3 Cap Rest ST)
  then show ?case by auto
qed

text \<open>
  The capabilities for which a run of \<open>enableFeatureCapability\<close> takes the inner
  branch (the insertion into \<open>availableCaps\<close> succeeds and
  \<open>enableFeatureCapabilities(Caps)\<close> is called), in the order in which it does: the
  visits of the closure. The recursion is that of the closure itself.
\<close>

function expansions :: "Capability \<Rightarrow> SPIRVSubtarget \<Rightarrow> Capability list"
  and expansionsOfAll :: "Capability list \<Rightarrow> SPIRVSubtarget \<Rightarrow> Capability list"
where
  "expansions Cap ST =
     (case find (\<lambda>e. Cap = Val e) DEF_Capability of
        None \<Rightarrow> []
      | Some e \<Rightarrow>
          if \<not> Has ST Cap then
            if Cap \<notin> availableCaps ST then
              Cap # expansionsOfAll (Caps e)
                      (ST\<lparr>Has := (Has ST)(Cap := True),
                          availableCaps := insert Cap (availableCaps ST)\<rparr>)
            else []
          else [])"
| "expansionsOfAll [] ST = []"
| "expansionsOfAll (Cap # Rest) ST =
     expansions Cap ST @ expansionsOfAll Rest (enableFeatureCapability Cap ST)"
  by pat_completeness auto

termination expansions
proof (relation "inv_image (less_than <*lex*> less_than)
    (\<lambda>x. case x of Inl (Cap, ST) \<Rightarrow> (unflagged ST, 0)
                 | Inr (Cs, ST) \<Rightarrow> (unflagged ST, Suc (length Cs)))", goal_cases)
  case 1
  show ?case by (intro wf_inv_image wf_lex_prod wf_less_than)
next
  case (2 Cap ST e)
  then show ?case by (simp add: unflagged_less)
next
  case (3 Cap Rest ST)
  then show ?case by simp
next
  case (4 Cap Rest ST)
  have "unflagged (enableFeatureCapability Cap ST) \<le> unflagged ST"
    using enableFeatureCapability_mono(1)[of ST Cap]
    by (intro unflagged_mono) (auto simp: flagged_def)
  then show ?case by auto
qed

declare expansions.simps [simp del]

lemma expansions_new:
  "set (expansions Cap ST) = availableCaps (enableFeatureCapability Cap ST) - availableCaps ST \<and>
   distinct (expansions Cap ST)"
  "set (expansionsOfAll Cs ST) = availableCaps (enableFeatureCapabilities Cs ST) - availableCaps ST \<and>
   distinct (expansionsOfAll Cs ST)"
proof (induct Cap ST and Cs ST rule: expansions_expansionsOfAll.induct)
  case (1 Cap ST)
  show ?case
  proof (cases "find (\<lambda>e. Cap = Val e) DEF_Capability")
    case None
    then show ?thesis by (simp add: enableFeatureCapability.simps expansions.simps)
  next
    case (Some e)
    show ?thesis
    proof (cases "\<not> Has ST Cap \<and> Cap \<notin> availableCaps ST")
      case True
      let ?ST1 = "ST\<lparr>Has := (Has ST)(Cap := True),
                      availableCaps := insert Cap (availableCaps ST)\<rparr>"
      from True Some have eq:
        "enableFeatureCapability Cap ST = enableFeatureCapabilities (Caps e) ?ST1"
        "expansions Cap ST = Cap # expansionsOfAll (Caps e) ?ST1"
        by (simp_all add: enableFeatureCapability.simps expansions.simps)
      from "1.hyps"[OF Some] True
      have ih: "set (expansionsOfAll (Caps e) ?ST1) =
                  availableCaps (enableFeatureCapabilities (Caps e) ?ST1) -
                  insert Cap (availableCaps ST)"
        "distinct (expansionsOfAll (Caps e) ?ST1)"
        by simp_all
      have "insert Cap (availableCaps ST) \<subseteq> availableCaps (enableFeatureCapabilities (Caps e) ?ST1)"
        using enableFeatureCapability_mono(2)[of ?ST1 "Caps e"] by simp
      with ih True show ?thesis unfolding eq by auto
    next
      case False
      with Some show ?thesis
        by (auto simp: enableFeatureCapability.simps expansions.simps)
    qed
  qed
next
  case (2 ST)
  show ?case by simp
next
  case (3 Cap Rest ST)
  have m1: "availableCaps ST \<subseteq> availableCaps (enableFeatureCapability Cap ST)"
    using enableFeatureCapability_mono(1)[of ST Cap] by simp
  have m2: "availableCaps (enableFeatureCapability Cap ST) \<subseteq>
            availableCaps (enableFeatureCapabilities Rest (enableFeatureCapability Cap ST))"
    using enableFeatureCapability_mono(2)[of "enableFeatureCapability Cap ST" Rest] by simp
  from 3 m1 m2 show ?case by auto
qed

lemma rtrancl_Image_singleton: "r\<^sup>* `` {c} = {c} \<union> {d. (c, d) \<in> r\<^sup>+}"
  by (auto simp: rtrancl_eq_or_trancl)

lemma enableFeatureCapability_already:
  "Cap \<in> availableCaps ST \<Longrightarrow>
   availableCaps (enableFeatureCapability Cap ST) = availableCaps ST"
  by (simp add: enableFeatureCapability.simps split: option.splits)

text \<open>
  C1. Started on a profile with no flag set and no available capability, the closure
  run on a capability \<open>Cap\<close> of the table leaves in \<open>availableCaps\<close> exactly \<open>Cap\<close>
  and its transitive prerequisites. The order in which a list of capabilities is
  enabled does not matter for the set. The run takes the inner branch at most once
  per capability, and exactly for the capabilities of the result. Enabling a
  capability that is already in \<open>availableCaps\<close>, of any profile, leaves the set as
  it is, and enabling one whose flag is set leaves the whole profile as it is.
\<close>

theorem enableFeatureCapability_closure:
  assumes "\<forall>c. \<not> Has ST c" and "availableCaps ST = {}"
  shows "(Cap \<in> capabilityValues \<longrightarrow>
            availableCaps (enableFeatureCapability Cap ST) =
              {Cap} \<union> {d. (Cap, d) \<in> prerequisite\<^sup>+}) \<and>
         (set Cs = set Cs' \<longrightarrow>
            availableCaps (enableFeatureCapabilities Cs ST) =
              availableCaps (enableFeatureCapabilities Cs' ST)) \<and>
         distinct (expansions Cap ST) \<and>
         set (expansions Cap ST) = availableCaps (enableFeatureCapability Cap ST) \<and>
         (\<forall>ST'. Cap \<in> availableCaps ST' \<longrightarrow>
            availableCaps (enableFeatureCapability Cap ST') = availableCaps ST') \<and>
         (\<forall>ST'. Has ST' Cap \<longrightarrow> enableFeatureCapability Cap ST' = ST')"
proof -
  have flag: "enableFeatureCapability Cap ST' = ST'" if "Has ST' Cap" for ST'
    using that by (simp add: enableFeatureCapability.simps split: option.splits)
  from assms have empty: "flagged ST = {}" "availableCaps ST = {}"
    by (simp_all add: flagged_def)
  then have inv: "availableCaps ST \<subseteq> flagged ST" by simp
  have one: "availableCaps (enableFeatureCapability Cap ST) =
               {Cap} \<union> {d. (Cap, d) \<in> prerequisite\<^sup>+}" if "Cap \<in> capabilityValues"
    using enables_from_empty[OF empty enableFeatureCapability_enables(1)[OF inv], of Cap] that
    by (simp add: rtrancl_Image_singleton)
  have many: "availableCaps (enableFeatureCapabilities Xs ST) =
                prerequisite\<^sup>* `` (set Xs \<inter> capabilityValues)" for Xs
    by (rule enables_from_empty[OF empty enableFeatureCapability_enables(2)[OF inv]])
  show ?thesis
    using one many[of Cs] many[of Cs'] expansions_new(1)[of Cap ST] empty(2)
      enableFeatureCapability_already flag
    by auto
qed

theorem enableFeatureCapability_closure_witness:
  "(\<forall>c. \<not> Has exampleProfile c) \<and> availableCaps exampleProfile = {} \<and>
   Capability_Geometry \<in> capabilityValues \<and>
   {Capability_Geometry} \<union> {d. (Capability_Geometry, d) \<in> prerequisite\<^sup>+} =
     {Capability_Geometry, Capability_Shader, Capability_Matrix} \<and>
   expansions Capability_Geometry exampleProfile =
     [Capability_Geometry, Capability_Shader, Capability_Matrix]"
proof -
  have h: "\<forall>c. \<not> Has exampleProfile c" "availableCaps exampleProfile = {}"
    by (simp_all add: exampleProfile_def)
  have k: "Capability_Geometry \<in> capabilityValues"
    by (simp add: capabilityValues_def DEF_Capability_def)
  have run: "availableCaps (enableFeatureCapability Capability_Geometry exampleProfile) =
               {Capability_Geometry, Capability_Shader, Capability_Matrix}"
    by (auto simp: enableFeatureCapability.simps exampleProfile_def DEF_Capability_def)
  have visits: "expansions Capability_Geometry exampleProfile =
                  [Capability_Geometry, Capability_Shader, Capability_Matrix]"
    by (simp add: expansions.simps enableFeatureCapability.simps exampleProfile_def
        DEF_Capability_def)
  from enableFeatureCapability_closure[OF h, of Capability_Geometry] k run visits h
  show ?thesis by simp
qed



subsection \<open>The feature-flag pass\<close>

lemma capability_values_distinct: "distinct (map Val DEF_Capability)"
  by (simp add: DEF_Capability_def)

lemma find_distinct_key:
  "distinct (map f xs) \<Longrightarrow> x \<in> set xs \<Longrightarrow> find (\<lambda>y. f x = f y) xs = Some x"
  by (induction xs) (auto simp: image_iff)

lemma prerequisites_entry:
  "e \<in> set DEF_Capability \<Longrightarrow> prerequisites (Val e) = Caps e"
  using find_distinct_key[OF capability_values_distinct, of e]
  by (simp add: prerequisites_def)

text \<open>
  The state of the pass after the lines \<open>seen\<close>: an available capability is flagged
  and has its prerequisites flagged, and a flagged capability of a line already seen
  is available.
\<close>

definition updated :: "EnumEntry set \<Rightarrow> SPIRVSubtarget \<Rightarrow> bool" where
  "updated seen ST \<longleftrightarrow>
     availableCaps ST \<subseteq> flagged ST \<and>
     (\<forall>c \<in> availableCaps ST. \<forall>d \<in> set (prerequisites c).
        d \<in> capabilityValues \<longrightarrow> d \<in> flagged ST) \<and>
     (\<forall>e \<in> seen. Val e \<in> flagged ST \<longrightarrow> Val e \<in> availableCaps ST)"

lemma updatedD:
  assumes "updated seen ST"
  shows "availableCaps ST \<subseteq> flagged ST"
    and "\<And>c d. c \<in> availableCaps ST \<Longrightarrow> d \<in> set (prerequisites c) \<Longrightarrow>
           d \<in> capabilityValues \<Longrightarrow> d \<in> flagged ST"
    and "\<And>e. e \<in> seen \<Longrightarrow> Val e \<in> flagged ST \<Longrightarrow> Val e \<in> availableCaps ST"
  using assms unfolding updated_def by blast+

lemma updatedI:
  assumes "availableCaps ST \<subseteq> flagged ST"
    and "\<And>c d. c \<in> availableCaps ST \<Longrightarrow> d \<in> set (prerequisites c) \<Longrightarrow>
           d \<in> capabilityValues \<Longrightarrow> d \<in> flagged ST"
    and "\<And>e. e \<in> seen \<Longrightarrow> Val e \<in> flagged ST \<Longrightarrow> Val e \<in> availableCaps ST"
  shows "updated seen ST"
  unfolding updated_def using assms by blast

lemma updateCapabilityFromFeature_updated:
  assumes inv: "updated seen ST" and e: "e \<in> set DEF_Capability"
  shows "updated (insert e seen) (updateCapabilityFromFeature e ST)"
proof -
  note u = updatedD[OF inv]
  consider (expand) "Has ST (Val e)" "Val e \<notin> availableCaps ST"
    | (present) "Has ST (Val e)" "Val e \<in> availableCaps ST"
    | (absent) "\<not> Has ST (Val e)"
    by blast
  then show ?thesis
  proof cases
    case expand
    let ?ST1 = "ST\<lparr>availableCaps := insert (Val e) (availableCaps ST)\<rparr>"
    let ?R = "enableFeatureCapabilities (Caps e) ?ST1"
    have eq: "updateCapabilityFromFeature e ST = ?R"
      using expand by (simp add: updateCapabilityFromFeature_def)
    have f1: "flagged ?ST1 = flagged ST" by (simp add: flagged_def)
    have a1: "availableCaps ?ST1 = insert (Val e) (availableCaps ST)" by simp
    have "availableCaps ?ST1 \<subseteq> flagged ?ST1"
      using u(1) expand(1) by (auto simp: flagged_def)
    from enableFeatureCapability_enables(2)[OF this, of "Caps e"]
    have run: "enables (set (Caps e)) ?ST1 ?R" .
    note r = enablesD[OF run, unfolded f1 a1]
    show ?thesis
      unfolding eq
    proof (rule updatedI)
      show "availableCaps ?R \<subseteq> flagged ?R" by (rule r(1))
      show "d \<in> flagged ?R"
        if c: "c \<in> availableCaps ?R" and d: "d \<in> set (prerequisites c)" "d \<in> capabilityValues"
        for c d
      proof (cases "c \<in> insert (Val e) (availableCaps ST)")
        case False
        from r(6)[OF c False d] show ?thesis .
      next
        case True
        show ?thesis
        proof (cases "c = Val e")
          case True
          with d prerequisites_entry[OF e] have "d \<in> set (Caps e)" by simp
          from r(7)[OF this d(2)] show ?thesis .
        next
          case False
          with True have "c \<in> availableCaps ST" by simp
          from u(2)[OF this d] r(2) show ?thesis by blast
        qed
      qed
      show "Val x \<in> availableCaps ?R"
        if x: "x \<in> insert e seen" "Val x \<in> flagged ?R" for x
      proof (cases "Val x \<in> flagged ST")
        case False
        from r(4)[OF x(2) False] show ?thesis by simp
      next
        case True
        show ?thesis
        proof (cases "x = e")
          case True
          with r(3) show ?thesis by blast
        next
          case False
          with x(1) have "x \<in> seen" by simp
          from u(3)[OF this True] r(3) show ?thesis by blast
        qed
      qed
    qed
  next
    case present
    then have eq: "updateCapabilityFromFeature e ST = ST"
      by (simp add: updateCapabilityFromFeature_def)
    show ?thesis
      unfolding eq using u present(2) by (intro updatedI) auto
  next
    case absent
    with u(1) have notin: "Val e \<notin> availableCaps ST" by (auto simp: flagged_def)
    then have eq: "updateCapabilityFromFeature e ST = ST"
      using absent by (simp add: updateCapabilityFromFeature_def)
    show ?thesis
      unfolding eq using u absent by (intro updatedI) (auto simp: flagged_def)
  qed
qed

lemma fold_updateCapabilityFromFeature_updated:
  "updated seen ST \<Longrightarrow> set es \<subseteq> set DEF_Capability \<Longrightarrow>
   updated (seen \<union> set es) (fold updateCapabilityFromFeature es ST)"
proof (induction es arbitrary: seen ST)
  case Nil
  then show ?case by simp
next
  case (Cons e es)
  from Cons.prems have "updated (insert e seen) (updateCapabilityFromFeature e ST)"
    by (intro updateCapabilityFromFeature_updated) auto
  from Cons.IH[OF this] Cons.prems(2) show ?case by simp
qed

lemma updated_closedCaps:
  assumes "updated (set DEF_Capability) ST"
  shows "closedCaps (availableCaps ST)"
  unfolding closedCaps_def
proof (intro ballI subsetI)
  note u = updatedD[OF assms]
  fix c d assume c: "c \<in> availableCaps ST" and d: "d \<in> set (prerequisites c)"
  then have k: "d \<in> capabilityValues"
    using prerequisite_capabilityValues(2)[of c d] by (simp add: prerequisite_def)
  then obtain e where "e \<in> set DEF_Capability" "d = Val e"
    by (auto simp: capabilityValues_def)
  with u(2)[OF c d k] u(3) show "d \<in> availableCaps ST" by blast
qed

lemma updateCapabilitiesFromFeatures_closed:
  assumes "availableCaps ST = {}"
  shows "closedCaps (availableCaps (updateCapabilitiesFromFeatures ST))"
proof -
  from assms have "updated {} ST" by (simp add: updated_def)
  from fold_updateCapabilityFromFeature_updated[OF this, of DEF_Capability]
  show ?thesis
    unfolding updateCapabilitiesFromFeatures_def by (simp add: updated_closedCaps)
qed

lemma newSPIRVSubtarget_closed:
  "closedCaps (availableCaps (newSPIRVSubtarget TT Features))"
  unfolding newSPIRVSubtarget_def
  by (rule updateCapabilitiesFromFeatures_closed)
     (simp add: initAvailableCapabilities_def initAvailableExtInstSets_def
        initAvailableExtensions_def setHas_def Let_def)



section \<open>Properties of the requirement accumulator\<close>

subsection \<open>What the closure algorithm adds\<close>

text \<open>
  \<open>grows roots S S'\<close> relates the enabled set before a run of the closure algorithm
  on \<open>roots\<close> to the set after it: the old entries stay in front, the roots are in,
  every new entry has its prerequisites in and is reachable from a root, and no entry
  is doubled.
\<close>

definition grows :: "Capability set \<Rightarrow> Capability list \<Rightarrow> Capability list \<Rightarrow> bool" where
  "grows roots S S' \<longleftrightarrow>
     (\<exists>ys. S' = S @ ys) \<and>
     roots \<subseteq> set S' \<and>
     (\<forall>x \<in> set S' - set S. set (prerequisites x) \<subseteq> set S' \<and> x \<in> prerequisite\<^sup>* `` roots) \<and>
     (distinct S \<longrightarrow> distinct S')"

lemma growsD:
  assumes "grows roots S S'"
  shows "\<exists>ys. S' = S @ ys"
    and "set S \<subseteq> set S'"
    and "roots \<subseteq> set S'"
    and "\<And>x. x \<in> set S' \<Longrightarrow> x \<notin> set S \<Longrightarrow> set (prerequisites x) \<subseteq> set S'"
    and "\<And>x. x \<in> set S' \<Longrightarrow> x \<notin> set S \<Longrightarrow> x \<in> prerequisite\<^sup>* `` roots"
    and "distinct S \<Longrightarrow> distinct S'"
proof -
  from assms show p: "\<exists>ys. S' = S @ ys" unfolding grows_def by blast
  then show "set S \<subseteq> set S'" by auto
  from assms show "roots \<subseteq> set S'" unfolding grows_def by blast
  from assms show "\<And>x. x \<in> set S' \<Longrightarrow> x \<notin> set S \<Longrightarrow> set (prerequisites x) \<subseteq> set S'"
    unfolding grows_def by blast
  from assms show "\<And>x. x \<in> set S' \<Longrightarrow> x \<notin> set S \<Longrightarrow> x \<in> prerequisite\<^sup>* `` roots"
    unfolding grows_def by blast
  from assms show "distinct S \<Longrightarrow> distinct S'" unfolding grows_def by blast
qed

lemma growsI:
  assumes "\<exists>ys. S' = S @ ys"
    and "roots \<subseteq> set S'"
    and "\<And>x. x \<in> set S' \<Longrightarrow> x \<notin> set S \<Longrightarrow> set (prerequisites x) \<subseteq> set S'"
    and "\<And>x. x \<in> set S' \<Longrightarrow> x \<notin> set S \<Longrightarrow> x \<in> prerequisite\<^sup>* `` roots"
    and "distinct S \<Longrightarrow> distinct S'"
  shows "grows roots S S'"
  unfolding grows_def using assms by blast

lemma grows_refl: "roots \<subseteq> set S \<Longrightarrow> grows roots S S"
  by (rule growsI) auto

lemma grows_trans:
  assumes AB: "grows r1 A B" and BC: "grows r2 B C"
  shows "grows (r1 \<union> r2) A C"
proof (rule growsI)
  note ab = growsD[OF AB] and bc = growsD[OF BC]
  from ab(1) bc(1) show "\<exists>ys. C = A @ ys" by auto
  from ab(3) bc(2,3) show "r1 \<union> r2 \<subseteq> set C" by blast
  show "set (prerequisites x) \<subseteq> set C" if x: "x \<in> set C" "x \<notin> set A" for x
  proof (cases "x \<in> set B")
    case True
    from ab(4)[OF True x(2)] bc(2) show ?thesis by blast
  next
    case False
    from bc(4)[OF x(1) False] show ?thesis .
  qed
  show "x \<in> prerequisite\<^sup>* `` (r1 \<union> r2)" if x: "x \<in> set C" "x \<notin> set A" for x
  proof (cases "x \<in> set B")
    case True
    from ab(5)[OF True x(2)] show ?thesis by blast
  next
    case False
    from bc(5)[OF x(1) False] show ?thesis by blast
  qed
  show "distinct C" if "distinct A"
    using that ab(6) bc(6) by blast
qed

lemma grows_expand:
  assumes new: "c \<notin> set S" and run: "grows (set (prerequisites c)) (S @ [c]) R"
  shows "grows {c} S R"
proof (rule growsI)
  note r = growsD[OF run]
  from r(1) show "\<exists>ys. R = S @ ys" by auto
  from r(2) show "{c} \<subseteq> set R" by simp
  show "set (prerequisites x) \<subseteq> set R" if x: "x \<in> set R" "x \<notin> set S" for x
  proof (cases "x = c")
    case True
    with r(3) show ?thesis by simp
  next
    case False
    with x have "x \<notin> set (S @ [c])" by simp
    from r(4)[OF x(1) this] show ?thesis .
  qed
  show "x \<in> prerequisite\<^sup>* `` {c}" if x: "x \<in> set R" "x \<notin> set S" for x
  proof (cases "x = c")
    case True
    then show ?thesis by simp
  next
    case False
    with x have "x \<notin> set (S @ [c])" by simp
    from r(5)[OF x(1) this] obtain d where d: "d \<in> set (prerequisites c)" "(d, x) \<in> prerequisite\<^sup>*"
      by blast
    from d(1) have "(c, d) \<in> prerequisite" by (simp add: prerequisite_def)
    with d(2) show ?thesis by (auto intro: converse_rtrancl_into_rtrancl)
  qed
  show "distinct R" if "distinct S"
    using that new r(6) by simp
qed

lemma enableCapability_grows:
  "grows {c} S (enableCapability c S)"
  "grows (set cs) S (enableCapabilities cs S)"
proof (induct c S and cs S rule: enableCapability_enableCapabilities.induct)
  case (1 c enabledSet)
  show ?case
  proof (cases "c \<in> set enabledSet")
    case True
    then show ?thesis by (simp add: enableCapability.simps grows_refl)
  next
    case False
    with "1.hyps" have "grows (set (prerequisites c)) (enabledSet @ [c])
                          (enableCapability c enabledSet)"
      by (simp add: enableCapability.simps)
    with False show ?thesis by (rule grows_expand)
  qed
next
  case (2 enabledSet)
  show ?case by (simp add: grows_refl)
next
  case (3 c cs enabledSet)
  from grows_trans[OF "3.hyps"] show ?case by simp
qed

lemma grows_closedCaps:
  assumes "grows roots S S'" and "closedCaps (set S)"
  shows "closedCaps (set S')"
  unfolding closedCaps_def
proof
  note g = growsD[OF assms(1)]
  fix x assume x: "x \<in> set S'"
  show "set (prerequisites x) \<subseteq> set S'"
  proof (cases "x \<in> set S")
    case True
    with assms(2) g(2) show ?thesis unfolding closedCaps_def by blast
  next
    case False
    from g(4)[OF x False] show ?thesis .
  qed
qed

lemma enableCapability_member:
  "c \<in> set S \<Longrightarrow> enableCapability c S = S"
  by (simp add: enableCapability.simps)

lemma enableCapabilities_members:
  "set cs \<subseteq> set S \<Longrightarrow> enableCapabilities cs S = S"
  by (induction cs) (simp_all add: enableCapability_member)


subsection \<open>Steps of the accumulator\<close>

text \<open>
  \<open>accGrows r r'\<close>: the accumulator \<open>r'\<close> extends \<open>r\<close>. Both insertion-ordered
  sets keep their entries in front, and closure under prerequisites and freedom from
  duplicates carry over.
\<close>

definition accGrows :: "SPIRVRequirementHandler \<Rightarrow> SPIRVRequirementHandler \<Rightarrow> bool" where
  "accGrows r r' \<longleftrightarrow>
     (\<exists>ys. enabledCaps r' = enabledCaps r @ ys) \<and>
     (\<exists>zs. extensions r' = extensions r @ zs) \<and>
     (closedCaps (set (enabledCaps r)) \<longrightarrow> closedCaps (set (enabledCaps r'))) \<and>
     (distinct (enabledCaps r) \<longrightarrow> distinct (enabledCaps r')) \<and>
     (distinct (extensions r) \<longrightarrow> distinct (extensions r'))"

lemma accGrows_refl: "accGrows r r"
  by (simp add: accGrows_def)

lemma accGrows_trans: "accGrows a b \<Longrightarrow> accGrows b c \<Longrightarrow> accGrows a c"
  unfolding accGrows_def by (elim conjE exE) simp

lemma accGrows_subset:
  assumes "accGrows r r'"
  shows "set (enabledCaps r) \<subseteq> set (enabledCaps r')"
    and "set (extensions r) \<subseteq> set (extensions r')"
  using assms unfolding accGrows_def by auto

lemma accGrows_caps:
  assumes "grows roots (enabledCaps r) S"
  shows "accGrows r (r\<lparr>enabledCaps := S\<rparr>)"
  unfolding accGrows_def
  using growsD(1,6)[OF assms] grows_closedCaps[OF assms] by simp

text \<open>
  A step is \<open>stable\<close> when a successful run extends the accumulator and, run again on
  the result or on any extension of it, succeeds and changes nothing.
\<close>

definition stable :: "(SPIRVRequirementHandler \<Rightarrow> result) \<Rightarrow> bool" where
  "stable f \<longleftrightarrow>
     (\<forall>r r'. f r = Inr r' \<longrightarrow>
        accGrows r r' \<and> (\<forall>r''. accGrows r' r'' \<longrightarrow> f r'' = Inr r''))"

lemma stableD:
  assumes "stable f" and "f r = Inr r'"
  shows "accGrows r r'" and "\<And>r''. accGrows r' r'' \<Longrightarrow> f r'' = Inr r''"
  using assms unfolding stable_def by blast+

lemma stableI:
  assumes "\<And>r r'. f r = Inr r' \<Longrightarrow> accGrows r r'"
    and "\<And>r r' r''. f r = Inr r' \<Longrightarrow> accGrows r' r'' \<Longrightarrow> f r'' = Inr r''"
  shows "stable f"
  unfolding stable_def using assms by blast

lemma stable_Inr: "stable (\<lambda>r. Inr r)"
  by (rule stableI) (auto simp: accGrows_refl)

lemma stable_Inl: "stable (\<lambda>r. Inl (e, r))"
  by (rule stableI) auto

lemma stable_andThen:
  assumes f: "stable f" and g: "stable g"
  shows "stable (\<lambda>r. andThen (f r) g)"
proof (rule stableI)
  fix r r' assume "andThen (f r) g = Inr r'"
  then obtain r1 where r1: "f r = Inr r1" "g r1 = Inr r'"
    by (auto simp: andThen_def split: sum.splits)
  note sf = stableD[OF f r1(1)] and sg = stableD[OF g r1(2)]
  from sf(1) sg(1) show "accGrows r r'" by (rule accGrows_trans)
  fix r'' assume ext: "accGrows r' r''"
  from sf(2)[OF accGrows_trans[OF sg(1) ext]] sg(2)[OF ext]
  show "andThen (f r'') g = Inr r''" by (simp add: andThen_def)
qed

lemma stable_orFault:
  assumes "\<And>a. stable (\<lambda>r. k a r)"
  shows "stable (\<lambda>r. orFault x r (\<lambda>a. k a r))"
proof (cases x)
  case (Inl e)
  then show ?thesis by (simp add: orFault_def stable_Inl)
next
  case (Inr a)
  with assms[of a] show ?thesis by (simp add: orFault_def)
qed

lemma stable_if:
  assumes "b \<Longrightarrow> stable f" and "\<not> b \<Longrightarrow> stable g"
  shows "stable (\<lambda>r. if b then f r else g r)"
  using assms by (cases b) simp_all

lemma stable_case_option:
  assumes "stable f" and "\<And>d. stable (\<lambda>r. g d r)"
  shows "stable (\<lambda>r. case x of None \<Rightarrow> f r | Some d \<Rightarrow> g d r)"
  using assms by (cases x) simp_all

lemma stable_addCapability: "stable (\<lambda>r. Inr (addCapability c r))"
proof (rule stableI)
  fix r r' assume "Inr (addCapability c r) = (Inr r' :: result)"
  then have r': "r' = addCapability c r" by simp
  note g = enableCapability_grows(1)[of c "enabledCaps r"]
  from accGrows_caps[OF g] show "accGrows r r'"
    by (simp add: r' addCapability_def)
  fix r'' assume "accGrows r' r''"
  from accGrows_subset(1)[OF this] growsD(3)[OF g] have "c \<in> set (enabledCaps r'')"
    by (auto simp: r' addCapability_def)
  then show "Inr (addCapability c r'') = (Inr r'' :: result)"
    by (simp add: addCapability_def enableCapability_member)
qed

lemma insertOrdered_member: "x \<in> set xs \<Longrightarrow> insertOrdered x xs = xs"
  by (simp add: insertOrdered_def)

lemma addRequiredExtensions_Inr_conj:
  "addRequiredExtensions ST es r = Inr r' \<Longrightarrow>
   enabledCaps r' = enabledCaps r \<and>
   (\<exists>zs. extensions r' = extensions r @ zs) \<and>
   set (extensions r') = set (extensions r) \<union> set es \<and>
   (\<forall>e \<in> set es. canUseExtension ST e) \<and>
   (distinct (extensions r) \<longrightarrow> distinct (extensions r'))"
proof (induction es arbitrary: r)
  case Nil
  then show ?case by simp
next
  case (Cons e es)
  let ?r1 = "r\<lparr>extensions := insertOrdered e (extensions r)\<rparr>"
  from Cons.prems have e: "canUseExtension ST e"
    and run: "addRequiredExtensions ST es ?r1 = Inr r'"
    by (simp_all split: if_splits)
  from Cons.IH[OF run] e show ?case
    by (auto simp: insertOrdered_def split: if_splits)
qed

lemma addRequiredExtensions_Inr:
  assumes "addRequiredExtensions ST es r = Inr r'"
  shows "enabledCaps r' = enabledCaps r"
    and "\<exists>zs. extensions r' = extensions r @ zs"
    and "set (extensions r') = set (extensions r) \<union> set es"
    and "\<forall>e \<in> set es. canUseExtension ST e"
    and "distinct (extensions r) \<longrightarrow> distinct (extensions r')"
  using addRequiredExtensions_Inr_conj[OF assms] by blast+

lemma addRequiredExtensions_present:
  "\<forall>e \<in> set es. canUseExtension ST e \<Longrightarrow> set es \<subseteq> set (extensions r) \<Longrightarrow>
   addRequiredExtensions ST es r = Inr r"
  by (induction es) (simp_all add: insertOrdered_member)

lemma addRequiredExtensions_available:
  "\<forall>e \<in> set es. canUseExtension ST e \<Longrightarrow> \<exists>r'. addRequiredExtensions ST es r = Inr r'"
  by (induction es arbitrary: r) simp_all

lemma addRequiredExtensions_unavailable:
  "\<exists>e \<in> set es. \<not> canUseExtension ST e \<Longrightarrow>
   \<exists>r'. addRequiredExtensions ST es r = Inl (UnmetExtensionRequirement, r')"
  by (induction es arbitrary: r) auto

lemma addRequiredExtensions_accGrows:
  assumes "addRequiredExtensions ST es r = Inr r'"
  shows "accGrows r r'"
  unfolding accGrows_def using addRequiredExtensions_Inr[OF assms] by simp

lemma addRequiredCapabilities_Inr:
  assumes "addRequiredCapabilities ST alts r = Inr r'"
  shows "\<exists>alt \<in> set alts. set alt \<subseteq> set (enabledCaps r')"
    and "extensions r' = extensions r"
    and "accGrows r r'"
proof -
  show "\<exists>alt \<in> set alts. set alt \<subseteq> set (enabledCaps r')"
  proof (cases "\<exists>alt \<in> set alts. set alt \<subseteq> set (enabledCaps r)")
    case True
    with assms show ?thesis by (simp add: addRequiredCapabilities_def)
  next
    case False
    with assms obtain alt where alt:
      "find (\<lambda>alt. \<forall>c \<in> set alt. canUseCapability ST c) alts = Some alt"
      "r' = r\<lparr>enabledCaps := enableCapabilities alt (enabledCaps r)\<rparr>"
      by (auto simp: addRequiredCapabilities_def split: option.splits)
    from alt(1) have "alt \<in> set alts" by (auto simp: find_Some_iff)
    moreover have "set alt \<subseteq> set (enabledCaps r')"
      using growsD(3)[OF enableCapability_grows(2)[of alt "enabledCaps r"]] alt(2) by simp
    ultimately show ?thesis by blast
  qed
  show "extensions r' = extensions r"
    using assms by (auto simp: addRequiredCapabilities_def split: if_splits option.splits)
  show "accGrows r r'"
  proof (cases "\<exists>alt \<in> set alts. set alt \<subseteq> set (enabledCaps r)")
    case True
    with assms show ?thesis by (simp add: addRequiredCapabilities_def accGrows_refl)
  next
    case False
    with assms obtain alt where
      "r' = r\<lparr>enabledCaps := enableCapabilities alt (enabledCaps r)\<rparr>"
      by (auto simp: addRequiredCapabilities_def split: option.splits)
    with accGrows_caps[OF enableCapability_grows(2)[of alt "enabledCaps r"]]
    show ?thesis by simp
  qed
qed

lemma addRequiredCapabilities_satisfied:
  "\<exists>alt \<in> set alts. set alt \<subseteq> set (enabledCaps r) \<Longrightarrow>
   addRequiredCapabilities ST alts r = Inr r"
  by (simp add: addRequiredCapabilities_def)

lemma stable_addRequirements: "stable (\<lambda>r. addRequirements ST req r)"
proof (rule stableI)
  fix r r' assume run: "addRequirements ST req r = Inr r'"
  then obtain r1 where r1: "addRequiredCapabilities ST (alternativeSets req) r = Inr r1"
    and rest: "(if inVersionWindow (targetSPIRVVersion ST) (minVersion req) (maxVersion req)
                then Inr r1
                else addRequiredExtensions ST (requiredExtensions req) r1) = Inr r'"
    by (auto simp: addRequirements_def andThen_def split: sum.splits)
  note c = addRequiredCapabilities_Inr[OF r1]
  have step2: "accGrows r1 r'"
    using rest by (auto simp: accGrows_refl addRequiredExtensions_accGrows split: if_splits)
  from c(3) step2 show "accGrows r r'" by (rule accGrows_trans)
  fix r'' assume ext: "accGrows r' r''"
  from c(1) accGrows_subset(1)[OF step2] accGrows_subset(1)[OF ext]
  have "\<exists>alt \<in> set (alternativeSets req). set alt \<subseteq> set (enabledCaps r'')" by blast
  then have caps: "addRequiredCapabilities ST (alternativeSets req) r'' = Inr r''"
    by (rule addRequiredCapabilities_satisfied)
  show "addRequirements ST req r'' = Inr r''"
  proof (cases "inVersionWindow (targetSPIRVVersion ST) (minVersion req) (maxVersion req)")
    case True
    with caps show ?thesis by (simp add: addRequirements_def andThen_def)
  next
    case False
    with rest have e: "addRequiredExtensions ST (requiredExtensions req) r1 = Inr r'" by simp
    from addRequiredExtensions_Inr(3,4)[OF e] accGrows_subset(2)[OF ext]
    have "addRequiredExtensions ST (requiredExtensions req) r'' = Inr r''"
      by (intro addRequiredExtensions_present) auto
    with caps False show ?thesis by (simp add: addRequirements_def andThen_def)
  qed
qed


section \<open>Properties of the instruction requirement mapper\<close>

lemmas stable_intros =
  stable_Inr stable_Inl stable_addCapability stable_addRequirements
  stable_andThen stable_orFault stable_if stable_case_option

lemma stable_addVariablePtrInstrReqs:
  "stable (\<lambda>reqs. addVariablePtrInstrReqs MRI MI reqs ST)"
  unfolding addVariablePtrInstrReqs_def by (intro stable_intros)

lemma stable_addOpDecorateReqs:
  "stable (\<lambda>reqs. addOpDecorateReqs MI decIndex reqs ST)"
  unfolding addOpDecorateReqs_def by (intro stable_intros)

lemma stable_addDimReqs:
  "stable (\<lambda>reqs. addDimReqs dim isArrayed isMultisampled noSampler reqs ST)"
  unfolding addDimReqs_def by (intro stable_intros)

lemma stable_addOpTypeImageReqs:
  "stable (\<lambda>reqs. addOpTypeImageReqs MI reqs ST)"
  unfolding addOpTypeImageReqs_def by (intro stable_intros stable_addDimReqs)

lemma stable_addInstrRequirements:
  "stable (\<lambda>reqs. addInstrRequirements MRI MI reqs ST)"
  unfolding addInstrRequirements_def Let_def
  by (cases "getOpcode MI";
      simp;
      intro stable_intros stable_addOpTypeImageReqs stable_addOpDecorateReqs
        stable_addVariablePtrInstrReqs)



lemma stable_addBlockRequirements:
  "stable (\<lambda>reqs. addBlockRequirements MRI MIs reqs ST)"
proof (induction MIs)
  case Nil
  show ?case by (simp add: stable_Inr)
next
  case (Cons MI MIs)
  from stable_andThen[OF stable_addInstrRequirements[of MRI MI ST] Cons.IH]
  show ?case by simp
qed

lemma stable_addFunctionRequirements:
  "stable (\<lambda>reqs. addFunctionRequirements MRI MBBs reqs ST)"
proof (induction MBBs)
  case Nil
  show ?case by (simp add: stable_Inr)
next
  case (Cons MBB MBBs)
  from stable_andThen[OF stable_addBlockRequirements[of MRI MBB ST] Cons.IH]
  show ?case by simp
qed

lemma closedCaps_trancl:
  assumes "closedCaps A" and "c \<in> A" and "(c, d) \<in> prerequisite\<^sup>+"
  shows "d \<in> A"
  using closedCaps_rtrancl[OF assms(1) trancl_into_rtrancl[OF assms(3)] assms(2)] .

lemma fold_updateCapabilityFromFeature_flagged:
  "flagged ST \<subseteq> flagged (fold updateCapabilityFromFeature es ST)"
proof (induction es arbitrary: ST)
  case Nil
  show ?case by simp
next
  case (Cons e es)
  have "flagged ST \<subseteq> flagged (updateCapabilityFromFeature e ST)"
    using enableFeatureCapability_mono(2)
            [of "ST\<lparr>availableCaps := insert (Val e) (availableCaps ST)\<rparr>" "Caps e"]
    by (auto simp: updateCapabilityFromFeature_def flagged_def)
  with Cons.IH[of "updateCapabilityFromFeature e ST"] show ?case by auto
qed

lemma updateCapabilitiesFromFeatures_flagged:
  assumes "availableCaps ST = {}" and "Has ST c" and "c \<in> capabilityValues"
  shows "c \<in> availableCaps (updateCapabilitiesFromFeatures ST)"
proof -
  from assms(1) have "updated {} ST" by (simp add: updated_def)
  from fold_updateCapabilityFromFeature_updated[OF this, of DEF_Capability]
  have u: "updated (set DEF_Capability) (updateCapabilitiesFromFeatures ST)"
    by (simp add: updateCapabilitiesFromFeatures_def)
  from assms(2) fold_updateCapabilityFromFeature_flagged[of ST DEF_Capability]
  have "c \<in> flagged (updateCapabilitiesFromFeatures ST)"
    by (auto simp: updateCapabilitiesFromFeatures_def flagged_def)
  moreover from assms(3) obtain e where "e \<in> set DEF_Capability" "c = Val e"
    by (auto simp: capabilityValues_def)
  ultimately show ?thesis using updatedD(3)[OF u] by blast
qed

text \<open>
  C6. Processing an instruction a second time, on the accumulator that processing it
  once has produced, succeeds and leaves both insertion-ordered sets as they are; so a
  block that holds the instruction twice resolves as the block that holds it once.
  Processing only appends to the two sets, and sets without duplicates stay so.
\<close>

theorem addInstrRequirements_idempotent:
  "addBlockRequirements MRI [MI, MI] reqs ST = addBlockRequirements MRI [MI] reqs ST \<and>
   (addInstrRequirements MRI MI reqs ST = Inr reqs' \<longrightarrow>
      addInstrRequirements MRI MI reqs' ST = Inr reqs' \<and>
      (\<exists>ys. enabledCaps reqs' = enabledCaps reqs @ ys) \<and>
      (\<exists>zs. extensions reqs' = extensions reqs @ zs) \<and>
      (distinct (enabledCaps reqs) \<longrightarrow> distinct (enabledCaps reqs')) \<and>
      (distinct (extensions reqs) \<longrightarrow> distinct (extensions reqs')))"
proof -
  note st = stable_addInstrRequirements[of MRI MI ST]
  have again: "addInstrRequirements MRI MI r' ST = Inr r'"
    if "addInstrRequirements MRI MI r ST = Inr r'" for r r'
    using stableD(2)[OF st that accGrows_refl] .
  have "addBlockRequirements MRI [MI, MI] reqs ST = addBlockRequirements MRI [MI] reqs ST"
  proof (cases "addInstrRequirements MRI MI reqs ST")
    case (Inl f)
    then show ?thesis by (simp add: andThen_def)
  next
    case (Inr r')
    with again[OF Inr] show ?thesis by (simp add: andThen_def)
  qed
  moreover have "accGrows reqs reqs'" if "addInstrRequirements MRI MI reqs ST = Inr reqs'"
    using stableD(1)[OF st that] .
  ultimately show ?thesis
    using again[of reqs reqs'] unfolding accGrows_def by blast
qed

theorem addInstrRequirements_idempotent_witness:
  "addInstrRequirements (\<lambda>r. None)
     \<lparr>getOpcode = OpTypeVector, operands = [Reg 1, Reg 2, Imm 16]\<rparr>
     newSPIRVRequirementHandler exampleProfile =
     Inr \<lparr>enabledCaps = [Capability_Vector16, Capability_Kernel], extensions = []\<rparr> \<and>
   addInstrRequirements (\<lambda>r. None)
     \<lparr>getOpcode = OpTypeVector, operands = [Reg 1, Reg 2, Imm 16]\<rparr>
     \<lparr>enabledCaps = [Capability_Vector16, Capability_Kernel], extensions = []\<rparr>
     exampleProfile =
     Inr \<lparr>enabledCaps = [Capability_Vector16, Capability_Kernel], extensions = []\<rparr>"
proof -
  have once: "addInstrRequirements (\<lambda>r. None)
     \<lparr>getOpcode = OpTypeVector, operands = [Reg 1, Reg 2, Imm 16]\<rparr>
     newSPIRVRequirementHandler exampleProfile =
     Inr \<lparr>enabledCaps = [Capability_Vector16, Capability_Kernel], extensions = []\<rparr>"
    by (simp add: addInstrRequirements_def getOperandImm_def getOperand_def
        getNumOperands_def orFault_def addCapability_def enableCapability.simps
        prerequisites_def DEF_Capability_def newSPIRVRequirementHandler_def)
  with addInstrRequirements_idempotent
    [of "\<lambda>r. None" "\<lparr>getOpcode = OpTypeVector, operands = [Reg 1, Reg 2, Imm 16]\<rparr>"
        newSPIRVRequirementHandler exampleProfile
        "\<lparr>enabledCaps = [Capability_Vector16, Capability_Kernel], extensions = []\<rparr>"]
  show ?thesis by blast
qed

text \<open>
  C7. The available capabilities of a constructed profile hold every direct and
  transitive prerequisite of each of their members, whatever the triple and the
  feature flags; the feature-flag pass, started with nothing available, makes every
  flagged capability of the table available. The same closure holds of the
  capabilities declared for a function, and every step of the mapper keeps an
  accumulator closed.
\<close>

theorem closure_completeness:
  "(\<forall>c \<in> availableCaps (newSPIRVSubtarget TT Features).
      \<forall>d. (c, d) \<in> prerequisite\<^sup>+ \<longrightarrow> d \<in> availableCaps (newSPIRVSubtarget TT Features)) \<and>
   (availableCaps ST0 = {} \<and> Has ST0 b \<and> b \<in> capabilityValues \<longrightarrow>
      b \<in> availableCaps (updateCapabilitiesFromFeatures ST0)) \<and>
   (runOnMachineFunction MF ST = Inr decls \<longrightarrow>
      (\<forall>c d. DeclareCapability c \<in> set decls \<and> (c, d) \<in> prerequisite\<^sup>+ \<longrightarrow>
         DeclareCapability d \<in> set decls)) \<and>
   (closedCaps (set (enabledCaps reqs)) \<and> addInstrRequirements MRI MI reqs ST = Inr reqs' \<longrightarrow>
      closedCaps (set (enabledCaps reqs')))"
proof (intro conjI)
  show "\<forall>c \<in> availableCaps (newSPIRVSubtarget TT Features).
          \<forall>d. (c, d) \<in> prerequisite\<^sup>+ \<longrightarrow> d \<in> availableCaps (newSPIRVSubtarget TT Features)"
    using closedCaps_trancl[OF newSPIRVSubtarget_closed] by blast
  show "availableCaps ST0 = {} \<and> Has ST0 b \<and> b \<in> capabilityValues \<longrightarrow>
          b \<in> availableCaps (updateCapabilitiesFromFeatures ST0)"
    using updateCapabilitiesFromFeatures_flagged by blast
  show "runOnMachineFunction MF ST = Inr decls \<longrightarrow>
          (\<forall>c d. DeclareCapability c \<in> set decls \<and> (c, d) \<in> prerequisite\<^sup>+ \<longrightarrow>
             DeclareCapability d \<in> set decls)"
  proof
    assume "runOnMachineFunction MF ST = Inr decls"
    then obtain r where r:
      "addFunctionRequirements (getRegInfo MF) (blocks MF) newSPIRVRequirementHandler ST = Inr r"
      and decls: "decls = map DeclareCapability (enabledCaps r) @ map DeclareExtension (extensions r)"
      by (auto simp: runOnMachineFunction_def getMinimalCapabilities_def getExtensions_def
          split: sum.splits)
    from stableD(1)[OF stable_addFunctionRequirements r]
    have "closedCaps (set (enabledCaps r))"
      by (simp add: accGrows_def newSPIRVRequirementHandler_def closedCaps_def)
    from closedCaps_trancl[OF this]
    show "\<forall>c d. DeclareCapability c \<in> set decls \<and> (c, d) \<in> prerequisite\<^sup>+ \<longrightarrow>
            DeclareCapability d \<in> set decls"
      unfolding decls by auto
  qed
  show "closedCaps (set (enabledCaps reqs)) \<and> addInstrRequirements MRI MI reqs ST = Inr reqs' \<longrightarrow>
          closedCaps (set (enabledCaps reqs'))"
    using stableD(1)[OF stable_addInstrRequirements[of MRI MI ST], of reqs reqs']
    by (auto simp: accGrows_def)
qed

theorem closure_completeness_witness:
  "Capability_InputAttachment \<in> availableCaps (newSPIRVSubtarget vulkanTriple []) \<and>
   (Capability_InputAttachment, Capability_Matrix) \<in> prerequisite\<^sup>+ \<and>
   Capability_Matrix \<in> availableCaps (newSPIRVSubtarget vulkanTriple []) \<and>
   runOnMachineFunction
     \<lparr>blocks = [[\<lparr>getOpcode = OpTypeRuntimeArray, operands = [Reg 1, Reg 2]\<rparr>]],
      getRegInfo = (\<lambda>r. None)\<rparr> exampleProfile =
     Inr [DeclareCapability Capability_Shader, DeclareCapability Capability_Matrix]"
proof -
  have mem: "Capability_InputAttachment \<in> availableCaps (newSPIRVSubtarget vulkanTriple [])"
    unfolding newSPIRVSubtarget_def
    by (rule updateCapabilitiesFromFeatures_flagged)
       (simp_all add: vulkanTriple_def initAvailableCapabilities_def
          initAvailableExtInstSets_def initAvailableExtensions_def setHas_def Let_def
          capabilityValues_def DEF_Capability_def)
  have "(Capability_InputAttachment, Capability_Shader) \<in> prerequisite"
    "(Capability_Shader, Capability_Matrix) \<in> prerequisite"
    by (simp_all add: prerequisite_def prerequisites_def DEF_Capability_def)
  then have path: "(Capability_InputAttachment, Capability_Matrix) \<in> prerequisite\<^sup>+"
    by (rule trancl_into_trancl[OF r_into_trancl])
  have run: "runOnMachineFunction
     \<lparr>blocks = [[\<lparr>getOpcode = OpTypeRuntimeArray, operands = [Reg 1, Reg 2]\<rparr>]],
      getRegInfo = (\<lambda>r. None)\<rparr> exampleProfile =
     Inr [DeclareCapability Capability_Shader, DeclareCapability Capability_Matrix]"
    by (simp add: runOnMachineFunction_def andThen_def addInstrRequirements_def
        addCapability_def enableCapability.simps prerequisites_def DEF_Capability_def
        newSPIRVRequirementHandler_def getMinimalCapabilities_def getExtensions_def)
  from closure_completeness[of vulkanTriple "[]"] mem path run
  show ?thesis by blast
qed



lemma addRequiredCapabilities_extensions:
  "addRequiredCapabilities ST alts r = Inl (e, r') \<Longrightarrow> e = UnmetCapabilityRequirement \<and> r' = r"
  by (auto simp: addRequiredCapabilities_def split: if_splits option.splits)

text \<open>
  C3. For a requirement with the window \<open>[V1, 0]\<close>: when the target version is at
  least \<open>V1\<close> the step is the capability part alone and the extension set stays as it
  is, in the result as in the accumulator of an abort. When the target version is
  below \<open>V1\<close> and the capability part succeeds, the extensions are added if the
  profile makes all of them available, and otherwise the step fails with
  \<open>UnmetExtensionRequirement\<close>. For a target version that is specified (not \<open>0\<close>),
  the test against \<open>V1\<close> is \<open>isAtLeastVer\<close>.
\<close>

theorem addRequirements_version_gating:
  assumes "minVersion req = V1" and "maxVersion req = 0"
  shows "(V1 \<le> targetSPIRVVersion ST \<longrightarrow>
            addRequirements ST req reqs = addRequiredCapabilities ST (alternativeSets req) reqs \<and>
            (\<forall>r. addRequirements ST req reqs = Inr r \<longrightarrow> extensions r = extensions reqs) \<and>
            (\<forall>e r. addRequirements ST req reqs = Inl (e, r) \<longrightarrow> extensions r = extensions reqs)) \<and>
         (targetSPIRVVersion ST < V1 \<and>
          addRequiredCapabilities ST (alternativeSets req) reqs = Inr reqs1 \<longrightarrow>
            (if \<forall>E \<in> set (requiredExtensions req). canUseExtension ST E
             then \<exists>r. addRequirements ST req reqs = Inr r \<and>
                      set (extensions r) = set (extensions reqs) \<union> set (requiredExtensions req)
             else \<exists>r. addRequirements ST req reqs = Inl (UnmetExtensionRequirement, r))) \<and>
         (targetSPIRVVersion ST \<noteq> 0 \<longrightarrow>
            inVersionWindow (targetSPIRVVersion ST) V1 0 = isAtLeastVer (targetSPIRVVersion ST) V1)"
proof (intro conjI impI)
  assume ge: "V1 \<le> targetSPIRVVersion ST"
  with assms have w: "inVersionWindow (targetSPIRVVersion ST) (minVersion req) (maxVersion req)"
    by (simp add: inVersionWindow_def)
  then show eq: "addRequirements ST req reqs =
                   addRequiredCapabilities ST (alternativeSets req) reqs"
    by (simp add: addRequirements_def andThen_def split: sum.splits)
  show "\<forall>r. addRequirements ST req reqs = Inr r \<longrightarrow> extensions r = extensions reqs"
    unfolding eq using addRequiredCapabilities_Inr(2) by blast
  show "\<forall>e r. addRequirements ST req reqs = Inl (e, r) \<longrightarrow> extensions r = extensions reqs"
    unfolding eq using addRequiredCapabilities_extensions by blast
next
  assume "targetSPIRVVersion ST < V1 \<and>
          addRequiredCapabilities ST (alternativeSets req) reqs = Inr reqs1"
  then have lt: "targetSPIRVVersion ST < V1"
    and caps: "addRequiredCapabilities ST (alternativeSets req) reqs = Inr reqs1"
    by simp_all
  from lt have "V1 \<noteq> 0" by auto
  with lt assms have w: "\<not> inVersionWindow (targetSPIRVVersion ST) (minVersion req) (maxVersion req)"
    by (auto simp: inVersionWindow_def)
  with caps have eq: "addRequirements ST req reqs =
                        addRequiredExtensions ST (requiredExtensions req) reqs1"
    by (simp add: addRequirements_def andThen_def)
  show "if \<forall>E \<in> set (requiredExtensions req). canUseExtension ST E
        then \<exists>r. addRequirements ST req reqs = Inr r \<and>
                 set (extensions r) = set (extensions reqs) \<union> set (requiredExtensions req)
        else \<exists>r. addRequirements ST req reqs = Inl (UnmetExtensionRequirement, r)"
  proof (cases "\<forall>E \<in> set (requiredExtensions req). canUseExtension ST E")
    case True
    from addRequiredExtensions_available[OF True, of reqs1]
    obtain r where r: "addRequiredExtensions ST (requiredExtensions req) reqs1 = Inr r" by blast
    from addRequiredExtensions_Inr(3)[OF r] addRequiredCapabilities_Inr(2)[OF caps]
    have "set (extensions r) = set (extensions reqs) \<union> set (requiredExtensions req)" by simp
    with r show ?thesis unfolding eq if_P[OF True] by blast
  next
    case False
    then have "\<exists>E \<in> set (requiredExtensions req). \<not> canUseExtension ST E" by blast
    from addRequiredExtensions_unavailable[OF this, of reqs1]
    show ?thesis unfolding eq if_not_P[OF False] .
  qed
next
  assume "targetSPIRVVersion ST \<noteq> 0"
  then show "inVersionWindow (targetSPIRVVersion ST) V1 0 = isAtLeastVer (targetSPIRVVersion ST) V1"
    by (auto simp: inVersionWindow_def isAtLeastVer_def)
qed


lemma NoSignedWrap_requirements:
  "getDecorationRequirements 4469 ST =
     \<lparr>alternativeSets = [[]], requiredExtensions = [SPV_KHR_no_integer_wrap_decoration],
      minVersion = 0x10400, maxVersion = 0\<rparr>"
  by (simp add: getDecorationRequirements_def getEnumRequirements_def alternatives_def
      DEF_Decoration_def)

theorem addRequirements_version_gating_witness:
  "minVersion (getDecorationRequirements 4469 kernelProfile) = 0x10400 \<and>
   maxVersion (getDecorationRequirements 4469 kernelProfile) = 0 \<and>
   0x10400 \<le> targetSPIRVVersion kernelProfile \<and>
   addRequirements kernelProfile (getDecorationRequirements 4469 kernelProfile)
     newSPIRVRequirementHandler = Inr newSPIRVRequirementHandler \<and>
   targetSPIRVVersion (kernelProfile\<lparr>targetSPIRVVersion := 0x10300\<rparr>) < 0x10400 \<and>
   addRequirements (kernelProfile\<lparr>targetSPIRVVersion := 0x10300\<rparr>)
     (getDecorationRequirements 4469 kernelProfile) newSPIRVRequirementHandler =
     Inr \<lparr>enabledCaps = [], extensions = [SPV_KHR_no_integer_wrap_decoration]\<rparr>"
proof -
  let ?req = "getDecorationRequirements 4469 kernelProfile"
  have w: "minVersion ?req = 0x10400" "maxVersion ?req = 0"
    by (simp_all add: NoSignedWrap_requirements)
  have v: "0x10400 \<le> targetSPIRVVersion kernelProfile"
    "targetSPIRVVersion (kernelProfile\<lparr>targetSPIRVVersion := 0x10300\<rparr>) < 0x10400"
    by (simp_all add: kernelProfile_def exampleProfile_def)
  have caps: "addRequiredCapabilities ST (alternativeSets ?req) newSPIRVRequirementHandler =
                Inr newSPIRVRequirementHandler" for ST
    by (simp add: NoSignedWrap_requirements addRequiredCapabilities_def)
  have old: "addRequirements (kernelProfile\<lparr>targetSPIRVVersion := 0x10300\<rparr>) ?req
               newSPIRVRequirementHandler =
             Inr \<lparr>enabledCaps = [], extensions = [SPV_KHR_no_integer_wrap_decoration]\<rparr>"
    by (simp add: NoSignedWrap_requirements addRequirements_def addRequiredCapabilities_def
        andThen_def inVersionWindow_def canUseExtension_def insertOrdered_def
        kernelProfile_def exampleProfile_def newSPIRVRequirementHandler_def)
  from addRequirements_version_gating[OF w, of kernelProfile newSPIRVRequirementHandler]
    w v caps old
  show ?thesis by simp
qed



lemma addCapability_member: "c \<in> set (enabledCaps (addCapability c reqs))"
  using growsD(3)[OF enableCapability_grows(1)[of c "enabledCaps reqs"]]
  by (simp add: addCapability_def)

lemma addCapability_keeps:
  "set (enabledCaps reqs) \<subseteq> set (enabledCaps (addCapability c reqs))"
  using growsD(2)[OF enableCapability_grows(1)[of c "enabledCaps reqs"]]
  by (simp add: addCapability_def)

text \<open>
  C4. For \<open>OpSelect\<close>, \<open>OpPhi\<close>, \<open>OpFunctionCall\<close>, \<open>OpPtrAccessChain\<close>, \<open>OpLoad\<close>
  and \<open>OpConstantNull\<close>: when the profile does not use logical addressing, the
  instruction leaves the accumulator as it is. When it does, and operand 1 is a
  register with a defining instruction, the instruction adds \<open>VariablePointers\<close> if
  that definition is an \<open>OpTypePointer\<close> and leaves the accumulator as it is
  otherwise.
\<close>

theorem variable_pointers_requirement:
  assumes "getOpcode MI \<in> {OpSelect, OpPhi, OpFunctionCall, OpPtrAccessChain, OpLoad, OpConstantNull}"
  shows "(\<not> isLogicalAddressing ST \<longrightarrow> addInstrRequirements MRI MI reqs ST = Inr reqs) \<and>
         (isLogicalAddressing ST \<and> getOperandReg MI 1 = Inr type \<and> MRI type = Some typeDef \<longrightarrow>
            (if getOpcode typeDef = OpTypePointer
             then addInstrRequirements MRI MI reqs ST =
                    Inr (addCapability Capability_VariablePointers reqs) \<and>
                  Capability_VariablePointers \<in>
                    set (enabledCaps (addCapability Capability_VariablePointers reqs))
             else addInstrRequirements MRI MI reqs ST = Inr reqs))"
proof -
  from assms have eq: "addInstrRequirements MRI MI reqs ST =
                         addVariablePtrInstrReqs MRI MI reqs ST"
    by (auto simp: addInstrRequirements_def)
  show ?thesis
    unfolding eq
    by (simp add: addVariablePtrInstrReqs_def orFault_def addCapability_member)
qed

theorem variable_pointers_requirement_witness:
  "isLogicalAddressing logicalProfile \<and> \<not> isLogicalAddressing kernelProfile \<and>
   addInstrRequirements
     (\<lambda>r. if r = 7 then Some \<lparr>getOpcode = OpTypePointer, operands = [Reg 7, Imm 7, Reg 3]\<rparr>
           else None)
     \<lparr>getOpcode = OpLoad, operands = [Reg 9, Reg 7, Reg 8]\<rparr>
     newSPIRVRequirementHandler logicalProfile =
     Inr \<lparr>enabledCaps = [Capability_VariablePointers, Capability_VariablePointersStorageBuffer,
                          Capability_Shader, Capability_Matrix],
          extensions = []\<rparr> \<and>
   addInstrRequirements
     (\<lambda>r. if r = 7 then Some \<lparr>getOpcode = OpTypePointer, operands = [Reg 7, Imm 7, Reg 3]\<rparr>
           else None)
     \<lparr>getOpcode = OpLoad, operands = [Reg 9, Reg 7, Reg 8]\<rparr>
     newSPIRVRequirementHandler kernelProfile = Inr newSPIRVRequirementHandler"
proof -
  let ?MRI = "\<lambda>r::nat. if r = 7
                then Some \<lparr>getOpcode = OpTypePointer, operands = [Reg 7, Imm 7, Reg 3]\<rparr>
                else None"
  let ?MI = "\<lparr>getOpcode = OpLoad, operands = [Reg 9, Reg 7, Reg 8]\<rparr>"
  have op: "getOpcode ?MI \<in> {OpSelect, OpPhi, OpFunctionCall, OpPtrAccessChain, OpLoad, OpConstantNull}"
    by simp
  have l: "isLogicalAddressing logicalProfile" "\<not> isLogicalAddressing kernelProfile"
    by (simp_all add: isLogicalAddressing_def logicalProfile_def kernelProfile_def
        exampleProfile_def)
  have r: "getOperandReg ?MI 1 = Inr 7" "?MRI 7 = Some \<lparr>getOpcode = OpTypePointer,
             operands = [Reg 7, Imm 7, Reg 3]\<rparr>"
    by (simp_all add: getOperandReg_def getOperand_def getNumOperands_def)
  have v: "addCapability Capability_VariablePointers newSPIRVRequirementHandler =
           \<lparr>enabledCaps = [Capability_VariablePointers, Capability_VariablePointersStorageBuffer,
                            Capability_Shader, Capability_Matrix],
            extensions = []\<rparr>"
    by (simp add: addCapability_def enableCapability.simps prerequisites_def
        DEF_Capability_def newSPIRVRequirementHandler_def)
  from variable_pointers_requirement
         [OF op, where ST = logicalProfile and MRI = ?MRI and reqs = newSPIRVRequirementHandler
            and type = 7
            and typeDef = "\<lparr>getOpcode = OpTypePointer, operands = [Reg 7, Imm 7, Reg 3]\<rparr>"]
    variable_pointers_requirement
         [OF op, where ST = kernelProfile and MRI = ?MRI and reqs = newSPIRVRequirementHandler]
    l r v
  show ?thesis by simp
qed



text \<open>
  A requirement is satisfied by an accumulator under a profile when one of its
  alternatives is enabled and, if the target version is outside its window, its
  extensions are present.
\<close>

definition satisfiedBy ::
  "SPIRVRequirements \<Rightarrow> SPIRVSubtarget \<Rightarrow> SPIRVRequirementHandler \<Rightarrow> bool" where
  "satisfiedBy req ST reqs \<longleftrightarrow>
     (\<exists>alt \<in> set (alternativeSets req). set alt \<subseteq> set (enabledCaps reqs)) \<and>
     (\<not> inVersionWindow (targetSPIRVVersion ST) (minVersion req) (maxVersion req) \<longrightarrow>
        set (requiredExtensions req) \<subseteq> set (extensions reqs))"

lemma addRequirements_satisfiedBy:
  assumes "addRequirements ST req r = Inr r'"
  shows "satisfiedBy req ST r'"
proof -
  from assms obtain r1 where r1: "addRequiredCapabilities ST (alternativeSets req) r = Inr r1"
    and rest: "(if inVersionWindow (targetSPIRVVersion ST) (minVersion req) (maxVersion req)
                then Inr r1
                else addRequiredExtensions ST (requiredExtensions req) r1) = Inr r'"
    by (auto simp: addRequirements_def andThen_def split: sum.splits)
  note c = addRequiredCapabilities_Inr[OF r1]
  show ?thesis
  proof (cases "inVersionWindow (targetSPIRVVersion ST) (minVersion req) (maxVersion req)")
    case True
    with rest c(1) show ?thesis by (simp add: satisfiedBy_def)
  next
    case False
    with rest have e: "addRequiredExtensions ST (requiredExtensions req) r1 = Inr r'" by simp
    from addRequiredExtensions_Inr(1,3)[OF e] c(1) show ?thesis
      by (auto simp: satisfiedBy_def)
  qed
qed

lemma satisfiedBy_accGrows:
  "satisfiedBy req ST r \<Longrightarrow> accGrows r r' \<Longrightarrow> satisfiedBy req ST r'"
  unfolding satisfiedBy_def using accGrows_subset[of r r'] by blast

text \<open>
  C5. A decoration instruction (\<open>OpDecorate\<close>, \<open>OpDecorateId\<close>, \<open>OpDecorateString\<close>
  with the kind at operand 1; \<open>OpMemberDecorate\<close>, \<open>OpMemberDecorateString\<close> with the
  kind at operand 2) that is processed with success has an immediate at that index,
  and the requirement of the decoration kind is satisfied afterwards. When the kind is
  \<open>BuiltIn\<close>, the next operand is an immediate too and the requirement of the
  built-in it selects is satisfied as well; otherwise the step is the one
  \<open>addRequirements\<close> of the kind. A closed accumulator stays closed, so a capability
  enabled for the built-in comes with its prerequisites.
\<close>

theorem decoration_requirements:
  assumes "(getOpcode MI \<in> {OpDecorate, OpDecorateId, OpDecorateString} \<and> decIndex = 1) \<or>
           (getOpcode MI \<in> {OpMemberDecorate, OpMemberDecorateString} \<and> decIndex = 2)"
    and "addInstrRequirements MRI MI reqs ST = Inr reqs'"
  shows "\<exists>decOp. getOperandImm MI decIndex = Inr decOp \<and>
           satisfiedBy (getDecorationRequirements (ucast decOp) ST) ST reqs' \<and>
           (decOp = Decoration_BuiltIn \<longrightarrow>
              (\<exists>builtInOp. getOperandImm MI (decIndex + 1) = Inr builtInOp \<and>
                 satisfiedBy (getBuiltInRequirements (ucast builtInOp) ST) ST reqs')) \<and>
           (decOp \<noteq> Decoration_BuiltIn \<longrightarrow>
              addRequirements ST (getDecorationRequirements (ucast decOp) ST) reqs = Inr reqs') \<and>
           (closedCaps (set (enabledCaps reqs)) \<longrightarrow> closedCaps (set (enabledCaps reqs')))"
proof -
  from assms(1) have "addInstrRequirements MRI MI reqs ST = addOpDecorateReqs MI decIndex reqs ST"
    by (auto simp: addInstrRequirements_def)
  with assms(2) have run: "addOpDecorateReqs MI decIndex reqs ST = Inr reqs'" by simp
  then obtain decOp where dec: "getOperandImm MI decIndex = Inr decOp"
    by (cases "getOperandImm MI decIndex") (auto simp: addOpDecorateReqs_def orFault_def)
  with run obtain reqs1 where
    r1: "addRequirements ST (getDecorationRequirements (ucast decOp) ST) reqs = Inr reqs1"
    and rest: "(if decOp = Decoration_BuiltIn then
                  orFault (getOperandImm MI (decIndex + 1)) reqs1 (\<lambda>builtInOp.
                    addRequirements ST (getBuiltInRequirements (ucast builtInOp) ST) reqs1)
                else Inr reqs1) = Inr reqs'"
    by (auto simp: addOpDecorateReqs_def orFault_def andThen_def split: sum.splits)
  have closed: "closedCaps (set (enabledCaps reqs)) \<longrightarrow> closedCaps (set (enabledCaps reqs'))"
    using stableD(1)[OF stable_addInstrRequirements assms(2)] by (simp add: accGrows_def)
  show ?thesis
  proof (cases "decOp = Decoration_BuiltIn")
    case False
    with rest have "reqs1 = reqs'" by simp
    with r1 addRequirements_satisfiedBy[OF r1] dec False closed show ?thesis by auto
  next
    case True
    with rest obtain builtInOp where b: "getOperandImm MI (decIndex + 1) = Inr builtInOp"
      and r2: "addRequirements ST (getBuiltInRequirements (ucast builtInOp) ST) reqs1 = Inr reqs'"
      by (cases "getOperandImm MI (decIndex + 1)") (auto simp: orFault_def)
    have "satisfiedBy (getDecorationRequirements (ucast decOp) ST) ST reqs'"
      using satisfiedBy_accGrows[OF addRequirements_satisfiedBy[OF r1]
              stableD(1)[OF stable_addRequirements r2]] .
    with addRequirements_satisfiedBy[OF r2] b dec True closed show ?thesis by auto
  qed
qed

theorem decoration_requirements_witness:
  "addInstrRequirements (\<lambda>r. None)
     \<lparr>getOpcode = OpDecorate, operands = [Reg 5, Imm 11, Imm 0]\<rparr>
     \<lparr>enabledCaps = [Capability_Int64], extensions = []\<rparr> logicalProfile =
     Inr \<lparr>enabledCaps = [Capability_Int64, Capability_Shader, Capability_Matrix],
          extensions = []\<rparr> \<and>
   alternativeSets (getBuiltInRequirements 0 logicalProfile) = [[Capability_Shader]] \<and>
   satisfiedBy (getBuiltInRequirements 0 logicalProfile) logicalProfile
     \<lparr>enabledCaps = [Capability_Int64, Capability_Shader, Capability_Matrix],
      extensions = []\<rparr>"
proof -
  let ?MI = "\<lparr>getOpcode = OpDecorate, operands = [Reg 5, Imm 11, Imm 0]\<rparr>"
  have op: "(getOpcode ?MI \<in> {OpDecorate, OpDecorateId, OpDecorateString} \<and> (1::nat) = 1) \<or>
            (getOpcode ?MI \<in> {OpMemberDecorate, OpMemberDecorateString} \<and> (1::nat) = 2)"
    by simp
  have bi: "getBuiltInRequirements 0 logicalProfile =
              \<lparr>alternativeSets = [[Capability_Shader]], requiredExtensions = [],
               minVersion = 0, maxVersion = 0\<rparr>"
    by (simp add: getBuiltInRequirements_def getEnumRequirements_def alternatives_def
        DEF_BuiltIn_def)
  have ops: "getOperandImm ?MI 1 = Inr 11" "getOperandImm ?MI (1 + 1) = Inr 0"
    by (simp_all add: getOperandImm_def getOperand_def getNumOperands_def)
  have run: "addInstrRequirements (\<lambda>r. None) ?MI
               \<lparr>enabledCaps = [Capability_Int64], extensions = []\<rparr> logicalProfile =
             Inr \<lparr>enabledCaps = [Capability_Int64, Capability_Shader, Capability_Matrix],
                  extensions = []\<rparr>"
    by (simp add: addInstrRequirements_def addOpDecorateReqs_def orFault_def andThen_def
        getOperandImm_def getOperand_def getNumOperands_def
        getDecorationRequirements_def getBuiltInRequirements_def getEnumRequirements_def
        alternatives_def DEF_Decoration_def DEF_BuiltIn_def
        addRequirements_def addRequiredCapabilities_def inVersionWindow_def
        enableCapability.simps prerequisites_def DEF_Capability_def
        canUseCapability_def logicalProfile_def exampleProfile_def)
  from decoration_requirements[OF op run] ops bi run
  show ?thesis by auto
qed



subsection \<open>Operand accesses of the image rule\<close>

text \<open>A step that never aborts with \<open>MalformedInstruction\<close>.\<close>

definition wellFormedStep :: "(SPIRVRequirementHandler \<Rightarrow> result) \<Rightarrow> bool" where
  "wellFormedStep f \<longleftrightarrow> (\<forall>r r'. f r \<noteq> Inl (MalformedInstruction, r'))"

lemma wellFormedStep_Inr: "wellFormedStep (\<lambda>r. Inr r)"
  by (simp add: wellFormedStep_def)

lemma wellFormedStep_andThen:
  "wellFormedStep f \<Longrightarrow> wellFormedStep g \<Longrightarrow> wellFormedStep (\<lambda>r. andThen (f r) g)"
  by (auto simp: wellFormedStep_def andThen_def split: sum.splits)

lemma wellFormedStep_orFault:
  "x \<noteq> Inl MalformedInstruction \<Longrightarrow> (\<And>a. wellFormedStep (\<lambda>r. k a r)) \<Longrightarrow>
   wellFormedStep (\<lambda>r. orFault x r (\<lambda>a. k a r))"
  by (auto simp: wellFormedStep_def orFault_def split: sum.splits)

lemma wellFormedStep_if:
  "(b \<Longrightarrow> wellFormedStep f) \<Longrightarrow> (\<not> b \<Longrightarrow> wellFormedStep g) \<Longrightarrow>
   wellFormedStep (\<lambda>r. if b then f r else g r)"
  by (cases b) simp_all

lemma addRequiredExtensions_error:
  "addRequiredExtensions ST es r = Inl (e, r') \<Longrightarrow> e = UnmetExtensionRequirement"
  by (induction es arbitrary: r) (auto split: if_splits)

lemma wellFormedStep_addRequirements: "wellFormedStep (\<lambda>r. addRequirements ST req r)"
  unfolding wellFormedStep_def addRequirements_def andThen_def
  by (auto split: sum.splits if_splits
      dest: addRequiredCapabilities_extensions addRequiredExtensions_error)

lemma getOperand_in_range:
  "i < getNumOperands MI \<Longrightarrow> getOperand MI i = Inr (operands MI ! i)"
  by (simp add: getOperand_def)

lemma getOperandImm_in_range:
  "i < getNumOperands MI \<Longrightarrow> getOperandImm MI i \<noteq> Inl MalformedInstruction"
  by (cases "operands MI ! i") (simp_all add: getOperandImm_def getOperand_def)

lemma wellFormedStep_addDimReqs:
  "wellFormedStep (\<lambda>reqs. addDimReqs dim isArrayed isMultisampled noSampler reqs ST)"
  unfolding addDimReqs_def
  by (intro wellFormedStep_if wellFormedStep_andThen wellFormedStep_addRequirements
      wellFormedStep_Inr)

lemma wellFormedStep_addOpTypeImageReqs:
  assumes "8 \<le> getNumOperands MI"
  shows "wellFormedStep (\<lambda>reqs. addOpTypeImageReqs MI reqs ST)"
proof -
  have r: "getOperandImm MI 7 \<noteq> Inl MalformedInstruction"
    "getOperandImm MI 4 \<noteq> Inl MalformedInstruction"
    "getOperandImm MI 5 \<noteq> Inl MalformedInstruction"
    "getOperandImm MI 6 \<noteq> Inl MalformedInstruction"
    "getOperandImm MI 2 \<noteq> Inl MalformedInstruction"
    using assms by (simp_all add: getOperandImm_in_range)
  have r8: "getNumOperands MI > 8 \<Longrightarrow> getOperandImm MI 8 \<noteq> Inl MalformedInstruction"
    by (simp add: getOperandImm_in_range)
  have nn: "\<not> \<not> 8 \<le> getNumOperands MI" using assms by simp
  show ?thesis
    unfolding addOpTypeImageReqs_def if_not_P[OF nn]
    by (intro wellFormedStep_orFault wellFormedStep_andThen wellFormedStep_if
        wellFormedStep_addRequirements wellFormedStep_addDimReqs wellFormedStep_Inr r r8)
qed

text \<open>
  C8. An \<open>OpTypeImage\<close> instruction is processed by \<open>addOpTypeImageReqs\<close>. With
  fewer than 8 operands the rule aborts with \<open>MalformedInstruction\<close> before it reads
  or adds anything. With at least 8 operands the indices 2, 4, 5, 6 and 7 are in
  range, and so is index 8 when there are more than 8 operands; the rule then never
  aborts with \<open>MalformedInstruction\<close>, whatever the accumulator and the profile.
\<close>

theorem image_rule_operands:
  "(getOpcode MI = OpTypeImage \<longrightarrow>
      addInstrRequirements MRI MI reqs ST = addOpTypeImageReqs MI reqs ST) \<and>
   (getNumOperands MI < 8 \<longrightarrow>
      addOpTypeImageReqs MI reqs ST = Inl (MalformedInstruction, reqs)) \<and>
   (8 \<le> getNumOperands MI \<longrightarrow>
      (\<forall>i \<in> {2, 4, 5, 6, 7}. getOperand MI i = Inr (operands MI ! i)) \<and>
      (8 < getNumOperands MI \<longrightarrow> getOperand MI 8 = Inr (operands MI ! 8)) \<and>
      (\<forall>r. addOpTypeImageReqs MI reqs ST \<noteq> Inl (MalformedInstruction, r)))"
proof (intro conjI impI)
  assume "getOpcode MI = OpTypeImage"
  then show "addInstrRequirements MRI MI reqs ST = addOpTypeImageReqs MI reqs ST"
    by (simp add: addInstrRequirements_def)
next
  assume "getNumOperands MI < 8"
  then show "addOpTypeImageReqs MI reqs ST = Inl (MalformedInstruction, reqs)"
    by (simp add: addOpTypeImageReqs_def)
next
  assume "8 \<le> getNumOperands MI"
  then show "\<forall>i \<in> {2, 4, 5, 6, 7}. getOperand MI i = Inr (operands MI ! i)"
    by (simp add: getOperand_in_range)
next
  assume "8 < getNumOperands MI"
  then show "getOperand MI 8 = Inr (operands MI ! 8)"
    by (simp add: getOperand_in_range)
next
  assume "8 \<le> getNumOperands MI"
  from wellFormedStep_addOpTypeImageReqs[OF this, of ST]
  show "\<forall>r. addOpTypeImageReqs MI reqs ST \<noteq> Inl (MalformedInstruction, r)"
    by (simp add: wellFormedStep_def)
qed


theorem image_rule_operands_witness:
  "getNumOperands \<lparr>getOpcode = OpTypeImage,
      operands = [Reg 1, Reg 2, Imm 1, Imm 0, Imm 0, Imm 0, Imm 0]\<rparr> < 8 \<and>
   addInstrRequirements (\<lambda>r. None)
     \<lparr>getOpcode = OpTypeImage, operands = [Reg 1, Reg 2, Imm 1, Imm 0, Imm 0, Imm 0, Imm 0]\<rparr>
     newSPIRVRequirementHandler kernelProfile =
     Inl (MalformedInstruction, newSPIRVRequirementHandler) \<and>
   8 \<le> getNumOperands \<lparr>getOpcode = OpTypeImage,
      operands = [Reg 1, Reg 2, Imm 1, Imm 0, Imm 0, Imm 0, Imm 0, Imm 0]\<rparr> \<and>
   addInstrRequirements (\<lambda>r. None)
     \<lparr>getOpcode = OpTypeImage,
      operands = [Reg 1, Reg 2, Imm 1, Imm 0, Imm 0, Imm 0, Imm 0, Imm 0]\<rparr>
     newSPIRVRequirementHandler kernelProfile =
     Inr \<lparr>enabledCaps = [Capability_ImageBasic, Capability_Kernel], extensions = []\<rparr>"
proof -
  let ?short = "\<lparr>getOpcode = OpTypeImage,
                  operands = [Reg 1, Reg 2, Imm 1, Imm 0, Imm 0, Imm 0, Imm 0]\<rparr>"
  let ?full = "\<lparr>getOpcode = OpTypeImage,
                 operands = [Reg 1, Reg 2, Imm 1, Imm 0, Imm 0, Imm 0, Imm 0, Imm 0]\<rparr>"
  have n: "getNumOperands ?short < 8" "8 \<le> getNumOperands ?full"
    by (simp_all add: getNumOperands_def)
  have run: "addOpTypeImageReqs ?full newSPIRVRequirementHandler kernelProfile =
               Inr \<lparr>enabledCaps = [Capability_ImageBasic, Capability_Kernel], extensions = []\<rparr>"
    by (simp add: addOpTypeImageReqs_def addDimReqs_def orFault_def andThen_def
        getOperandImm_def getOperand_def getNumOperands_def
        getImageFormatRequirements_def getEnumRequirements_def alternatives_def
        DEF_ImageFormat_def capabilityRequirement_def isKernel_def
        addRequirements_def addRequiredCapabilities_def inVersionWindow_def
        enableCapability.simps prerequisites_def DEF_Capability_def
        canUseCapability_def kernelProfile_def exampleProfile_def
        newSPIRVRequirementHandler_def)
  from image_rule_operands[of ?short "\<lambda>r. None" newSPIRVRequirementHandler kernelProfile]
    image_rule_operands[of ?full "\<lambda>r. None" newSPIRVRequirementHandler kernelProfile]
    n run
  show ?thesis by simp
qed



lemma addCapability_leaf:
  assumes "prerequisites c = []"
  shows "addCapability c newSPIRVRequirementHandler = \<lparr>enabledCaps = [c], extensions = []\<rparr>"
  using assms
  by (simp add: addCapability_def newSPIRVRequirementHandler_def enableCapability.simps)

lemma width_capabilities_leaf:
  "prerequisites Capability_Int64 = []" "prerequisites Capability_Int16 = []"
  "prerequisites Capability_Int8 = []" "prerequisites Capability_Float64 = []"
  "prerequisites Capability_Float16 = []"
  by (simp_all add: prerequisites_def DEF_Capability_def)

lemma addCapability_Vector16:
  "addCapability Capability_Vector16 newSPIRVRequirementHandler =
     \<lparr>enabledCaps = [Capability_Vector16, Capability_Kernel], extensions = []\<rparr>"
  by (simp add: addCapability_def newSPIRVRequirementHandler_def enableCapability.simps
      prerequisites_def DEF_Capability_def)

text \<open>
  C9. The type instructions compare the operand, narrowed to 32 bits. \<open>OpTypeInt\<close>
  adds \<open>Int64\<close>, \<open>Int16\<close> or \<open>Int8\<close> for the widths 64, 16 and 8 and nothing for
  any other width; \<open>OpTypeFloat\<close> adds \<open>Float64\<close> or \<open>Float16\<close> for 64 and 16 and
  nothing otherwise; \<open>OpTypeVector\<close> adds \<open>Vector16\<close> for 8 or 16 components and
  nothing otherwise, which for the component counts 2, 3, 4, 8 and 16 of SPIR-V is the
  threshold of 8. On a fresh accumulator the enabled capabilities are then as listed
  (\<open>Vector16\<close> brings its prerequisite \<open>Kernel\<close>), and a function that holds only a
  64-bit integer type declares exactly \<open>Int64\<close>.
\<close>

theorem width_dependent_rules:
  "(getOpcode MI = OpTypeInt \<and> getOperandImm MI 1 = Inr imm \<and> bitWidth = (ucast imm :: 32 word) \<longrightarrow>
      addInstrRequirements MRI MI reqs ST =
        Inr (if bitWidth = 64 then addCapability Capability_Int64 reqs
             else if bitWidth = 16 then addCapability Capability_Int16 reqs
             else if bitWidth = 8 then addCapability Capability_Int8 reqs
             else reqs) \<and>
      addInstrRequirements MRI MI newSPIRVRequirementHandler ST =
        Inr \<lparr>enabledCaps = (if bitWidth = 64 then [Capability_Int64]
                            else if bitWidth = 16 then [Capability_Int16]
                            else if bitWidth = 8 then [Capability_Int8]
                            else []),
             extensions = []\<rparr> \<and>
      (bitWidth = 64 \<longrightarrow>
         runOnMachineFunction \<lparr>blocks = [[MI]], getRegInfo = MRI\<rparr> ST =
           Inr [DeclareCapability Capability_Int64])) \<and>
   (getOpcode MI = OpTypeFloat \<and> getOperandImm MI 1 = Inr imm \<and> bitWidth = (ucast imm :: 32 word) \<longrightarrow>
      addInstrRequirements MRI MI reqs ST =
        Inr (if bitWidth = 64 then addCapability Capability_Float64 reqs
             else if bitWidth = 16 then addCapability Capability_Float16 reqs
             else reqs) \<and>
      addInstrRequirements MRI MI newSPIRVRequirementHandler ST =
        Inr \<lparr>enabledCaps = (if bitWidth = 64 then [Capability_Float64]
                            else if bitWidth = 16 then [Capability_Float16]
                            else []),
             extensions = []\<rparr>) \<and>
   (getOpcode MI = OpTypeVector \<and> getOperandImm MI 2 = Inr imm \<and>
    numComponents = (ucast imm :: 32 word) \<longrightarrow>
      addInstrRequirements MRI MI reqs ST =
        Inr (if numComponents = 8 \<or> numComponents = 16
             then addCapability Capability_Vector16 reqs else reqs) \<and>
      addInstrRequirements MRI MI newSPIRVRequirementHandler ST =
        Inr \<lparr>enabledCaps = (if numComponents = 8 \<or> numComponents = 16
                            then [Capability_Vector16, Capability_Kernel] else []),
             extensions = []\<rparr> \<and>
      (numComponents \<in> {2, 3, 4, 8, 16} \<longrightarrow>
         (numComponents = 8 \<or> numComponents = 16) = (8 \<le> numComponents)))"
proof (intro conjI impI)
  assume a: "getOpcode MI = OpTypeInt \<and> getOperandImm MI 1 = Inr imm \<and>
             bitWidth = (ucast imm :: 32 word)"
  then show general: "addInstrRequirements MRI MI reqs ST =
        Inr (if bitWidth = 64 then addCapability Capability_Int64 reqs
             else if bitWidth = 16 then addCapability Capability_Int16 reqs
             else if bitWidth = 8 then addCapability Capability_Int8 reqs
             else reqs)" for reqs
    by (simp add: addInstrRequirements_def orFault_def Let_def)
  show fresh: "addInstrRequirements MRI MI newSPIRVRequirementHandler ST =
        Inr \<lparr>enabledCaps = (if bitWidth = 64 then [Capability_Int64]
                            else if bitWidth = 16 then [Capability_Int16]
                            else if bitWidth = 8 then [Capability_Int8]
                            else []),
             extensions = []\<rparr>"
    unfolding general
    by (simp add: addCapability_leaf width_capabilities_leaf)
       (simp add: newSPIRVRequirementHandler_def)
  assume "bitWidth = 64"
  with fresh show "runOnMachineFunction \<lparr>blocks = [[MI]], getRegInfo = MRI\<rparr> ST =
                     Inr [DeclareCapability Capability_Int64]"
    by (simp add: runOnMachineFunction_def andThen_def getMinimalCapabilities_def
        getExtensions_def)
next
  assume a: "getOpcode MI = OpTypeFloat \<and> getOperandImm MI 1 = Inr imm \<and>
             bitWidth = (ucast imm :: 32 word)"
  then show general: "addInstrRequirements MRI MI reqs ST =
        Inr (if bitWidth = 64 then addCapability Capability_Float64 reqs
             else if bitWidth = 16 then addCapability Capability_Float16 reqs
             else reqs)" for reqs
    by (simp add: addInstrRequirements_def orFault_def Let_def)
  show "addInstrRequirements MRI MI newSPIRVRequirementHandler ST =
        Inr \<lparr>enabledCaps = (if bitWidth = 64 then [Capability_Float64]
                            else if bitWidth = 16 then [Capability_Float16]
                            else []),
             extensions = []\<rparr>"
    unfolding general
    by (simp add: addCapability_leaf width_capabilities_leaf)
       (simp add: newSPIRVRequirementHandler_def)
next
  assume a: "getOpcode MI = OpTypeVector \<and> getOperandImm MI 2 = Inr imm \<and>
             numComponents = (ucast imm :: 32 word)"
  then show general: "addInstrRequirements MRI MI reqs ST =
        Inr (if numComponents = 8 \<or> numComponents = 16
             then addCapability Capability_Vector16 reqs else reqs)" for reqs
    by (simp add: addInstrRequirements_def orFault_def Let_def)
  show "addInstrRequirements MRI MI newSPIRVRequirementHandler ST =
        Inr \<lparr>enabledCaps = (if numComponents = 8 \<or> numComponents = 16
                            then [Capability_Vector16, Capability_Kernel] else []),
             extensions = []\<rparr>"
    unfolding general
    by (simp add: addCapability_Vector16) (simp add: newSPIRVRequirementHandler_def)
  assume "numComponents \<in> {2, 3, 4, 8, 16}"
  then show "(numComponents = 8 \<or> numComponents = 16) = (8 \<le> numComponents)"
    by auto
qed

theorem width_dependent_rules_witness:
  "getOperandImm \<lparr>getOpcode = OpTypeInt, operands = [Reg 1, Imm 64, Imm 0]\<rparr> 1 = Inr 64 \<and>
   runOnMachineFunction
     \<lparr>blocks = [[\<lparr>getOpcode = OpTypeInt, operands = [Reg 1, Imm 64, Imm 0]\<rparr>]],
      getRegInfo = (\<lambda>r. None)\<rparr> kernelProfile =
     Inr [DeclareCapability Capability_Int64] \<and>
   getOperandImm \<lparr>getOpcode = OpTypeInt, operands = [Reg 1, Imm 32, Imm 0]\<rparr> 1 = Inr 32 \<and>
   addInstrRequirements (\<lambda>r. None)
     \<lparr>getOpcode = OpTypeInt, operands = [Reg 1, Imm 32, Imm 0]\<rparr>
     newSPIRVRequirementHandler kernelProfile = Inr \<lparr>enabledCaps = [], extensions = []\<rparr>"
proof -
  let ?i64 = "\<lparr>getOpcode = OpTypeInt, operands = [Reg 1, Imm 64, Imm 0]\<rparr>"
  let ?i32 = "\<lparr>getOpcode = OpTypeInt, operands = [Reg 1, Imm 32, Imm 0]\<rparr>"
  have ops: "getOperandImm ?i64 1 = Inr 64" "getOperandImm ?i32 1 = Inr 32"
    by (simp_all add: getOperandImm_def getOperand_def getNumOperands_def)
  from width_dependent_rules
         [where MI = ?i64 and imm = 64 and bitWidth = 64 and MRI = "\<lambda>r. None"
            and ST = kernelProfile]
    width_dependent_rules
         [where MI = ?i32 and imm = 32 and bitWidth = 32 and MRI = "\<lambda>r. None"
            and ST = kernelProfile]
    ops
  show ?thesis by (simp add: newSPIRVRequirementHandler_def)
qed


section \<open>Unmet capability requirements\<close>

subsection \<open>The requests of an instruction\<close>

text \<open>
  What an instruction asks of the accumulator, in the order of the calls of
  \<open>addInstrRequirements\<close>: a requirement handed to \<open>addRequirements\<close>, a capability
  handed to \<open>addCapability\<close>, or the failure of an operand read, after which nothing
  follows. The operands, the register information and the profile decide the
  requests; the accumulator does not. \<open>runRequests\<close> makes the requests one after the
  other, and \<open>addInstrRequirements\<close> is \<open>runRequests\<close> on \<open>instrRequests\<close>
  (\<open>addInstrRequirements_requests\<close> below).
\<close>

datatype Request = Require SPIRVRequirements | Enable Capability | Abort error

fun runRequests :: "SPIRVSubtarget \<Rightarrow> Request list \<Rightarrow> SPIRVRequirementHandler \<Rightarrow> result" where
  "runRequests ST [] reqs = Inr reqs"
| "runRequests ST (Require req # rest) reqs =
     andThen (addRequirements ST req reqs) (\<lambda>reqs1. runRequests ST rest reqs1)"
| "runRequests ST (Enable c # rest) reqs = runRequests ST rest (addCapability c reqs)"
| "runRequests ST (Abort e # rest) reqs = Inl (e, reqs)"









lemma runRequests_single:
  "runRequests ST [Require req] reqs = addRequirements ST req reqs"
  by (cases "addRequirements ST req reqs") (simp_all add: andThen_def)

lemma runRequests_if:
  "runRequests ST (if b then xs else ys) reqs =
     (if b then runRequests ST xs reqs else runRequests ST ys reqs)"
  by simp








subsection \<open>A request that the profile cannot meet\<close>







end
